theory Spec2Isabelle
  imports Main "HOL-Library.Word" "HOL-Library.Sublist"
begin

section \<open>Payments service: the lifecycle engine of ms-go-payments\<close>

text \<open>
  A shallow embedding of \<^verbatim>\<open>app/service\<close> (payment service, provider callback
  handling, batch jobs), \<^verbatim>\<open>app/repository\<close>, \<^verbatim>\<open>app/entity\<close> and
  \<^verbatim>\<open>app/provider\<close>.

  Conventions of the embedding.
  \<^item> Go's \<^verbatim>\<open>int32\<close> is \<open>32 word\<close>, compared through \<open>sint\<close>; \<^verbatim>\<open>int64\<close> is
    \<open>64 word\<close>; \<^verbatim>\<open>uint64\<close> row identifiers are \<open>nat\<close> (they are only compared).
  \<^item> \<^verbatim>\<open>time.Time\<close> and \<^verbatim>\<open>time.Duration\<close> are \<open>int\<close> (nanoseconds);
    \<^verbatim>\<open>time.Now().UTC()\<close> is a parameter \<open>now\<close> of each operation, and
    \<^verbatim>\<open>uuid.NewString()\<close> a parameter of \<open>CreatePayment\<close>.
  \<^item> A Go pointer that may be nil (\<^verbatim>\<open>*string\<close>, \<^verbatim>\<open>*time.Time\<close>) is an \<open>option\<close>.
  \<^item> Strings are byte strings holding UTF-8; \<^verbatim>\<open>strings.TrimSpace\<close>,
    \<^verbatim>\<open>strings.ToLower\<close> and \<^verbatim>\<open>strings.ToUpper\<close> decode them into runes as Go does.
  \<^item> The SQL tables are lists of rows. A storage call may fail: the world carries a
    script of outcomes, one per upcoming storage call, so that every
    \<^verbatim>\<open>if err != nil\<close> branch of the source is a branch of the model.
  \<^item> The provider capability and the HTTP client are records of functions held by the
    service; every call to a provider is appended to a log.
\<close>

subsection \<open>Machine types and strings\<close>

type_synonym int32 = "32 word"
type_synonym int64 = "64 word"
type_synonym time = int
type_synonym duration = int

text \<open>
  A Go string is a sequence of bytes, here a \<open>char list\<close> (a \<open>char\<close> is one byte); text
  is in UTF-8. A \<^verbatim>\<open>rune\<close> is a code point (\<^verbatim>\<open>int32\<close>, here \<open>int\<close>). The package
  \<^verbatim>\<open>strings\<close> works on runes: \<^verbatim>\<open>TrimSpace\<close> strips Unicode white space and
  \<^verbatim>\<open>ToLower\<close>, \<^verbatim>\<open>ToUpper\<close> map every letter that has a case mapping, so the
  embedding follows packages \<^verbatim>\<open>unicode/utf8\<close>, \<^verbatim>\<open>unicode\<close> and \<^verbatim>\<open>strings\<close> of the
  Go release the module names (go 1.25, Unicode 15.0.0).
\<close>

type_synonym rune = int

definition RuneError :: rune where "RuneError = 0xFFFD"
definition RuneSelf :: int where "RuneSelf = 0x80"
definition MaxRune :: rune where "MaxRune = 0x10FFFF"
definition MaxASCII :: rune where "MaxASCII = 0x7F"
definition UTFMax :: int where "UTFMax = 4"

definition byte :: "char \<Rightarrow> int" where
  "byte c = of_char c"

text \<open>
  \<^verbatim>\<open>utf8.DecodeRuneInString\<close>: the first rune of \<open>s\<close> and its width in bytes;
  \<open>(RuneError, 0)\<close> for the empty string and \<open>(RuneError, 1)\<close> for a byte that starts no
  well-formed encoding (overlong forms and surrogates included). \<open>first_byte\<close> is the
  table \<^verbatim>\<open>first\<close> with \<^verbatim>\<open>acceptRanges\<close>: the width announced by a leading byte and
  the range allowed for the second byte. The masks \<^verbatim>\<open>s0&mask2\<close>, \<^verbatim>\<open>s1&maskx\<close> ... and
  the shifts are written \<open>mod\<close> and \<open>*\<close>.
\<close>

definition first_byte :: "int \<Rightarrow> (nat \<times> int \<times> int) option" where
  "first_byte b =
     (if 0xC2 \<le> b \<and> b \<le> 0xDF then Some (2, 0x80, 0xBF)
      else if b = 0xE0 then Some (3, 0xA0, 0xBF)
      else if 0xE1 \<le> b \<and> b \<le> 0xEC then Some (3, 0x80, 0xBF)
      else if b = 0xED then Some (3, 0x80, 0x9F)
      else if 0xEE \<le> b \<and> b \<le> 0xEF then Some (3, 0x80, 0xBF)
      else if b = 0xF0 then Some (4, 0x90, 0xBF)
      else if 0xF1 \<le> b \<and> b \<le> 0xF3 then Some (4, 0x80, 0xBF)
      else if b = 0xF4 then Some (4, 0x80, 0x8F)
      else None)"

definition DecodeRuneInString :: "string \<Rightarrow> rune \<times> nat" where
  "DecodeRuneInString s =
     (if length s < 1 then (RuneError, 0)
      else
        (let s0 = byte (s ! 0)
         in if s0 < RuneSelf then (s0, 1)
            else
              (case first_byte s0 of
                 None \<Rightarrow> (RuneError, 1)
               | Some (sz, lo, hi) \<Rightarrow>
                   if length s < sz then (RuneError, 1)
                   else
                     (let s1 = byte (s ! 1)
                      in if s1 < lo \<or> hi < s1 then (RuneError, 1)
                         else if sz \<le> 2 then (s0 mod 0x20 * 0x40 + s1 mod 0x40, 2)
                         else
                           (let s2 = byte (s ! 2)
                            in if s2 < 0x80 \<or> 0xBF < s2 then (RuneError, 1)
                               else if sz \<le> 3
                                 then (s0 mod 0x10 * 0x1000 + s1 mod 0x40 * 0x40 + s2 mod 0x40, 3)
                               else
                                 (let s3 = byte (s ! 3)
                                  in if s3 < 0x80 \<or> 0xBF < s3 then (RuneError, 1)
                                     else (s0 mod 8 * 0x40000 + s1 mod 0x40 * 0x1000
                                             + s2 mod 0x40 * 0x40 + s3 mod 0x40, 4)))))))"

text \<open>
  \<^verbatim>\<open>utf8.DecodeLastRuneInString\<close>: the last rune of \<open>s\<close> and its width. It steps back
  from the last byte over at most three bytes to a byte that can start a rune
  (\<^verbatim>\<open>for start--; start >= lim; start--\<close>, here a search through the positions
  \<open>n - 2\<close>, \<open>n - 3\<close>, \<open>n - 4\<close> not below \<open>lim\<close>) and decodes forward from there.
\<close>

definition RuneStart :: "int \<Rightarrow> bool" where
  "RuneStart b = (\<not> (0x80 \<le> b \<and> b \<le> 0xBF))"

definition DecodeLastRuneInString :: "string \<Rightarrow> rune \<times> nat" where
  "DecodeLastRuneInString s =
     (let n = int (length s)
      in if n = 0 then (RuneError, 0)
         else
           (let r = byte (s ! nat (n - 1))
            in if r < RuneSelf then (r, 1)
               else
                 (let lim = (if n - UTFMax < 0 then 0 else n - UTFMax);
                      start = (case find (\<lambda>i. RuneStart (byte (s ! nat i)))
                                      (filter (\<lambda>i. lim \<le> i) [n - 2, n - 3, n - 4]) of
                                 Some i \<Rightarrow> i
                               | None \<Rightarrow> lim - 1);
                      start1 = (if start < 0 then 0 else start)
                  in case DecodeRuneInString (drop (nat start1) s) of
                       (r1, sz) \<Rightarrow>
                         if start1 + int sz \<noteq> n then (RuneError, 1) else (r1, sz))))"

text \<open>\<^verbatim>\<open>utf8.AppendRune\<close>: the UTF-8 encoding of a rune; a rune out of range or a
  surrogate is encoded as \<open>RuneError\<close>.\<close>

definition AppendRune :: "rune \<Rightarrow> string" where
  "AppendRune r =
     (if 0 \<le> r \<and> r \<le> 0x7F then [char_of r]
      else if 0 \<le> r \<and> r \<le> 0x7FF
        then [char_of (0xC0 + r div 0x40), char_of (0x80 + r mod 0x40)]
      else
        (let r1 = (if r < 0 \<or> MaxRune < r \<or> (0xD800 \<le> r \<and> r \<le> 0xDFFF)
                   then RuneError else r)
         in if r1 \<le> 0xFFFF
            then [char_of (0xE0 + r1 div 0x1000), char_of (0x80 + r1 div 0x40 mod 0x40),
                  char_of (0x80 + r1 mod 0x40)]
            else [char_of (0xF0 + r1 div 0x40000), char_of (0x80 + r1 div 0x1000 mod 0x40),
                  char_of (0x80 + r1 div 0x40 mod 0x40), char_of (0x80 + r1 mod 0x40)]))"

text \<open>\<^verbatim>\<open>unicode.IsSpace\<close>: the Latin-1 white space, and beyond Latin-1 the property
  \<^verbatim>\<open>White_Space\<close>.\<close>

definition IsSpace :: "rune \<Rightarrow> bool" where
  "IsSpace r =
     (if 0 \<le> r \<and> r \<le> 0xFF
      then r = 9 \<or> r = 10 \<or> r = 11 \<or> r = 12 \<or> r = 13 \<or> r = 32 \<or> r = 0x85 \<or> r = 0xA0
      else r = 0x1680 \<or> (0x2000 \<le> r \<and> r \<le> 0x200A) \<or> r = 0x2028 \<or> r = 0x2029
           \<or> r = 0x202F \<or> r = 0x205F \<or> r = 0x3000)"

text \<open>
  \<^verbatim>\<open>strings.TrimLeftFunc\<close> and \<^verbatim>\<open>strings.TrimRightFunc\<close>: the loops of
  \<^verbatim>\<open>indexFunc\<close> and \<^verbatim>\<open>lastIndexFunc\<close>, which decode one rune at a time from the left,
  respectively from the right, until a rune fails \<open>f\<close>. \<^verbatim>\<open>strings.TrimSpace(s)\<close> is
  \<^verbatim>\<open>TrimFunc(s, unicode.IsSpace)\<close>; its loops over ASCII bytes are a shortcut with the
  same result.
\<close>

fun TrimLeftFunc :: "string \<Rightarrow> (rune \<Rightarrow> bool) \<Rightarrow> string" where
  "TrimLeftFunc [] f = []"
| "TrimLeftFunc (c # cs) f =
     (case DecodeRuneInString (c # cs) of
        (r, sz) \<Rightarrow> if f r then TrimLeftFunc (drop (sz - 1) cs) f else c # cs)"

function TrimRightFunc :: "string \<Rightarrow> (rune \<Rightarrow> bool) \<Rightarrow> string" where
  "TrimRightFunc s f =
     (if s = [] then []
      else if f (fst (DecodeLastRuneInString s))
        then TrimRightFunc (take (length s - snd (DecodeLastRuneInString s)) s) f
      else s)"
  by pat_completeness auto
termination
proof (relation "measure (\<lambda>(s, f). length s)")
  show "wf (measure (\<lambda>(s, f). length s))" by simp
next
  fix s :: string and f :: "rune \<Rightarrow> bool"
  assume ne: "s \<noteq> []"
  have st: "(case find P (filter (\<lambda>i. lim \<le> i) [n - 2, n - 3, n - 4]) of
               Some i \<Rightarrow> i | None \<Rightarrow> lim - 1) < n"
    if "lim \<le> n" for P and lim n :: int
    using that by (auto split: option.splits if_splits)
  have "0 < snd (DecodeLastRuneInString s)"
    using ne st[of "if int (length s) - 4 < 0 then 0 else int (length s) - 4" "int (length s)"]
    by (auto simp: DecodeLastRuneInString_def Let_def UTFMax_def
          split: prod.splits if_splits)
  then show "((take (length s - snd (DecodeLastRuneInString s)) s, f), (s, f))
               \<in> measure (\<lambda>(s, f). length s)"
    using ne by (cases s) auto
qed

definition TrimFunc :: "string \<Rightarrow> (rune \<Rightarrow> bool) \<Rightarrow> string" where
  "TrimFunc s f = TrimRightFunc (TrimLeftFunc s f) f"

definition TrimSpace :: "string \<Rightarrow> string" where
  "TrimSpace s = TrimFunc s IsSpace"

text \<open>
  \<^verbatim>\<open>unicode.CaseRanges\<close>: the simple case mappings of Unicode 15.0.0 as ranges
  \<open>(Lo, Hi, dUpper, dLower)\<close> of code points sharing the deltas to their upper-case
  and lower-case forms (the delta to title case is not used by the service and is left
  out); the delta \<open>UpperLower\<close> marks a run of alternating upper-case and lower-case
  letters. \<open>to_case\<close> is \<^verbatim>\<open>unicode.to\<close>, whose binary search is a linear one here.
\<close>

definition UpperCase :: int where "UpperCase = 0"
definition LowerCase :: int where "LowerCase = 1"
definition UpperLower :: rune where "UpperLower = MaxRune + 1"

definition CaseRanges :: "(rune \<times> rune \<times> rune \<times> rune) list" where
  "CaseRanges = [
    (0x0041, 0x005A, 0, 32), (0x0061, 0x007A, - 32, 0), (0x00B5, 0x00B5, 743, 0),
    (0x00C0, 0x00D6, 0, 32), (0x00D8, 0x00DE, 0, 32), (0x00E0, 0x00F6, - 32, 0),
    (0x00F8, 0x00FE, - 32, 0), (0x00FF, 0x00FF, 121, 0),
    (0x0100, 0x012F, UpperLower, UpperLower), (0x0130, 0x0130, 0, - 199),
    (0x0131, 0x0131, - 232, 0), (0x0132, 0x0137, UpperLower, UpperLower),
    (0x0139, 0x0148, UpperLower, UpperLower), (0x014A, 0x0177, UpperLower, UpperLower),
    (0x0178, 0x0178, 0, - 121), (0x0179, 0x017E, UpperLower, UpperLower),
    (0x017F, 0x017F, - 300, 0), (0x0180, 0x0180, 195, 0), (0x0181, 0x0181, 0, 210),
    (0x0182, 0x0185, UpperLower, UpperLower), (0x0186, 0x0186, 0, 206),
    (0x0187, 0x0188, UpperLower, UpperLower), (0x0189, 0x018A, 0, 205),
    (0x018B, 0x018C, UpperLower, UpperLower), (0x018E, 0x018E, 0, 79), (0x018F, 0x018F, 0, 202),
    (0x0190, 0x0190, 0, 203), (0x0191, 0x0192, UpperLower, UpperLower),
    (0x0193, 0x0193, 0, 205), (0x0194, 0x0194, 0, 207), (0x0195, 0x0195, 97, 0),
    (0x0196, 0x0196, 0, 211), (0x0197, 0x0197, 0, 209),
    (0x0198, 0x0199, UpperLower, UpperLower), (0x019A, 0x019A, 163, 0),
    (0x019C, 0x019C, 0, 211), (0x019D, 0x019D, 0, 213), (0x019E, 0x019E, 130, 0),
    (0x019F, 0x019F, 0, 214), (0x01A0, 0x01A5, UpperLower, UpperLower),
    (0x01A6, 0x01A6, 0, 218), (0x01A7, 0x01A8, UpperLower, UpperLower),
    (0x01A9, 0x01A9, 0, 218), (0x01AC, 0x01AD, UpperLower, UpperLower),
    (0x01AE, 0x01AE, 0, 218), (0x01AF, 0x01B0, UpperLower, UpperLower),
    (0x01B1, 0x01B2, 0, 217), (0x01B3, 0x01B6, UpperLower, UpperLower),
    (0x01B7, 0x01B7, 0, 219), (0x01B8, 0x01B9, UpperLower, UpperLower),
    (0x01BC, 0x01BD, UpperLower, UpperLower), (0x01BF, 0x01BF, 56, 0), (0x01C4, 0x01C4, 0, 2),
    (0x01C5, 0x01C5, - 1, 1), (0x01C6, 0x01C6, - 2, 0), (0x01C7, 0x01C7, 0, 2),
    (0x01C8, 0x01C8, - 1, 1), (0x01C9, 0x01C9, - 2, 0), (0x01CA, 0x01CA, 0, 2),
    (0x01CB, 0x01CB, - 1, 1), (0x01CC, 0x01CC, - 2, 0),
    (0x01CD, 0x01DC, UpperLower, UpperLower), (0x01DD, 0x01DD, - 79, 0),
    (0x01DE, 0x01EF, UpperLower, UpperLower), (0x01F1, 0x01F1, 0, 2), (0x01F2, 0x01F2, - 1, 1),
    (0x01F3, 0x01F3, - 2, 0), (0x01F4, 0x01F5, UpperLower, UpperLower),
    (0x01F6, 0x01F6, 0, - 97), (0x01F7, 0x01F7, 0, - 56),
    (0x01F8, 0x021F, UpperLower, UpperLower), (0x0220, 0x0220, 0, - 130),
    (0x0222, 0x0233, UpperLower, UpperLower), (0x023A, 0x023A, 0, 10795),
    (0x023B, 0x023C, UpperLower, UpperLower), (0x023D, 0x023D, 0, - 163),
    (0x023E, 0x023E, 0, 10792), (0x023F, 0x0240, 10815, 0),
    (0x0241, 0x0242, UpperLower, UpperLower), (0x0243, 0x0243, 0, - 195),
    (0x0244, 0x0244, 0, 69), (0x0245, 0x0245, 0, 71), (0x0246, 0x024F, UpperLower, UpperLower),
    (0x0250, 0x0250, 10783, 0), (0x0251, 0x0251, 10780, 0), (0x0252, 0x0252, 10782, 0),
    (0x0253, 0x0253, - 210, 0), (0x0254, 0x0254, - 206, 0), (0x0256, 0x0257, - 205, 0),
    (0x0259, 0x0259, - 202, 0), (0x025B, 0x025B, - 203, 0), (0x025C, 0x025C, 42319, 0),
    (0x0260, 0x0260, - 205, 0), (0x0261, 0x0261, 42315, 0), (0x0263, 0x0263, - 207, 0),
    (0x0265, 0x0265, 42280, 0), (0x0266, 0x0266, 42308, 0), (0x0268, 0x0268, - 209, 0),
    (0x0269, 0x0269, - 211, 0), (0x026A, 0x026A, 42308, 0), (0x026B, 0x026B, 10743, 0),
    (0x026C, 0x026C, 42305, 0), (0x026F, 0x026F, - 211, 0), (0x0271, 0x0271, 10749, 0),
    (0x0272, 0x0272, - 213, 0), (0x0275, 0x0275, - 214, 0), (0x027D, 0x027D, 10727, 0),
    (0x0280, 0x0280, - 218, 0), (0x0282, 0x0282, 42307, 0), (0x0283, 0x0283, - 218, 0),
    (0x0287, 0x0287, 42282, 0), (0x0288, 0x0288, - 218, 0), (0x0289, 0x0289, - 69, 0),
    (0x028A, 0x028B, - 217, 0), (0x028C, 0x028C, - 71, 0), (0x0292, 0x0292, - 219, 0),
    (0x029D, 0x029D, 42261, 0), (0x029E, 0x029E, 42258, 0), (0x0345, 0x0345, 84, 0),
    (0x0370, 0x0373, UpperLower, UpperLower), (0x0376, 0x0377, UpperLower, UpperLower),
    (0x037B, 0x037D, 130, 0), (0x037F, 0x037F, 0, 116), (0x0386, 0x0386, 0, 38),
    (0x0388, 0x038A, 0, 37), (0x038C, 0x038C, 0, 64), (0x038E, 0x038F, 0, 63),
    (0x0391, 0x03A1, 0, 32), (0x03A3, 0x03AB, 0, 32), (0x03AC, 0x03AC, - 38, 0),
    (0x03AD, 0x03AF, - 37, 0), (0x03B1, 0x03C1, - 32, 0), (0x03C2, 0x03C2, - 31, 0),
    (0x03C3, 0x03CB, - 32, 0), (0x03CC, 0x03CC, - 64, 0), (0x03CD, 0x03CE, - 63, 0),
    (0x03CF, 0x03CF, 0, 8), (0x03D0, 0x03D0, - 62, 0), (0x03D1, 0x03D1, - 57, 0),
    (0x03D5, 0x03D5, - 47, 0), (0x03D6, 0x03D6, - 54, 0), (0x03D7, 0x03D7, - 8, 0),
    (0x03D8, 0x03EF, UpperLower, UpperLower), (0x03F0, 0x03F0, - 86, 0),
    (0x03F1, 0x03F1, - 80, 0), (0x03F2, 0x03F2, 7, 0), (0x03F3, 0x03F3, - 116, 0),
    (0x03F4, 0x03F4, 0, - 60), (0x03F5, 0x03F5, - 96, 0),
    (0x03F7, 0x03F8, UpperLower, UpperLower), (0x03F9, 0x03F9, 0, - 7),
    (0x03FA, 0x03FB, UpperLower, UpperLower), (0x03FD, 0x03FF, 0, - 130),
    (0x0400, 0x040F, 0, 80), (0x0410, 0x042F, 0, 32), (0x0430, 0x044F, - 32, 0),
    (0x0450, 0x045F, - 80, 0), (0x0460, 0x0481, UpperLower, UpperLower),
    (0x048A, 0x04BF, UpperLower, UpperLower), (0x04C0, 0x04C0, 0, 15),
    (0x04C1, 0x04CE, UpperLower, UpperLower), (0x04CF, 0x04CF, - 15, 0),
    (0x04D0, 0x052F, UpperLower, UpperLower), (0x0531, 0x0556, 0, 48),
    (0x0561, 0x0586, - 48, 0), (0x10A0, 0x10C5, 0, 7264), (0x10C7, 0x10C7, 0, 7264),
    (0x10CD, 0x10CD, 0, 7264), (0x10D0, 0x10FA, 3008, 0), (0x10FD, 0x10FF, 3008, 0),
    (0x13A0, 0x13EF, 0, 38864), (0x13F0, 0x13F5, 0, 8), (0x13F8, 0x13FD, - 8, 0),
    (0x1C80, 0x1C80, - 6254, 0), (0x1C81, 0x1C81, - 6253, 0), (0x1C82, 0x1C82, - 6244, 0),
    (0x1C83, 0x1C84, - 6242, 0), (0x1C85, 0x1C85, - 6243, 0), (0x1C86, 0x1C86, - 6236, 0),
    (0x1C87, 0x1C87, - 6181, 0), (0x1C88, 0x1C88, 35266, 0), (0x1C90, 0x1CBA, 0, - 3008),
    (0x1CBD, 0x1CBF, 0, - 3008), (0x1D79, 0x1D79, 35332, 0), (0x1D7D, 0x1D7D, 3814, 0),
    (0x1D8E, 0x1D8E, 35384, 0), (0x1E00, 0x1E95, UpperLower, UpperLower),
    (0x1E9B, 0x1E9B, - 59, 0), (0x1E9E, 0x1E9E, 0, - 7615),
    (0x1EA0, 0x1EFF, UpperLower, UpperLower), (0x1F00, 0x1F07, 8, 0), (0x1F08, 0x1F0F, 0, - 8),
    (0x1F10, 0x1F15, 8, 0), (0x1F18, 0x1F1D, 0, - 8), (0x1F20, 0x1F27, 8, 0),
    (0x1F28, 0x1F2F, 0, - 8), (0x1F30, 0x1F37, 8, 0), (0x1F38, 0x1F3F, 0, - 8),
    (0x1F40, 0x1F45, 8, 0), (0x1F48, 0x1F4D, 0, - 8), (0x1F51, 0x1F51, 8, 0),
    (0x1F53, 0x1F53, 8, 0), (0x1F55, 0x1F55, 8, 0), (0x1F57, 0x1F57, 8, 0),
    (0x1F59, 0x1F59, 0, - 8), (0x1F5B, 0x1F5B, 0, - 8), (0x1F5D, 0x1F5D, 0, - 8),
    (0x1F5F, 0x1F5F, 0, - 8), (0x1F60, 0x1F67, 8, 0), (0x1F68, 0x1F6F, 0, - 8),
    (0x1F70, 0x1F71, 74, 0), (0x1F72, 0x1F75, 86, 0), (0x1F76, 0x1F77, 100, 0),
    (0x1F78, 0x1F79, 128, 0), (0x1F7A, 0x1F7B, 112, 0), (0x1F7C, 0x1F7D, 126, 0),
    (0x1F80, 0x1F87, 8, 0), (0x1F88, 0x1F8F, 0, - 8), (0x1F90, 0x1F97, 8, 0),
    (0x1F98, 0x1F9F, 0, - 8), (0x1FA0, 0x1FA7, 8, 0), (0x1FA8, 0x1FAF, 0, - 8),
    (0x1FB0, 0x1FB1, 8, 0), (0x1FB3, 0x1FB3, 9, 0), (0x1FB8, 0x1FB9, 0, - 8),
    (0x1FBA, 0x1FBB, 0, - 74), (0x1FBC, 0x1FBC, 0, - 9), (0x1FBE, 0x1FBE, - 7205, 0),
    (0x1FC3, 0x1FC3, 9, 0), (0x1FC8, 0x1FCB, 0, - 86), (0x1FCC, 0x1FCC, 0, - 9),
    (0x1FD0, 0x1FD1, 8, 0), (0x1FD8, 0x1FD9, 0, - 8), (0x1FDA, 0x1FDB, 0, - 100),
    (0x1FE0, 0x1FE1, 8, 0), (0x1FE5, 0x1FE5, 7, 0), (0x1FE8, 0x1FE9, 0, - 8),
    (0x1FEA, 0x1FEB, 0, - 112), (0x1FEC, 0x1FEC, 0, - 7), (0x1FF3, 0x1FF3, 9, 0),
    (0x1FF8, 0x1FF9, 0, - 128), (0x1FFA, 0x1FFB, 0, - 126), (0x1FFC, 0x1FFC, 0, - 9),
    (0x2126, 0x2126, 0, - 7517), (0x212A, 0x212A, 0, - 8383), (0x212B, 0x212B, 0, - 8262),
    (0x2132, 0x2132, 0, 28), (0x214E, 0x214E, - 28, 0), (0x2160, 0x216F, 0, 16),
    (0x2170, 0x217F, - 16, 0), (0x2183, 0x2184, UpperLower, UpperLower),
    (0x24B6, 0x24CF, 0, 26), (0x24D0, 0x24E9, - 26, 0), (0x2C00, 0x2C2F, 0, 48),
    (0x2C30, 0x2C5F, - 48, 0), (0x2C60, 0x2C61, UpperLower, UpperLower),
    (0x2C62, 0x2C62, 0, - 10743), (0x2C63, 0x2C63, 0, - 3814), (0x2C64, 0x2C64, 0, - 10727),
    (0x2C65, 0x2C65, - 10795, 0), (0x2C66, 0x2C66, - 10792, 0),
    (0x2C67, 0x2C6C, UpperLower, UpperLower), (0x2C6D, 0x2C6D, 0, - 10780),
    (0x2C6E, 0x2C6E, 0, - 10749), (0x2C6F, 0x2C6F, 0, - 10783), (0x2C70, 0x2C70, 0, - 10782),
    (0x2C72, 0x2C73, UpperLower, UpperLower), (0x2C75, 0x2C76, UpperLower, UpperLower),
    (0x2C7E, 0x2C7F, 0, - 10815), (0x2C80, 0x2CE3, UpperLower, UpperLower),
    (0x2CEB, 0x2CEE, UpperLower, UpperLower), (0x2CF2, 0x2CF3, UpperLower, UpperLower),
    (0x2D00, 0x2D25, - 7264, 0), (0x2D27, 0x2D27, - 7264, 0), (0x2D2D, 0x2D2D, - 7264, 0),
    (0xA640, 0xA66D, UpperLower, UpperLower), (0xA680, 0xA69B, UpperLower, UpperLower),
    (0xA722, 0xA72F, UpperLower, UpperLower), (0xA732, 0xA76F, UpperLower, UpperLower),
    (0xA779, 0xA77C, UpperLower, UpperLower), (0xA77D, 0xA77D, 0, - 35332),
    (0xA77E, 0xA787, UpperLower, UpperLower), (0xA78B, 0xA78C, UpperLower, UpperLower),
    (0xA78D, 0xA78D, 0, - 42280), (0xA790, 0xA793, UpperLower, UpperLower),
    (0xA794, 0xA794, 48, 0), (0xA796, 0xA7A9, UpperLower, UpperLower),
    (0xA7AA, 0xA7AA, 0, - 42308), (0xA7AB, 0xA7AB, 0, - 42319), (0xA7AC, 0xA7AC, 0, - 42315),
    (0xA7AD, 0xA7AD, 0, - 42305), (0xA7AE, 0xA7AE, 0, - 42308), (0xA7B0, 0xA7B0, 0, - 42258),
    (0xA7B1, 0xA7B1, 0, - 42282), (0xA7B2, 0xA7B2, 0, - 42261), (0xA7B3, 0xA7B3, 0, 928),
    (0xA7B4, 0xA7C3, UpperLower, UpperLower), (0xA7C4, 0xA7C4, 0, - 48),
    (0xA7C5, 0xA7C5, 0, - 42307), (0xA7C6, 0xA7C6, 0, - 35384),
    (0xA7C7, 0xA7CA, UpperLower, UpperLower), (0xA7D0, 0xA7D1, UpperLower, UpperLower),
    (0xA7D6, 0xA7D9, UpperLower, UpperLower), (0xA7F5, 0xA7F6, UpperLower, UpperLower),
    (0xAB53, 0xAB53, - 928, 0), (0xAB70, 0xABBF, - 38864, 0), (0xFF21, 0xFF3A, 0, 32),
    (0xFF41, 0xFF5A, - 32, 0), (0x10400, 0x10427, 0, 40), (0x10428, 0x1044F, - 40, 0),
    (0x104B0, 0x104D3, 0, 40), (0x104D8, 0x104FB, - 40, 0), (0x10570, 0x1057A, 0, 39),
    (0x1057C, 0x1058A, 0, 39), (0x1058C, 0x10592, 0, 39), (0x10594, 0x10595, 0, 39),
    (0x10597, 0x105A1, - 39, 0), (0x105A3, 0x105B1, - 39, 0), (0x105B3, 0x105B9, - 39, 0),
    (0x105BB, 0x105BC, - 39, 0), (0x10C80, 0x10CB2, 0, 64), (0x10CC0, 0x10CF2, - 64, 0),
    (0x118A0, 0x118BF, 0, 32), (0x118C0, 0x118DF, - 32, 0), (0x16E40, 0x16E5F, 0, 32),
    (0x16E60, 0x16E7F, - 32, 0), (0x1E900, 0x1E921, 0, 34), (0x1E922, 0x1E943, - 34, 0)
   ]"

definition to_case :: "int \<Rightarrow> rune \<Rightarrow> (rune \<times> rune \<times> rune \<times> rune) list \<Rightarrow> rune" where
  "to_case c r caseRange =
     (case find (\<lambda>(lo, hi, dU, dL). lo \<le> r \<and> r \<le> hi) caseRange of
        None \<Rightarrow> r
      | Some (lo, hi, dU, dL) \<Rightarrow>
          (let delta = (if c = UpperCase then dU else dL)
           in if MaxRune < delta then lo + ((r - lo) div 2 * 2 + c mod 2)
              else r + delta))"

definition unicode_ToLower :: "rune \<Rightarrow> rune" where
  "unicode_ToLower r =
     (if r \<le> MaxASCII then (if 0x41 \<le> r \<and> r \<le> 0x5A then r + 0x20 else r)
      else to_case LowerCase r CaseRanges)"

definition unicode_ToUpper :: "rune \<Rightarrow> rune" where
  "unicode_ToUpper r =
     (if r \<le> MaxASCII then (if 0x61 \<le> r \<and> r \<le> 0x7A then r - 0x20 else r)
      else to_case UpperCase r CaseRanges)"

text \<open>
  \<^verbatim>\<open>for _, c := range s\<close>: the runes of a string, an ill-formed byte giving
  \<open>RuneError\<close>. \<^verbatim>\<open>strings.Map\<close> (named \<open>Map_str\<close>) encodes the image of every rune and
  drops the negative ones. \<^verbatim>\<open>strings.ToLower\<close> and \<^verbatim>\<open>strings.ToUpper\<close> map the bytes
  of a string that is all ASCII, and the runes of any other string.
\<close>

fun runes :: "string \<Rightarrow> rune list" where
  "runes [] = []"
| "runes (c # cs) =
     (case DecodeRuneInString (c # cs) of (r, sz) \<Rightarrow> r # runes (drop (sz - 1) cs))"

definition Map_str :: "(rune \<Rightarrow> rune) \<Rightarrow> string \<Rightarrow> string" where
  "Map_str mapping s =
     concat (map (\<lambda>c. let r = mapping c in if 0 \<le> r then AppendRune r else []) (runes s))"

definition ToLower :: "string \<Rightarrow> string" where
  "ToLower s =
     (if list_all (\<lambda>c. byte c < RuneSelf) s
      then map (\<lambda>c. if 0x41 \<le> byte c \<and> byte c \<le> 0x5A then char_of (byte c + 0x20) else c) s
      else Map_str unicode_ToLower s)"

definition ToUpper :: "string \<Rightarrow> string" where
  "ToUpper s =
     (if list_all (\<lambda>c. byte c < RuneSelf) s
      then map (\<lambda>c. if 0x61 \<le> byte c \<and> byte c \<le> 0x7A then char_of (byte c - 0x20) else c) s
      else Map_str unicode_ToUpper s)"

text \<open>\<^verbatim>\<open>truncate(value, max)\<close>: the first \<open>max\<close> bytes (named \<open>truncate_str\<close>: each
  record declares a \<open>truncate\<close> of its own).\<close>

definition truncate_str :: "string \<Rightarrow> nat \<Rightarrow> string" where
  "truncate_str v mx = (if length v \<le> mx then v else take mx v)"

text \<open>The decimal rendering of \<^verbatim>\<open>%d\<close>.\<close>

fun show_nat :: "nat \<Rightarrow> string" where
  "show_nat n =
     (if n < 10 then [char_of (48 + n)]
      else show_nat (n div 10) @ [char_of (48 + n mod 10)])"

definition show_int :: "int \<Rightarrow> string" where
  "show_int i = (if i < 0 then CHR ''-'' # show_nat (nat (- i)) else show_nat (nat i))"

subsection \<open>Errors\<close>

text \<open>
  The sentinel errors of the service (\<^verbatim>\<open>ErrInvalidRequest\<close> ...), of the repository
  (\<^verbatim>\<open>repository.ErrPaymentNotFound\<close>, \<^verbatim>\<open>repository.ErrPaymentAlreadyExists\<close>) and of
  the provider registry (\<^verbatim>\<open>provider.ErrProviderNotSupported\<close>); \<open>Wrapped e m\<close> is
  \<^verbatim>\<open>fmt.Errorf("%w: m", e)\<close>; \<open>CallbackStatusError c\<close> is
  \<^verbatim>\<open>fmt.Errorf("callback endpoint returned status=%d", c)\<close>; \<open>OtherError m\<close> is any
  other error (storage, provider, transport) with message \<open>m\<close>.
\<close>

datatype error =
    ErrInvalidRequest
  | ErrPaymentNotFound
  | ErrPaymentAlreadyExists
  | ErrInvalidStatus
  | ErrProviderUnsupported
  | ErrInvalidProvider
  | ErrCallbackRejected
  | RepoErrPaymentNotFound
  | RepoErrPaymentAlreadyExists
  | ErrProviderNotSupported
  | Wrapped error string
  | CallbackStatusError int
  | OtherError string

fun error_message :: "error \<Rightarrow> string" where
  "error_message ErrInvalidRequest = ''invalid request''"
| "error_message ErrPaymentNotFound = ''payment not found''"
| "error_message ErrPaymentAlreadyExists = ''payment already exists''"
| "error_message ErrInvalidStatus = ''invalid status''"
| "error_message ErrProviderUnsupported = ''provider is not supported''"
| "error_message ErrInvalidProvider = ''invalid provider''"
| "error_message ErrCallbackRejected = ''callback rejected''"
| "error_message RepoErrPaymentNotFound = ''payment not found''"
| "error_message RepoErrPaymentAlreadyExists = ''payment already exists''"
| "error_message ErrProviderNotSupported = ''provider is not supported''"
| "error_message (Wrapped e m) = error_message e @ '': '' @ m"
| "error_message (CallbackStatusError c) = ''callback endpoint returned status='' @ show_int c"
| "error_message (OtherError m) = m"

text \<open>\<^verbatim>\<open>errors.Is\<close>: the error itself or one it wraps.\<close>

fun errors_Is :: "error \<Rightarrow> error \<Rightarrow> bool" where
  "errors_Is (Wrapped e m) target = (Wrapped e m = target \<or> errors_Is e target)"
| "errors_Is e target = (e = target)"

subsection \<open>Entities\<close>

text \<open>\<^verbatim>\<open>entity.CallbackDeliveryNone\<close> ... \<^verbatim>\<open>entity.CallbackDeliveryFailed\<close>.\<close>

definition CallbackDeliveryNone :: int32 where "CallbackDeliveryNone = 0"
definition CallbackDeliveryPending :: int32 where "CallbackDeliveryPending = 1"
definition CallbackDeliverySuccess :: int32 where "CallbackDeliverySuccess = 10"
definition CallbackDeliveryFailed :: int32 where "CallbackDeliveryFailed = 20"

text \<open>
  Modelled from the spec: the generated enum values of package \<^verbatim>\<open>types\<close>
  (\<^verbatim>\<open>types.PaymentStatus_PAYMENT_STATUS_*\<close>, \<^verbatim>\<open>types.ProviderType_PROVIDER_TYPE_*\<close>),
  whose declarations are not among the sources: status CREATED=1, PENDING=2,
  PROCESSING=3, PAID=10, FAILED=20, CANCELED=30, EXPIRED=40; provider UNSPECIFIED=0,
  STRIPE=1 (the single supported provider). The repository's queries use the same
  literals 2 and 3 for PENDING and PROCESSING.
\<close>

definition PAYMENT_STATUS_CREATED :: int32 where "PAYMENT_STATUS_CREATED = 1"
definition PAYMENT_STATUS_PENDING :: int32 where "PAYMENT_STATUS_PENDING = 2"
definition PAYMENT_STATUS_PROCESSING :: int32 where "PAYMENT_STATUS_PROCESSING = 3"
definition PAYMENT_STATUS_PAID :: int32 where "PAYMENT_STATUS_PAID = 10"
definition PAYMENT_STATUS_FAILED :: int32 where "PAYMENT_STATUS_FAILED = 20"
definition PAYMENT_STATUS_CANCELED :: int32 where "PAYMENT_STATUS_CANCELED = 30"
definition PAYMENT_STATUS_EXPIRED :: int32 where "PAYMENT_STATUS_EXPIRED = 40"
definition PROVIDER_TYPE_UNSPECIFIED :: int32 where "PROVIDER_TYPE_UNSPECIFIED = 0"
definition PROVIDER_TYPE_STRIPE :: int32 where "PROVIDER_TYPE_STRIPE = 1"

text \<open>\<^verbatim>\<open>entity.Payment\<close>. The metadata map is an association list.\<close>

record payment =
  ID :: nat
  RequestID :: string
  CallerService :: string
  ResourceType :: string
  ResourceID :: string
  CustomerRef :: "string option"
  AmountCents :: int64
  Currency :: string
  Status :: int32
  PaymentMethod :: int32
  PaymentType :: int32
  Provider :: int32
  RecurringInterval :: "string option"
  RecurringIntervalCount :: "int32 option"
  ProviderPaymentID :: "string option"
  ProviderSubscriptionID :: "string option"
  CheckoutURL :: "string option"
  ProviderCallbackHash :: string
  ProviderCallbackURL :: string
  StatusCallbackURL :: string
  RefundedCents :: int64
  RefundableCents :: int64
  Metadata :: "(string \<times> string) list"
  CallbackDeliveryStatus :: int32
  CallbackDeliveryAttempts :: int32
  CallbackDeliveryNextAt :: "time option"
  CallbackDeliveryLastErr :: "string option"
  CreatedAt :: time
  UpdatedAt :: time

text \<open>\<^verbatim>\<open>entity.PaymentEvent\<close>.\<close>

record payment_event =
  pe_ID :: nat
  pe_PaymentID :: nat
  pe_EventType :: string
  pe_OldStatus :: "int32 option"
  pe_NewStatus :: int32
  pe_ProviderEventID :: "string option"
  pe_PayloadJSON :: "string option"
  pe_CreatedAt :: time

text \<open>\<^verbatim>\<open>entity.PaymentCallback\<close>.\<close>

record payment_callback =
  pc_ID :: nat
  pc_PaymentID :: "nat option"
  pc_Provider :: string
  pc_CallbackHash :: string
  pc_Signature :: string
  pc_PayloadJSON :: string
  pc_Status :: int32
  pc_Error :: "string option"
  pc_CreatedAt :: time
  pc_UpdatedAt :: time

definition paymentCallbackStatusProcessed :: int32 where "paymentCallbackStatusProcessed = 10"
definition paymentCallbackStatusRejected :: int32 where "paymentCallbackStatusRejected = 20"

subsection \<open>The provider capability and its registry\<close>

text \<open>\<^verbatim>\<open>provider.CreateInput\<close>, \<^verbatim>\<open>provider.CreateOutput\<close>, \<^verbatim>\<open>provider.CallbackEvent\<close>.\<close>

record create_input =
  ci_RequestID :: string
  ci_CallbackHash :: string
  ci_ResourceType :: string
  ci_ResourceID :: string
  ci_AmountCents :: int64
  ci_Currency :: string
  ci_PaymentMethod :: int32
  ci_PaymentType :: int32
  ci_RecurringInterval :: string
  ci_RecurringIntervalCount :: int32
  ci_CustomerRef :: "string option"
  ci_Metadata :: "(string \<times> string) list"
  ci_SuccessURL :: string
  ci_CancelURL :: string

record create_output =
  co_ProviderPaymentID :: "string option"
  co_ProviderSubscriptionID :: "string option"
  co_CheckoutURL :: "string option"
  co_ProviderCallbackURL :: string
  co_InitialStatus :: int32

record callback_event =
  ce_ProviderEventID :: "string option"
  ce_ProviderPaymentID :: "string option"
  ce_ProviderSubscriptionID :: "string option"
  ce_EventType :: string
  ce_NewStatus :: int32

text \<open>
  \<^verbatim>\<open>provider.Provider\<close>, an interface of four methods. \<open>prov_CreatePayment\<close> returns
  an error or an output; \<open>prov_VerifyAndParseCallback payload signature\<close> returns an
  error, or an event that may be nil; \<open>prov_GetPaymentStatus\<close> an error or a status.
  A provider whose \<^verbatim>\<open>CreatePayment\<close> returns neither an error nor an output (the
  source would dereference nil) is outside the model.
\<close>

record provider =
  prov_Code :: int32
  prov_CreatePayment :: "create_input \<Rightarrow> error + create_output"
  prov_VerifyAndParseCallback :: "string \<Rightarrow> string \<Rightarrow> error + callback_event option"
  prov_GetPaymentStatus :: "string \<Rightarrow> error + int32"

text \<open>\<^verbatim>\<open>provider.Registry\<close>: a map from the provider code; \<^verbatim>\<open>Registry.Get\<close>.\<close>

type_synonym registry = "int32 \<rightharpoonup> provider"

definition Registry_Get :: "registry \<Rightarrow> int32 \<Rightarrow> error + provider" where
  "Registry_Get r code = (case r code of None \<Rightarrow> Inl ErrProviderNotSupported | Some p \<Rightarrow> Inr p)"

datatype provider_call =
    CallCreatePayment create_input
  | CallVerifyAndParseCallback string string
  | CallGetPaymentStatus string

subsection \<open>The world: tables, storage outcomes and the provider call log\<close>

text \<open>
  \<open>payments\<close>, \<open>payment_events\<close> and \<open>payment_callbacks\<close> are the three tables, in
  insertion order. \<open>io_script\<close> gives the outcome of each upcoming storage call:
  \<open>None\<close> lets the statement run, \<open>Some e\<close> makes the call return \<open>e\<close> (a driver or
  connection error, or the effect of a concurrent writer); an exhausted script means
  no failure. \<open>provider_log\<close> records the calls made to providers, oldest first.
\<close>

record world =
  payments :: "payment list"
  payment_events :: "payment_event list"
  payment_callbacks :: "payment_callback list"
  io_script :: "error option list"
  provider_log :: "provider_call list"

definition io_next :: "world \<Rightarrow> error option \<times> world" where
  "io_next w = (case io_script w of [] \<Rightarrow> (None, w) | r # rs \<Rightarrow> (r, w\<lparr>io_script := rs\<rparr>))"

definition log_call :: "provider_call \<Rightarrow> world \<Rightarrow> world" where
  "log_call c w = w\<lparr>provider_log := provider_log w @ [c]\<rparr>"

subsection \<open>The repositories\<close>

text \<open>
  \<^verbatim>\<open>PaymentRepository.Create\<close>: the INSERT. The table has two unique indexes,
  (caller_service, request_id) and (provider, provider_callback_hash); a duplicate
  entry (MySQL error 1062) is \<^verbatim>\<open>ErrPaymentAlreadyExists\<close>. Strings are compared
  byte for byte. The row gets a fresh identifier, which is written back into the
  payment.
\<close>

definition duplicate_entry :: "payment \<Rightarrow> payment list \<Rightarrow> bool" where
  "duplicate_entry p rows =
     list_ex (\<lambda>r. (CallerService r = CallerService p \<and> RequestID r = RequestID p)
                 \<or> (Provider r = Provider p \<and> ProviderCallbackHash r = ProviderCallbackHash p)) rows"

definition last_insert_id :: "payment list \<Rightarrow> nat" where
  "last_insert_id rows = Suc (fold max (map ID rows) 0)"

definition repo_Create :: "payment \<Rightarrow> world \<Rightarrow> (error + payment) \<times> world" where
  "repo_Create p w =
     (case io_next w of
        (Some e, w') \<Rightarrow> (Inl e, w')
      | (None, w') \<Rightarrow>
          if duplicate_entry p (payments w') then (Inl RepoErrPaymentAlreadyExists, w')
          else (let p' = p\<lparr>ID := last_insert_id (payments w')\<rparr>
                in (Inr p', w'\<lparr>payments := payments w' @ [p']\<rparr>)))"

text \<open>
  \<^verbatim>\<open>PaymentRepository.Update\<close>: the UPDATE sets the listed columns of the rows
  \<^verbatim>\<open>WHERE id = ?\<close>; request_id, caller_service, provider_callback_hash and created_at
  are not among them. No row matched is \<^verbatim>\<open>ErrPaymentNotFound\<close>
  (\<^verbatim>\<open>RowsAffected\<close> is taken to count the rows the statement matched, as the
  in-memory repository of the service tests does).
\<close>

definition update_columns :: "payment \<Rightarrow> payment \<Rightarrow> payment" where
  "update_columns r p = r\<lparr>
      ResourceType := ResourceType p,
      ResourceID := ResourceID p,
      CustomerRef := CustomerRef p,
      AmountCents := AmountCents p,
      Currency := Currency p,
      Status := Status p,
      PaymentMethod := PaymentMethod p,
      PaymentType := PaymentType p,
      Provider := Provider p,
      RecurringInterval := RecurringInterval p,
      RecurringIntervalCount := RecurringIntervalCount p,
      ProviderPaymentID := ProviderPaymentID p,
      ProviderSubscriptionID := ProviderSubscriptionID p,
      CheckoutURL := CheckoutURL p,
      ProviderCallbackURL := ProviderCallbackURL p,
      StatusCallbackURL := StatusCallbackURL p,
      RefundedCents := RefundedCents p,
      RefundableCents := RefundableCents p,
      Metadata := Metadata p,
      CallbackDeliveryStatus := CallbackDeliveryStatus p,
      CallbackDeliveryAttempts := CallbackDeliveryAttempts p,
      CallbackDeliveryNextAt := CallbackDeliveryNextAt p,
      CallbackDeliveryLastErr := CallbackDeliveryLastErr p,
      UpdatedAt := UpdatedAt p\<rparr>"

definition repo_Update :: "payment \<Rightarrow> world \<Rightarrow> error option \<times> world" where
  "repo_Update p w =
     (case io_next w of
        (Some e, w') \<Rightarrow> (Some e, w')
      | (None, w') \<Rightarrow>
          if \<not> list_ex (\<lambda>r. ID r = ID p) (payments w') then (Some RepoErrPaymentNotFound, w')
          else (None, w'\<lparr>payments :=
                  map (\<lambda>r. if ID r = ID p then update_columns r p else r) (payments w')\<rparr>))"

text \<open>The three single-row lookups (\<^verbatim>\<open>LIMIT 1\<close>; no row is \<^verbatim>\<open>nil, nil\<close>).\<close>

definition repo_FindByID :: "nat \<Rightarrow> world \<Rightarrow> (error + payment option) \<times> world" where
  "repo_FindByID i w =
     (case io_next w of
        (Some e, w') \<Rightarrow> (Inl e, w')
      | (None, w') \<Rightarrow> (Inr (find (\<lambda>r. ID r = i) (payments w')), w'))"

definition repo_FindByCallerRequestID ::
  "string \<Rightarrow> string \<Rightarrow> world \<Rightarrow> (error + payment option) \<times> world" where
  "repo_FindByCallerRequestID callerService requestID w =
     (case io_next w of
        (Some e, w') \<Rightarrow> (Inl e, w')
      | (None, w') \<Rightarrow>
          (Inr (find (\<lambda>r. CallerService r = callerService \<and> RequestID r = requestID) (payments w')), w'))"

definition repo_FindByCallbackHash ::
  "int32 \<Rightarrow> string \<Rightarrow> world \<Rightarrow> (error + payment option) \<times> world" where
  "repo_FindByCallbackHash prov callbackHash w =
     (case io_next w of
        (Some e, w') \<Rightarrow> (Inl e, w')
      | (None, w') \<Rightarrow>
          (Inr (find (\<lambda>r. Provider r = prov \<and> ProviderCallbackHash r = callbackHash) (payments w')), w'))"

text \<open>The three worker queries: WHERE, ORDER BY (ascending, stable), LIMIT.\<close>

definition sql_limit :: "int32 \<Rightarrow> 'a list \<Rightarrow> 'a list" where
  "sql_limit n rows = take (nat (sint n)) rows"

definition repo_ListDueCallbackDispatch ::
  "time \<Rightarrow> int32 \<Rightarrow> world \<Rightarrow> (error + payment list) \<times> world" where
  "repo_ListDueCallbackDispatch now lim w =
     (case io_next w of
        (Some e, w') \<Rightarrow> (Inl e, w')
      | (None, w') \<Rightarrow>
          (Inr (sql_limit lim
             (sort_key (\<lambda>r. case CallbackDeliveryNextAt r of None \<Rightarrow> 0 | Some t \<Rightarrow> t)
               (filter (\<lambda>r. CallbackDeliveryStatus r = CallbackDeliveryPending
                          \<and> (case CallbackDeliveryNextAt r of None \<Rightarrow> False | Some t \<Rightarrow> t \<le> now))
                  (payments w')))), w'))"

definition repo_ListExpiredPending ::
  "time \<Rightarrow> int32 \<Rightarrow> world \<Rightarrow> (error + payment list) \<times> world" where
  "repo_ListExpiredPending cutoff lim w =
     (case io_next w of
        (Some e, w') \<Rightarrow> (Inl e, w')
      | (None, w') \<Rightarrow>
          (Inr (sql_limit lim
             (sort_key CreatedAt
               (filter (\<lambda>r. (Status r = 2 \<or> Status r = 3) \<and> CreatedAt r \<le> cutoff)
                  (payments w')))), w'))"

definition repo_ListForReconcile ::
  "time \<Rightarrow> int32 \<Rightarrow> world \<Rightarrow> (error + payment list) \<times> world" where
  "repo_ListForReconcile before0 lim w =
     (case io_next w of
        (Some e, w') \<Rightarrow> (Inl e, w')
      | (None, w') \<Rightarrow>
          (Inr (sql_limit lim
             (sort_key UpdatedAt
               (filter (\<lambda>r. (Status r = 2 \<or> Status r = 3) \<and> ProviderPaymentID r \<noteq> None
                          \<and> UpdatedAt r \<le> before0)
                  (payments w')))), w'))"

text \<open>\<^verbatim>\<open>PaymentEventRepository.Create\<close> and \<^verbatim>\<open>PaymentCallbackRepository.Create\<close>.\<close>

definition eventRepo_Create :: "payment_event \<Rightarrow> world \<Rightarrow> error option \<times> world" where
  "eventRepo_Create ev w =
     (case io_next w of
        (Some e, w') \<Rightarrow> (Some e, w')
      | (None, w') \<Rightarrow>
          (None, w'\<lparr>payment_events :=
                  payment_events w' @ [ev\<lparr>pe_ID := Suc (length (payment_events w'))\<rparr>]\<rparr>))"

definition callbackRepo_Create :: "payment_callback \<Rightarrow> world \<Rightarrow> error option \<times> world" where
  "callbackRepo_Create cb w =
     (case io_next w of
        (Some e, w') \<Rightarrow> (Some e, w')
      | (None, w') \<Rightarrow>
          (None, w'\<lparr>payment_callbacks :=
                  payment_callbacks w' @ [cb\<lparr>pc_ID := Suc (length (payment_callbacks w'))\<rparr>]\<rparr>))"

subsection \<open>The payment service\<close>

text \<open>\<^verbatim>\<open>config.PaymentsConfig\<close> (the fields the service reads).\<close>

record payments_config =
  cfg_CallbackMaxAttempts :: int32
  cfg_CallbackRetryInterval :: duration
  cfg_CallbackHTTPTimeout :: duration
  cfg_PendingTimeout :: duration
  cfg_ReconcileStaleAfter :: duration
  cfg_JobBatchSize :: int32

text \<open>
  The outbound POST. \<open>callbackHTTP\<close> is \<^verbatim>\<open>http.NewRequestWithContext\<close> followed by
  \<^verbatim>\<open>s.callbackHTTP.Do\<close>: an error of either, or the status code of the response.
  \<open>json_Marshal\<close> is \<^verbatim>\<open>json.Marshal\<close> of the envelope around
  \<^verbatim>\<open>mapper.PaymentToProto(payment)\<close>.
\<close>

record http_request =
  hr_URL :: string
  hr_Headers :: "(string \<times> string) list"
  hr_Body :: string

record payment_service =
  providerReg :: registry
  paymentsCfg :: payments_config
  appAPIKey :: string
  callbackHTTP :: "http_request \<Rightarrow> error + int"
  json_Marshal :: "payment \<Rightarrow> error + string"

record create_payment_request =
  rq_RequestId :: string
  rq_CallerService :: string
  rq_ResourceType :: string
  rq_ResourceId :: string
  rq_CustomerRef :: string
  rq_AmountCents :: int64
  rq_Currency :: string
  rq_PaymentMethod :: int32
  rq_PaymentType :: int32
  rq_Provider :: int32
  rq_RecurringInterval :: string
  rq_RecurringIntervalCount :: int32
  rq_StatusCallbackUrl :: string
  rq_SuccessUrl :: string
  rq_CancelUrl :: string
  rq_Metadata :: "(string \<times> string) list"

record cancel_payment_request =
  cr_Id :: nat
  cr_Reason :: string

record handle_provider_callback_request =
  hc_Provider :: string
  hc_CallbackHash :: string
  hc_Signature :: string
  hc_Payload :: string

definition defaultBatchSize :: int32 where "defaultBatchSize = 100"

definition terminalStatus :: "int32 \<Rightarrow> bool" where
  "terminalStatus st =
     (st = PAYMENT_STATUS_PAID \<or> st = PAYMENT_STATUS_FAILED
      \<or> st = PAYMENT_STATUS_CANCELED \<or> st = PAYMENT_STATUS_EXPIRED)"

definition markForCallbackDelivery :: "payment \<Rightarrow> time \<Rightarrow> payment" where
  "markForCallbackDelivery p now = p\<lparr>
      CallbackDeliveryStatus := CallbackDeliveryPending,
      CallbackDeliveryAttempts := 0,
      CallbackDeliveryNextAt := Some now,
      CallbackDeliveryLastErr := None\<rparr>"

definition batchSize :: "payment_service \<Rightarrow> int32" where
  "batchSize s =
     (if 0 < sint (cfg_JobBatchSize (paymentsCfg s)) then cfg_JobBatchSize (paymentsCfg s)
      else defaultBatchSize)"

definition normalizeOptionalString :: "string \<Rightarrow> string option" where
  "normalizeOptionalString v = (let trimmed = TrimSpace v in if trimmed = [] then None else Some trimmed)"

definition normalizeOptionalInt32 :: "int32 \<Rightarrow> int32 option" where
  "normalizeOptionalInt32 v = (if sint v \<le> 0 then None else Some v)"

definition cloneMetadata :: "(string \<times> string) list \<Rightarrow> (string \<times> string) list" where
  "cloneMetadata src = (if length src = 0 then [] else map (\<lambda>(k, v). (k, v)) src)"

definition keepFirstErr :: "error option \<Rightarrow> error option \<Rightarrow> error option" where
  "keepFirstErr current candidate = (case current of Some e \<Rightarrow> Some e | None \<Rightarrow> candidate)"

definition parseProviderCode :: "string \<Rightarrow> error + int32" where
  "parseProviderCode providerRaw =
     (let tag = ToLower (TrimSpace providerRaw)
      in if tag = ''stripe'' \<or> tag = ''1'' then Inr PROVIDER_TYPE_STRIPE
         else Inl ErrProviderNotSupported)"

subsection \<open>Synchronous operations\<close>

text \<open>
  The \<^verbatim>\<open>entity.Payment\<close> literal that \<open>CreatePayment\<close> assembles from the request and
  the provider's output, before the identifier is assigned (\<open>ID = 0\<close>, the zero value).
\<close>

definition newPayment ::
  "time \<Rightarrow> string \<Rightarrow> string \<Rightarrow> int32 \<Rightarrow> string \<Rightarrow> string option \<Rightarrow> (string \<times> string) list
     \<Rightarrow> create_payment_request \<Rightarrow> create_output \<Rightarrow> payment" where
  "newPayment now requestID callerService providerCode callbackHash customerRef metadata
       req providerOutput = \<lparr>
      ID = 0,
      RequestID = requestID,
      CallerService = callerService,
      ResourceType = TrimSpace (rq_ResourceType req),
      ResourceID = TrimSpace (rq_ResourceId req),
      CustomerRef = customerRef,
      AmountCents = rq_AmountCents req,
      Currency = ToUpper (TrimSpace (rq_Currency req)),
      Status = co_InitialStatus providerOutput,
      PaymentMethod = rq_PaymentMethod req,
      PaymentType = rq_PaymentType req,
      Provider = providerCode,
      RecurringInterval =
        normalizeOptionalString (ToLower (TrimSpace (rq_RecurringInterval req))),
      RecurringIntervalCount = normalizeOptionalInt32 (rq_RecurringIntervalCount req),
      ProviderPaymentID = co_ProviderPaymentID providerOutput,
      ProviderSubscriptionID = co_ProviderSubscriptionID providerOutput,
      CheckoutURL = co_CheckoutURL providerOutput,
      ProviderCallbackHash = callbackHash,
      ProviderCallbackURL = co_ProviderCallbackURL providerOutput,
      StatusCallbackURL = TrimSpace (rq_StatusCallbackUrl req),
      RefundedCents = 0,
      RefundableCents = rq_AmountCents req,
      Metadata = metadata,
      CallbackDeliveryStatus = CallbackDeliveryNone,
      CallbackDeliveryAttempts = 0,
      CallbackDeliveryNextAt = None,
      CallbackDeliveryLastErr = None,
      CreatedAt = now,
      UpdatedAt = now\<rparr>"

definition CreatePayment ::
  "payment_service \<Rightarrow> time \<Rightarrow> string \<Rightarrow> create_payment_request \<Rightarrow> world
     \<Rightarrow> (error + payment) \<times> world" where
  "CreatePayment s now uuid req w =
     (let requestID = TrimSpace (rq_RequestId req);
          callerService = TrimSpace (rq_CallerService req)
      in if requestID = [] \<or> callerService = [] then (Inl ErrInvalidRequest, w)
      else case repo_FindByCallerRequestID callerService requestID w of
        (Inl err, w1) \<Rightarrow> (Inl err, w1)
      | (Inr (Some existing), w1) \<Rightarrow> (Inr existing, w1)
      | (Inr None, w1) \<Rightarrow>
         (let providerCode = (if rq_Provider req = PROVIDER_TYPE_UNSPECIFIED
                              then PROVIDER_TYPE_STRIPE else rq_Provider req)
          in case Registry_Get (providerReg s) providerCode of
            Inl err \<Rightarrow>
              if errors_Is err ErrProviderNotSupported then (Inl ErrProviderUnsupported, w1)
              else (Inl err, w1)
          | Inr providerClient \<Rightarrow>
             (let callbackHash = uuid;
                  customerRef = normalizeOptionalString (rq_CustomerRef req);
                  metadata = cloneMetadata (rq_Metadata req);
                  input = \<lparr>
                    ci_RequestID = requestID,
                    ci_CallbackHash = callbackHash,
                    ci_ResourceType = TrimSpace (rq_ResourceType req),
                    ci_ResourceID = TrimSpace (rq_ResourceId req),
                    ci_AmountCents = rq_AmountCents req,
                    ci_Currency = ToUpper (TrimSpace (rq_Currency req)),
                    ci_PaymentMethod = rq_PaymentMethod req,
                    ci_PaymentType = rq_PaymentType req,
                    ci_RecurringInterval = ToLower (TrimSpace (rq_RecurringInterval req)),
                    ci_RecurringIntervalCount = rq_RecurringIntervalCount req,
                    ci_CustomerRef = customerRef,
                    ci_Metadata = metadata,
                    ci_SuccessURL = TrimSpace (rq_SuccessUrl req),
                    ci_CancelURL = TrimSpace (rq_CancelUrl req)\<rparr>;
                  w2 = log_call (CallCreatePayment input) w1
              in case prov_CreatePayment providerClient input of
                Inl err \<Rightarrow> (Inl err, w2)
              | Inr providerOutput \<Rightarrow>
                 (let payment0 = newPayment now requestID callerService providerCode
                                   callbackHash customerRef metadata req providerOutput;
                      payment1 = (if terminalStatus (Status payment0)
                                  then markForCallbackDelivery payment0 now else payment0)
                  in case repo_Create payment1 w2 of
                    (Inl err, w3) \<Rightarrow>
                      if errors_Is err RepoErrPaymentAlreadyExists
                      then (Inl ErrPaymentAlreadyExists, w3) else (Inl err, w3)
                  | (Inr payment, w3) \<Rightarrow>
                      (Inr payment,
                       snd (eventRepo_Create \<lparr>
                              pe_ID = 0,
                              pe_PaymentID = ID payment,
                              pe_EventType = ''payment_created'',
                              pe_OldStatus = None,
                              pe_NewStatus = Status payment,
                              pe_ProviderEventID = None,
                              pe_PayloadJSON = None,
                              pe_CreatedAt = now\<rparr> w3))))))"

definition GetPayment :: "nat \<Rightarrow> world \<Rightarrow> (error + payment) \<times> world" where
  "GetPayment i w =
     (case repo_FindByID i w of
        (Inl err, w1) \<Rightarrow> (Inl err, w1)
      | (Inr None, w1) \<Rightarrow> (Inl ErrPaymentNotFound, w1)
      | (Inr (Some payment), w1) \<Rightarrow> (Inr payment, w1))"

definition CancelPayment ::
  "payment_service \<Rightarrow> time \<Rightarrow> cancel_payment_request \<Rightarrow> world \<Rightarrow> (error + payment) \<times> world" where
  "CancelPayment s now req w =
     (case repo_FindByID (cr_Id req) w of
        (Inl err, w1) \<Rightarrow> (Inl err, w1)
      | (Inr None, w1) \<Rightarrow> (Inl ErrPaymentNotFound, w1)
      | (Inr (Some payment0), w1) \<Rightarrow>
          if Status payment0 = PAYMENT_STATUS_PAID
          then (Inl (Wrapped ErrInvalidStatus ''paid payments cannot be canceled''), w1)
          else
           (let oldStatus = Status payment0;
                payment = (markForCallbackDelivery
                             (payment0\<lparr>Status := PAYMENT_STATUS_CANCELED\<rparr>) now)\<lparr>UpdatedAt := now\<rparr>
            in case repo_Update payment w1 of
              (Some err, w2) \<Rightarrow>
                if errors_Is err RepoErrPaymentNotFound then (Inl ErrPaymentNotFound, w2)
                else (Inl err, w2)
            | (None, w2) \<Rightarrow>
                (Inr payment,
                 snd (eventRepo_Create \<lparr>
                        pe_ID = 0,
                        pe_PaymentID = ID payment,
                        pe_EventType = ''payment_canceled'',
                        pe_OldStatus = Some oldStatus,
                        pe_NewStatus = Status payment,
                        pe_ProviderEventID = None,
                        pe_PayloadJSON = None,
                        pe_CreatedAt = now\<rparr> w2))))"

subsection \<open>Provider callbacks\<close>

definition persistRejectedCallback ::
  "time \<Rightarrow> nat option \<Rightarrow> handle_provider_callback_request \<Rightarrow> string \<Rightarrow> world \<Rightarrow> world" where
  "persistRejectedCallback now paymentID req reason0 w =
     (let reason1 = TrimSpace reason0;
          reason = (if reason1 = [] then ''callback rejected'' else reason1);
          trimmedErr = truncate_str reason 1024
      in snd (callbackRepo_Create \<lparr>
                pc_ID = 0,
                pc_PaymentID = paymentID,
                pc_Provider = ToLower (TrimSpace (hc_Provider req)),
                pc_CallbackHash = TrimSpace (hc_CallbackHash req),
                pc_Signature = TrimSpace (hc_Signature req),
                pc_PayloadJSON = hc_Payload req,
                pc_Status = paymentCallbackStatusRejected,
                pc_Error = Some trimmedErr,
                pc_CreatedAt = now,
                pc_UpdatedAt = now\<rparr> w))"

text \<open>
  The changes \<open>HandleProviderCallback\<close> makes to the payment it found, between reading
  the clock and calling \<^verbatim>\<open>Update\<close>: the provider identifiers when the event carries
  them, the status when \<^verbatim>\<open>parsedEvent.NewStatus > 0\<close>, the delivery sub-state when the
  status changed into a terminal one, and \<open>updated_at\<close>.
\<close>

definition applyCallbackEvent :: "callback_event \<Rightarrow> time \<Rightarrow> payment \<Rightarrow> payment" where
  "applyCallbackEvent parsedEvent now payment0 =
     (let oldStatus = Status payment0;
          payment1 = (if ce_ProviderPaymentID parsedEvent \<noteq> None
                      then payment0\<lparr>ProviderPaymentID := ce_ProviderPaymentID parsedEvent\<rparr>
                      else payment0);
          payment2 = (if ce_ProviderSubscriptionID parsedEvent \<noteq> None
                      then payment1\<lparr>ProviderSubscriptionID :=
                             ce_ProviderSubscriptionID parsedEvent\<rparr>
                      else payment1);
          payment3 = (if 0 < sint (ce_NewStatus parsedEvent)
                      then payment2\<lparr>Status := ce_NewStatus parsedEvent\<rparr>
                      else payment2);
          payment4 = (if Status payment3 \<noteq> oldStatus \<and> terminalStatus (Status payment3)
                      then markForCallbackDelivery payment3 now else payment3)
      in payment4\<lparr>UpdatedAt := now\<rparr>)"

text \<open>
  \<open>HandleProviderCallback\<close>. The source reads the clock once after the payment is
  found and once more inside \<open>persistRejectedCallback\<close>; both readings are \<open>now\<close>.
\<close>

definition HandleProviderCallback ::
  "payment_service \<Rightarrow> time \<Rightarrow> handle_provider_callback_request \<Rightarrow> world
     \<Rightarrow> (error + payment) \<times> world" where
  "HandleProviderCallback s now req w =
     (case parseProviderCode (hc_Provider req) of
        Inl err \<Rightarrow>
          if errors_Is err ErrProviderNotSupported then (Inl ErrProviderUnsupported, w)
          else (Inl err, w)
      | Inr providerCode \<Rightarrow>
         (case Registry_Get (providerReg s) providerCode of
            Inl err \<Rightarrow>
              if errors_Is err ErrProviderNotSupported then (Inl ErrProviderUnsupported, w)
              else (Inl err, w)
          | Inr providerClient \<Rightarrow>
             (let payload = hc_Payload req;
                  signature = TrimSpace (hc_Signature req);
                  w1 = log_call (CallVerifyAndParseCallback payload signature) w
              in case prov_VerifyAndParseCallback providerClient payload signature of
                Inl err \<Rightarrow>
                  (Inl ErrCallbackRejected,
                   persistRejectedCallback now None req
                     (''provider callback validation failed: '' @ error_message err) w1)
              | Inr None \<Rightarrow>
                  (Inl ErrCallbackRejected,
                   persistRejectedCallback now None req
                     ''provider callback payload could not be parsed'' w1)
              | Inr (Some parsedEvent) \<Rightarrow>
                 (let callbackHash = TrimSpace (hc_CallbackHash req)
                  in case repo_FindByCallbackHash providerCode callbackHash w1 of
                    (Inl err, w2) \<Rightarrow> (Inl err, w2)
                  | (Inr None, w2) \<Rightarrow>
                      (Inl ErrPaymentNotFound,
                       persistRejectedCallback now None req
                         ''payment not found for callback hash'' w2)
                  | (Inr (Some payment0), w2) \<Rightarrow>
                     (let oldStatus = Status payment0;
                          payment = applyCallbackEvent parsedEvent now payment0
                      in case repo_Update payment w2 of
                        (Some err, w3) \<Rightarrow>
                          if errors_Is err RepoErrPaymentNotFound
                          then (Inl ErrPaymentNotFound, w3) else (Inl err, w3)
                      | (None, w3) \<Rightarrow>
                         (let eventType0 = TrimSpace (ce_EventType parsedEvent);
                              eventType = (if eventType0 = [] then ''provider_callback''
                                           else eventType0);
                              oldStatusPtr = (if oldStatus = Status payment then None
                                              else Some oldStatus);
                              w4 = snd (eventRepo_Create \<lparr>
                                     pe_ID = 0,
                                     pe_PaymentID = ID payment,
                                     pe_EventType = eventType,
                                     pe_OldStatus = oldStatusPtr,
                                     pe_NewStatus = Status payment,
                                     pe_ProviderEventID = ce_ProviderEventID parsedEvent,
                                     pe_PayloadJSON = Some payload,
                                     pe_CreatedAt = now\<rparr> w3)
                          in case callbackRepo_Create \<lparr>
                                     pc_ID = 0,
                                     pc_PaymentID = Some (ID payment),
                                     pc_Provider = ToLower (TrimSpace (hc_Provider req)),
                                     pc_CallbackHash = callbackHash,
                                     pc_Signature = signature,
                                     pc_PayloadJSON = payload,
                                     pc_Status = paymentCallbackStatusProcessed,
                                     pc_Error = None,
                                     pc_CreatedAt = now,
                                     pc_UpdatedAt = now\<rparr> w4 of
                            (Some callbackErr, w5) \<Rightarrow> (Inl callbackErr, w5)
                          | (None, w5) \<Rightarrow> (Inr payment, w5)))))))"

subsection \<open>The outbound dispatcher\<close>

definition recordDispatchFailure ::
  "payment_service \<Rightarrow> payment \<Rightarrow> time \<Rightarrow> error \<Rightarrow> world \<Rightarrow> error option \<times> world" where
  "recordDispatchFailure s payment0 now dispatchErr w =
     (let payment1 = payment0\<lparr>CallbackDeliveryAttempts := CallbackDeliveryAttempts payment0 + 1\<rparr>;
          trimmed = truncate_str (error_message dispatchErr) 1024;
          payment2 = payment1\<lparr>CallbackDeliveryLastErr := Some trimmed\<rparr>;
          maxAttempts = (if sint (cfg_CallbackMaxAttempts (paymentsCfg s)) \<le> 0 then 1
                         else cfg_CallbackMaxAttempts (paymentsCfg s));
          payment3 =
            (if sint maxAttempts \<le> sint (CallbackDeliveryAttempts payment2)
             then payment2\<lparr>CallbackDeliveryStatus := CallbackDeliveryFailed,
                           CallbackDeliveryNextAt := None\<rparr>
             else
               (let retryInterval = (if cfg_CallbackRetryInterval (paymentsCfg s) \<le> 0
                                     then 5 * 60 * 1000000000
                                     else cfg_CallbackRetryInterval (paymentsCfg s));
                    next = now + retryInterval
                in payment2\<lparr>CallbackDeliveryStatus := CallbackDeliveryPending,
                              CallbackDeliveryNextAt := Some next\<rparr>));
          payment = payment3\<lparr>UpdatedAt := now\<rparr>
      in case repo_Update payment w of
        (Some err, w1) \<Rightarrow> (Some err, w1)
      | (None, w1) \<Rightarrow>
          (Some dispatchErr,
           snd (eventRepo_Create \<lparr>
                  pe_ID = 0,
                  pe_PaymentID = ID payment,
                  pe_EventType = ''callback_dispatch_failed'',
                  pe_OldStatus = None,
                  pe_NewStatus = Status payment,
                  pe_ProviderEventID = None,
                  pe_PayloadJSON = None,
                  pe_CreatedAt = now\<rparr> w1)))"

definition dispatchCallback ::
  "payment_service \<Rightarrow> payment \<Rightarrow> time \<Rightarrow> world \<Rightarrow> error option \<times> world" where
  "dispatchCallback s payment0 now w =
     (if TrimSpace (StatusCallbackURL payment0) = [] then
        repo_Update (payment0\<lparr>
            CallbackDeliveryStatus := CallbackDeliveryFailed,
            CallbackDeliveryNextAt := None,
            CallbackDeliveryLastErr := Some ''status_callback_url is empty'',
            UpdatedAt := now\<rparr>) w
      else case json_Marshal s payment0 of
        Inl err \<Rightarrow> (Some err, w)
      | Inr body \<Rightarrow>
         (let headers = [(''Content-Type'', ''application/json''),
                         (''X-Request-ID'', RequestID payment0)]
                        @ (if appAPIKey s \<noteq> [] then [(''X-API-Key'', appAPIKey s)] else []);
              req = \<lparr>hr_URL = StatusCallbackURL payment0, hr_Headers = headers, hr_Body = body\<rparr>
          in case callbackHTTP s req of
            Inl err \<Rightarrow> recordDispatchFailure s payment0 now err w
          | Inr statusCode \<Rightarrow>
              if statusCode < 200 \<or> 300 \<le> statusCode
              then recordDispatchFailure s payment0 now (CallbackStatusError statusCode) w
              else
               (let payment = payment0\<lparr>
                      CallbackDeliveryStatus := CallbackDeliverySuccess,
                      CallbackDeliveryNextAt := None,
                      CallbackDeliveryLastErr := None,
                      UpdatedAt := now\<rparr>
                in case repo_Update payment w of
                  (Some err, w1) \<Rightarrow> (Some err, w1)
                | (None, w1) \<Rightarrow>
                    (None,
                     snd (eventRepo_Create \<lparr>
                            pe_ID = 0,
                            pe_PaymentID = ID payment,
                            pe_EventType = ''callback_dispatched'',
                            pe_OldStatus = None,
                            pe_NewStatus = Status payment,
                            pe_ProviderEventID = None,
                            pe_PayloadJSON = None,
                            pe_CreatedAt = now\<rparr> w1)))))"

subsection \<open>Batch workers\<close>

text \<open>
  Each batch is a query followed by a loop over the rows it returned; the loop state
  is the first error kept so far and the world. \<open>RunReconcileBatch_body\<close>,
  \<open>RunDispatchCallbacksBatch_body\<close> and \<open>RunExpirePendingBatch_body\<close> are the loop
  bodies, one iteration each (the rows scanned by the repository are never nil).
\<close>

definition RunReconcileBatch_body ::
  "payment_service \<Rightarrow> time \<Rightarrow> payment \<Rightarrow> error option \<times> world \<Rightarrow> error option \<times> world" where
  "RunReconcileBatch_body s now payment0 st =
     (case st of (firstErr, w) \<Rightarrow>
        (case ProviderPaymentID payment0 of
           None \<Rightarrow> (firstErr, w)
         | Some rawID \<Rightarrow>
            if TrimSpace rawID = [] then (firstErr, w)
            else (case Registry_Get (providerReg s) (Provider payment0) of
              Inl err \<Rightarrow> (keepFirstErr firstErr (Some err), w)
            | Inr providerClient \<Rightarrow>
               (let w1 = log_call (CallGetPaymentStatus (TrimSpace rawID)) w
                in case prov_GetPaymentStatus providerClient (TrimSpace rawID) of
                  Inl err \<Rightarrow> (keepFirstErr firstErr (Some err), w1)
                | Inr newStatus \<Rightarrow>
                    if newStatus = 0 \<or> newStatus = Status payment0 then (firstErr, w1)
                    else
                     (let oldStatus = Status payment0;
                          payment1 = payment0\<lparr>Status := newStatus\<rparr>;
                          payment2 = (if terminalStatus newStatus
                                      then markForCallbackDelivery payment1 now else payment1);
                          payment = payment2\<lparr>UpdatedAt := now\<rparr>
                      in case repo_Update payment w1 of
                        (Some err, w2) \<Rightarrow> (keepFirstErr firstErr (Some err), w2)
                      | (None, w2) \<Rightarrow>
                          (firstErr,
                           snd (eventRepo_Create \<lparr>
                                  pe_ID = 0,
                                  pe_PaymentID = ID payment,
                                  pe_EventType = ''payment_reconciled'',
                                  pe_OldStatus = Some oldStatus,
                                  pe_NewStatus = newStatus,
                                  pe_ProviderEventID = None,
                                  pe_PayloadJSON = None,
                                  pe_CreatedAt = now\<rparr> w2)))))))"

definition RunReconcileBatch :: "payment_service \<Rightarrow> time \<Rightarrow> world \<Rightarrow> error option \<times> world" where
  "RunReconcileBatch s now w =
     (let before0 = now - cfg_ReconcileStaleAfter (paymentsCfg s)
      in case repo_ListForReconcile before0 (batchSize s) w of
        (Inl err, w1) \<Rightarrow> (Some err, w1)
      | (Inr items, w1) \<Rightarrow> fold (RunReconcileBatch_body s now) items (None, w1))"

definition RunDispatchCallbacksBatch_body ::
  "payment_service \<Rightarrow> time \<Rightarrow> payment \<Rightarrow> error option \<times> world \<Rightarrow> error option \<times> world" where
  "RunDispatchCallbacksBatch_body s now payment st =
     (case st of (firstErr, w) \<Rightarrow>
        (case dispatchCallback s payment now w of
           (Some err, w1) \<Rightarrow> (keepFirstErr firstErr (Some err), w1)
         | (None, w1) \<Rightarrow> (firstErr, w1)))"

definition RunDispatchCallbacksBatch ::
  "payment_service \<Rightarrow> time \<Rightarrow> world \<Rightarrow> error option \<times> world" where
  "RunDispatchCallbacksBatch s now w =
     (case repo_ListDueCallbackDispatch now (batchSize s) w of
        (Inl err, w1) \<Rightarrow> (Some err, w1)
      | (Inr items, w1) \<Rightarrow> fold (RunDispatchCallbacksBatch_body s now) items (None, w1))"

definition RunExpirePendingBatch_body ::
  "payment_service \<Rightarrow> time \<Rightarrow> payment \<Rightarrow> error option \<times> world \<Rightarrow> error option \<times> world" where
  "RunExpirePendingBatch_body s now payment0 st =
     (case st of (firstErr, w) \<Rightarrow>
        if Status payment0 = PAYMENT_STATUS_EXPIRED then (firstErr, w)
        else
         (let oldStatus = Status payment0;
              payment = (markForCallbackDelivery
                           (payment0\<lparr>Status := PAYMENT_STATUS_EXPIRED\<rparr>) now)\<lparr>UpdatedAt := now\<rparr>
          in case repo_Update payment w of
            (Some err, w1) \<Rightarrow> (keepFirstErr firstErr (Some err), w1)
          | (None, w1) \<Rightarrow>
              (firstErr,
               snd (eventRepo_Create \<lparr>
                      pe_ID = 0,
                      pe_PaymentID = ID payment,
                      pe_EventType = ''payment_expired'',
                      pe_OldStatus = Some oldStatus,
                      pe_NewStatus = Status payment,
                      pe_ProviderEventID = None,
                      pe_PayloadJSON = None,
                      pe_CreatedAt = now\<rparr> w1))))"

definition RunExpirePendingBatch ::
  "payment_service \<Rightarrow> time \<Rightarrow> world \<Rightarrow> error option \<times> world" where
  "RunExpirePendingBatch s now w =
     (let cutoff = now - cfg_PendingTimeout (paymentsCfg s)
      in case repo_ListExpiredPending cutoff (batchSize s) w of
        (Inl err, w1) \<Rightarrow> (Some err, w1)
      | (Inr items, w1) \<Rightarrow> fold (RunExpirePendingBatch_body s now) items (None, w1))"

subsection \<open>Example data\<close>

text \<open>
  The stub provider and the service of the repository's service tests
  (\<^verbatim>\<open>serviceProvider\<close>, \<^verbatim>\<open>newPaymentServiceForTest\<close>), and the payment row those tests
  start from: id 1, request \<^verbatim>\<open>req-1\<close>, provider Stripe, callback hash \<^verbatim>\<open>hash-1\<close>.
  The stub answers every call with the value it was built with; the HTTP endpoint of
  the caller answers every POST with \<open>http\<close>.
\<close>

definition serviceProvider ::
  "(error + create_output) \<Rightarrow> (error + callback_event option) \<Rightarrow> (error + int32) \<Rightarrow> provider" where
  "serviceProvider created callbackEvt reconcile = \<lparr>
      prov_Code = PROVIDER_TYPE_STRIPE,
      prov_CreatePayment = (\<lambda>_. created),
      prov_VerifyAndParseCallback = (\<lambda>_ _. callbackEvt),
      prov_GetPaymentStatus = (\<lambda>_. reconcile)\<rparr>"

definition NewRegistry :: "provider list \<Rightarrow> registry" where
  "NewRegistry ps = fold (\<lambda>p items. items(prov_Code p \<mapsto> p)) ps Map.empty"

definition newPaymentServiceForTest :: "int32 \<Rightarrow> provider \<Rightarrow> (error + int) \<Rightarrow> payment_service" where
  "newPaymentServiceForTest maxAttempts p http = \<lparr>
      providerReg = NewRegistry [p],
      paymentsCfg = \<lparr>
        cfg_CallbackMaxAttempts = maxAttempts,
        cfg_CallbackRetryInterval = 1000000000,
        cfg_CallbackHTTPTimeout = 1000000000,
        cfg_PendingTimeout = 60000000000,
        cfg_ReconcileStaleAfter = 60000000000,
        cfg_JobBatchSize = 100\<rparr>,
      appAPIKey = ''payments-app-key'',
      callbackHTTP = (\<lambda>_. http),
      json_Marshal = (\<lambda>p. Inr (RequestID p))\<rparr>"

definition test_created :: create_output where
  "test_created = \<lparr>
      co_ProviderPaymentID = Some ''cs_test_123'',
      co_ProviderSubscriptionID = None,
      co_CheckoutURL = Some ''https://stripe.example/checkout/session'',
      co_ProviderCallbackURL = ''https://gateway.example/callback/hash'',
      co_InitialStatus = PAYMENT_STATUS_PENDING\<rparr>"

definition test_event :: "int32 \<Rightarrow> callback_event" where
  "test_event st = \<lparr>
      ce_ProviderEventID = None,
      ce_ProviderPaymentID = None,
      ce_ProviderSubscriptionID = None,
      ce_EventType = ''checkout.session.completed'',
      ce_NewStatus = st\<rparr>"

definition test_service :: "int32 \<Rightarrow> payment_service" where
  "test_service st =
     newPaymentServiceForTest 3
       (serviceProvider (Inr test_created) (Inr (Some (test_event st))) (Inr st)) (Inr 200)"

definition test_payment :: "int32 \<Rightarrow> payment" where
  "test_payment st = \<lparr>
      ID = 1,
      RequestID = ''req-1'',
      CallerService = ''subscriptions-service'',
      ResourceType = ''subscription'',
      ResourceID = ''sub-1'',
      CustomerRef = None,
      AmountCents = 1000,
      Currency = ''USD'',
      Status = st,
      PaymentMethod = 1,
      PaymentType = 1,
      Provider = PROVIDER_TYPE_STRIPE,
      RecurringInterval = None,
      RecurringIntervalCount = None,
      ProviderPaymentID = Some ''cs_test_123'',
      ProviderSubscriptionID = None,
      CheckoutURL = None,
      ProviderCallbackHash = ''hash-1'',
      ProviderCallbackURL = ''https://gateway.example/callback/hash-1'',
      StatusCallbackURL = ''https://caller.example/status'',
      RefundedCents = 0,
      RefundableCents = 1000,
      Metadata = [],
      CallbackDeliveryStatus = CallbackDeliveryNone,
      CallbackDeliveryAttempts = 0,
      CallbackDeliveryNextAt = None,
      CallbackDeliveryLastErr = None,
      CreatedAt = 0,
      UpdatedAt = 0\<rparr>"

definition test_world :: "payment list \<Rightarrow> world" where
  "test_world rows = \<lparr>
      payments = rows,
      payment_events = [],
      payment_callbacks = [],
      io_script = [],
      provider_log = []\<rparr>"

definition test_callback :: "string \<Rightarrow> handle_provider_callback_request" where
  "test_callback tag = \<lparr>
      hc_Provider = tag,
      hc_CallbackHash = ''hash-1'',
      hc_Signature = ''valid-signature'',
      hc_Payload = ''{}''\<rparr>"

definition test_create :: create_payment_request where
  "test_create = \<lparr>
      rq_RequestId = ''req-1'',
      rq_CallerService = ''subscriptions-service'',
      rq_ResourceType = ''subscription'',
      rq_ResourceId = ''sub-1'',
      rq_CustomerRef = [],
      rq_AmountCents = 1000,
      rq_Currency = ''usd'',
      rq_PaymentMethod = 1,
      rq_PaymentType = 1,
      rq_Provider = PROVIDER_TYPE_UNSPECIFIED,
      rq_RecurringInterval = [],
      rq_RecurringIntervalCount = 0,
      rq_StatusCallbackUrl = ''https://caller.example/callback'',
      rq_SuccessUrl = [],
      rq_CancelUrl = [],
      rq_Metadata = []\<rparr>"

subsection \<open>Predicates used by the properties\<close>

text \<open>The primary key of the payments table: no two rows share an identifier.\<close>

definition primary_key :: "world \<Rightarrow> bool" where
  "primary_key w = distinct (map ID (payments w))"

text \<open>A payment is armed for delivery at \<open>now\<close>: PENDING, no attempts, due at \<open>now\<close>,
  no last error.\<close>

definition armed :: "time \<Rightarrow> payment \<Rightarrow> bool" where
  "armed now r =
     (CallbackDeliveryStatus r = CallbackDeliveryPending
      \<and> CallbackDeliveryAttempts r = 0
      \<and> CallbackDeliveryNextAt r = Some now
      \<and> CallbackDeliveryLastErr r = None)"

text \<open>
  A row \<open>r'\<close> of the table after an operation has entered a terminal status when its
  status is terminal and no row with its identifier had that status in the table
  \<open>rows\<close> before the operation: the row is new, or its status has changed.
\<close>

definition entered_terminal :: "payment list \<Rightarrow> payment \<Rightarrow> bool" where
  "entered_terminal rows r' =
     (terminalStatus (Status r')
      \<and> \<not> list_ex (\<lambda>r. ID r = ID r' \<and> Status r = Status r') rows)"

text \<open>Every row that entered a terminal status between the two tables is armed at \<open>now\<close>.\<close>

definition arms_transitions :: "time \<Rightarrow> payment list \<Rightarrow> payment list \<Rightarrow> bool" where
  "arms_transitions now rows rows' =
     list_all (\<lambda>r'. entered_terminal rows r' \<longrightarrow> armed now r') rows'"

section \<open>Properties\<close>

subsection \<open>Storage lemmas\<close>

lemma io_next_nil: "io_script w = [] \<Longrightarrow> io_next w = (None, w)"
  by (simp add: io_next_def)

lemma update_columns_same:
  "ID p = ID r \<Longrightarrow> RequestID p = RequestID r \<Longrightarrow> CallerService p = CallerService r \<Longrightarrow>
   ProviderCallbackHash p = ProviderCallbackHash r \<Longrightarrow> CreatedAt p = CreatedAt r \<Longrightarrow>
   payment.more p = payment.more r \<Longrightarrow> update_columns r p = p"
  by (cases r, cases p) (simp add: update_columns_def)

lemma primary_key_unique:
  "distinct (map ID rows) \<Longrightarrow> p \<in> set rows \<Longrightarrow> r \<in> set rows \<Longrightarrow> ID r = ID p \<Longrightarrow> r = p"
  by (meson distinct_map inj_onD)

lemma repo_Update_events:
  "payment_events (snd (repo_Update p w)) = payment_events w"
  by (simp add: repo_Update_def io_next_def split: list.splits option.splits)

lemma repo_Update_row:
  assumes "io_script w = []" "distinct (map ID (payments w))" "r \<in> set (payments w)"
    "update_columns r p = p" "ID p = ID r"
  shows "repo_Update p w = (None, w\<lparr>payments := map (\<lambda>x. if x = r then p else x) (payments w)\<rparr>)"
proof -
  have ex: "list_ex (\<lambda>x. ID x = ID p) (payments w)"
    using assms(3,5) by (auto simp: list_ex_iff)
  have "map (\<lambda>x. if ID x = ID p then update_columns x p else x) (payments w)
        = map (\<lambda>x. if x = r then p else x) (payments w)"
    using assms(2-5) primary_key_unique[OF assms(2) assms(3)] by (intro map_cong) auto
  then show ?thesis
    using ex assms(1) by (simp add: repo_Update_def io_next_nil)
qed

lemma repo_Update_log:
  "provider_log (snd (repo_Update p w)) = provider_log w"
  by (simp add: repo_Update_def io_next_def split: list.splits option.splits)

lemma eventRepo_Create_log:
  "provider_log (snd (eventRepo_Create ev w)) = provider_log w"
  by (simp add: eventRepo_Create_def io_next_def split: list.splits option.splits)

subsection \<open>C10: the provider route tag\<close>

lemma callbackRepo_Create_log:
  "provider_log (snd (callbackRepo_Create cb w)) = provider_log w"
  by (simp add: callbackRepo_Create_def io_next_def split: list.splits option.splits)

lemma persistRejectedCallback_log:
  "provider_log (persistRejectedCallback now i req reason w) = provider_log w"
  by (simp add: persistRejectedCallback_def Let_def callbackRepo_Create_log)

lemma repo_FindByCallbackHash_log:
  "provider_log (snd (repo_FindByCallbackHash c h w)) = provider_log w"
  by (simp add: repo_FindByCallbackHash_def io_next_def split: list.splits option.splits)

lemma parseProviderCode_cases:
  "parseProviderCode raw =
     (if ToLower (TrimSpace raw) = ''stripe'' \<or> ToLower (TrimSpace raw) = ''1''
      then Inr PROVIDER_TYPE_STRIPE else Inl ErrProviderNotSupported)"
  by (simp add: parseProviderCode_def Let_def)

lemma HandleProviderCallback_unsupported:
  "parseProviderCode (hc_Provider req) = Inl e \<or>
   (parseProviderCode (hc_Provider req) = Inr code \<and> providerReg s code = None)
   \<Longrightarrow> HandleProviderCallback s now req w = (Inl ErrProviderUnsupported, w)"
  by (auto simp: HandleProviderCallback_def parseProviderCode_cases Registry_Get_def
        split: if_splits)

lemma HandleProviderCallback_rejected:
  assumes "parseProviderCode (hc_Provider req) = Inr code" "providerReg s code = Some prov"
    and "prov_VerifyAndParseCallback prov (hc_Payload req) (TrimSpace (hc_Signature req)) = Inl e"
  shows "fst (HandleProviderCallback s now req w) = Inl ErrCallbackRejected"
  using assms by (simp add: HandleProviderCallback_def Registry_Get_def Let_def)

lemma HandleProviderCallback_log:
  assumes code: "parseProviderCode (hc_Provider req) = Inr code"
    and reg: "providerReg s code = Some prov"
  shows "provider_log (snd (HandleProviderCallback s now req w))
         = provider_log w
           @ [CallVerifyAndParseCallback (hc_Payload req) (TrimSpace (hc_Signature req))]"
proof -
  let ?w1 = "log_call (CallVerifyAndParseCallback (hc_Payload req) (TrimSpace (hc_Signature req))) w"
  have l1: "provider_log ?w1 = provider_log w
              @ [CallVerifyAndParseCallback (hc_Payload req) (TrimSpace (hc_Signature req))]"
    by (simp add: log_call_def)
  have rg: "Registry_Get (providerReg s) code = Inr prov" using reg by (simp add: Registry_Get_def)
  show ?thesis
  proof (cases "prov_VerifyAndParseCallback prov (hc_Payload req) (TrimSpace (hc_Signature req))")
    case (Inl e)
    then show ?thesis using code rg l1
      by (simp add: HandleProviderCallback_def Let_def persistRejectedCallback_log)
  next
    case ev: (Inr evo)
    show ?thesis
    proof (cases evo)
      case None
      then show ?thesis using code rg ev l1
        by (simp add: HandleProviderCallback_def Let_def persistRejectedCallback_log)
    next
      case (Some parsedEvent)
      obtain r w2 where f: "repo_FindByCallbackHash code (TrimSpace (hc_CallbackHash req)) ?w1 = (r, w2)"
        by (cases "repo_FindByCallbackHash code (TrimSpace (hc_CallbackHash req)) ?w1")
      have l2: "provider_log w2 = provider_log ?w1"
        using repo_FindByCallbackHash_log[of code "TrimSpace (hc_CallbackHash req)" ?w1] f by simp
      show ?thesis
      proof (cases r)
        case (Inl e)
        then show ?thesis using code rg ev Some f l1 l2
          by (simp add: HandleProviderCallback_def Let_def)
      next
        case (Inr po)
        show ?thesis
        proof (cases po)
          case None
          then show ?thesis using code rg ev Some f Inr l1 l2
            by (simp add: HandleProviderCallback_def Let_def persistRejectedCallback_log)
        next
          case found: (Some payment0)
          let ?p = "applyCallbackEvent parsedEvent now payment0"
          obtain e w3 where u: "repo_Update ?p w2 = (e, w3)" by (cases "repo_Update ?p w2")
          have l3: "provider_log w3 = provider_log w2"
            using repo_Update_log[of ?p w2] u by simp
          show ?thesis
          proof (cases e)
            case (Some err)
            then show ?thesis
              using code rg ev \<open>evo = Some parsedEvent\<close> f Inr found u l1 l2 l3
              by (simp add: HandleProviderCallback_def Let_def split del: if_split)
                 (simp add: l1 l2 l3)
          next
            case None
            let ?ev = "\<lparr>pe_ID = 0, pe_PaymentID = ID ?p,
                 pe_EventType = (if TrimSpace (ce_EventType parsedEvent) = []
                                 then ''provider_callback''
                                 else TrimSpace (ce_EventType parsedEvent)),
                 pe_OldStatus = (if Status payment0 = Status ?p then None
                                 else Some (Status payment0)),
                 pe_NewStatus = Status ?p,
                 pe_ProviderEventID = ce_ProviderEventID parsedEvent,
                 pe_PayloadJSON = Some (hc_Payload req), pe_CreatedAt = now\<rparr>"
            let ?w4 = "snd (eventRepo_Create ?ev w3)"
            have l4: "provider_log ?w4 = provider_log w3" by (rule eventRepo_Create_log)
            have l5: "provider_log (snd (case callbackRepo_Create cb ?w4 of
                          (Some callbackErr, w5) \<Rightarrow> (Inl callbackErr, w5)
                        | (None, w5) \<Rightarrow> (Inr ?p, w5))) = provider_log ?w4" for cb
              using callbackRepo_Create_log[of cb ?w4]
              by (cases "callbackRepo_Create cb ?w4") (auto split: option.splits)
            show ?thesis
              using code rg ev \<open>evo = Some parsedEvent\<close> f Inr found u None
              by (simp add: HandleProviderCallback_def Let_def l5 l4 l3 l2 l1 split del: if_split)
          qed
        qed
      qed
    qed
  qed
qed

text \<open>
  Claim C10. In \<open>HandleProviderCallback\<close> the provider route tag is trimmed and
  lowercased before matching, and both \<^verbatim>\<open>stripe\<close> and \<^verbatim>\<open>1\<close> resolve to the Stripe
  provider code: \<open>parseProviderCode\<close> answers the Stripe code exactly for the tags that
  read \<^verbatim>\<open>stripe\<close> or \<^verbatim>\<open>1\<close> once trimmed and lowercased, and for such a tag
  \<open>HandleProviderCallback\<close> hands the payload and the trimmed signature to the provider
  registered under the Stripe code (one verification call is logged, whatever storage
  does afterwards, and a callback that this provider refuses is rejected with
  \<open>ErrCallbackRejected\<close>); with no provider registered under that code the callback is
  refused with \<open>ErrProviderUnsupported\<close>. For every other tag the operation returns
  \<open>ErrProviderUnsupported\<close> and the world is left as it was: no provider was asked to
  verify a signature (the provider log is unchanged), no storage call was made and no
  PaymentCallback row was written.
\<close>

theorem unknown_provider_tag_unsupported:
  "(parseProviderCode raw = Inr PROVIDER_TYPE_STRIPE
      \<longleftrightarrow> ToLower (TrimSpace raw) = ''stripe'' \<or> ToLower (TrimSpace raw) = ''1'')
   \<and> (parseProviderCode raw \<noteq> Inr PROVIDER_TYPE_STRIPE
      \<longrightarrow> parseProviderCode raw = Inl ErrProviderNotSupported)
   \<and> (ToLower (TrimSpace (hc_Provider req)) \<noteq> ''stripe''
        \<and> ToLower (TrimSpace (hc_Provider req)) \<noteq> ''1''
      \<longrightarrow> HandleProviderCallback s now req w = (Inl ErrProviderUnsupported, w))
   \<and> (ToLower (TrimSpace (hc_Provider req)) = ''stripe''
        \<or> ToLower (TrimSpace (hc_Provider req)) = ''1''
      \<longrightarrow> (case providerReg s PROVIDER_TYPE_STRIPE of
             None \<Rightarrow> HandleProviderCallback s now req w = (Inl ErrProviderUnsupported, w)
           | Some prov \<Rightarrow>
               provider_log (snd (HandleProviderCallback s now req w))
                 = provider_log w
                   @ [CallVerifyAndParseCallback (hc_Payload req) (TrimSpace (hc_Signature req))]
               \<and> (\<forall>e. prov_VerifyAndParseCallback prov (hc_Payload req)
                          (TrimSpace (hc_Signature req)) = Inl e
                        \<longrightarrow> fst (HandleProviderCallback s now req w) = Inl ErrCallbackRejected)))"
proof (intro conjI impI)
  show "(parseProviderCode raw = Inr PROVIDER_TYPE_STRIPE)
        = (ToLower (TrimSpace raw) = ''stripe'' \<or> ToLower (TrimSpace raw) = ''1'')"
    by (simp add: parseProviderCode_cases)
next
  assume "parseProviderCode raw \<noteq> Inr PROVIDER_TYPE_STRIPE"
  then show "parseProviderCode raw = Inl ErrProviderNotSupported"
    by (simp add: parseProviderCode_cases split: if_splits)
next
  assume "ToLower (TrimSpace (hc_Provider req)) \<noteq> ''stripe''
          \<and> ToLower (TrimSpace (hc_Provider req)) \<noteq> ''1''"
  then have "parseProviderCode (hc_Provider req) = Inl ErrProviderNotSupported"
    by (simp add: parseProviderCode_cases)
  then show "HandleProviderCallback s now req w = (Inl ErrProviderUnsupported, w)"
    using HandleProviderCallback_unsupported[of req ErrProviderNotSupported] by simp
next
  assume "ToLower (TrimSpace (hc_Provider req)) = ''stripe''
          \<or> ToLower (TrimSpace (hc_Provider req)) = ''1''"
  then have code: "parseProviderCode (hc_Provider req) = Inr PROVIDER_TYPE_STRIPE"
    by (simp add: parseProviderCode_cases)
  show "case providerReg s PROVIDER_TYPE_STRIPE of
          None \<Rightarrow> HandleProviderCallback s now req w = (Inl ErrProviderUnsupported, w)
        | Some prov \<Rightarrow>
            provider_log (snd (HandleProviderCallback s now req w))
              = provider_log w
                @ [CallVerifyAndParseCallback (hc_Payload req) (TrimSpace (hc_Signature req))]
            \<and> (\<forall>e. prov_VerifyAndParseCallback prov (hc_Payload req)
                       (TrimSpace (hc_Signature req)) = Inl e
                     \<longrightarrow> fst (HandleProviderCallback s now req w) = Inl ErrCallbackRejected)"
  proof (cases "providerReg s PROVIDER_TYPE_STRIPE")
    case None
    then show ?thesis
      using HandleProviderCallback_unsupported[of req _ PROVIDER_TYPE_STRIPE s now w] code
      by simp
  next
    case (Some prov)
    then show ?thesis
      using HandleProviderCallback_log[OF code Some, of now w]
        HandleProviderCallback_rejected[OF code Some, of _ now w]
      by simp
  qed
qed

theorem unknown_provider_tag_unsupported_witness:
  "parseProviderCode ''  Stripe '' = Inr PROVIDER_TYPE_STRIPE
   \<and> parseProviderCode ''1'' = Inr PROVIDER_TYPE_STRIPE
   \<and> parseProviderCode ([CHR 0xC2, CHR 0xA0] @ ''Stripe'' @ [CHR 0xE3, CHR 0x80, CHR 0x80])
       = Inr PROVIDER_TYPE_STRIPE
   \<and> parseProviderCode (''STR'' @ [CHR 0xC4, CHR 0xB0] @ ''PE'') = Inr PROVIDER_TYPE_STRIPE
   \<and> parseProviderCode ''paypal'' = Inl ErrProviderNotSupported
   \<and> HandleProviderCallback (test_service 10) 5 (test_callback ''paypal'')
        (test_world [test_payment 2])
      = (Inl ErrProviderUnsupported, test_world [test_payment 2])
   \<and> provider_log (snd (HandleProviderCallback (test_service 10) 5 (test_callback '' Stripe '')
        (test_world [test_payment 2])))
      = [CallVerifyAndParseCallback ''{}'' ''valid-signature'']
   \<and> fst (HandleProviderCallback
        (newPaymentServiceForTest 3
           (serviceProvider (Inr test_created)
              (Inl (OtherError ''invalid stripe signature'')) (Inr 0)) (Inr 200))
        5 (test_callback ''1'') (test_world [test_payment 2]))
      = Inl ErrCallbackRejected
   \<and> HandleProviderCallback ((test_service 10)\<lparr>providerReg := NewRegistry []\<rparr>) 5
        (test_callback ''stripe'') (test_world [test_payment 2])
      = (Inl ErrProviderUnsupported, test_world [test_payment 2])"
proof -
  let ?w = "test_world [test_payment 2]"
  let ?good = "serviceProvider (Inr test_created) (Inr (Some (test_event 10))) (Inr 10)"
  let ?bad = "serviceProvider (Inr test_created)
               (Inl (OtherError ''invalid stripe signature'')) (Inr 0)"
  let ?s2 = "newPaymentServiceForTest 3 ?bad (Inr 200)"
  let ?s3 = "(test_service 10)\<lparr>providerReg := NewRegistry []\<rparr>"
  have a: "ToLower (TrimSpace ''  Stripe '') = ''stripe''" by code_simp
  have b: "ToLower (TrimSpace ''1'') = ''1''" by code_simp
  have c: "ToLower (TrimSpace ''paypal'') \<noteq> ''stripe'' \<and> ToLower (TrimSpace ''paypal'') \<noteq> ''1''"
    by code_simp
  have u1: "ToLower (TrimSpace ([CHR 0xC2, CHR 0xA0] @ ''Stripe'' @ [CHR 0xE3, CHR 0x80, CHR 0x80]))
            = ''stripe''" by code_simp
  have u2: "ToLower (TrimSpace (''STR'' @ [CHR 0xC4, CHR 0xB0] @ ''PE'')) = ''stripe''"
    by code_simp
  have a': "ToLower (TrimSpace '' Stripe '') = ''stripe''" by code_simp
  have s: "ToLower (TrimSpace ''stripe'') = ''stripe''" by code_simp
  have sg: "TrimSpace ''valid-signature'' = ''valid-signature''" by code_simp
  have d: "hc_Provider (test_callback t) = t" "hc_Payload (test_callback t) = ''{}''"
    "hc_Signature (test_callback t) = ''valid-signature''" for t
    by (simp_all add: test_callback_def)
  have reg1: "providerReg (test_service 10) PROVIDER_TYPE_STRIPE = Some ?good"
    by (simp add: test_service_def newPaymentServiceForTest_def NewRegistry_def
          serviceProvider_def)
  have reg2: "providerReg ?s2 PROVIDER_TYPE_STRIPE = Some ?bad"
    by (simp add: newPaymentServiceForTest_def NewRegistry_def serviceProvider_def)
  have reg3: "providerReg ?s3 PROVIDER_TYPE_STRIPE = None"
    by (simp add: NewRegistry_def)
  have v2: "prov_VerifyAndParseCallback ?bad x y = Inl (OtherError ''invalid stripe signature'')"
    for x y
    by (simp add: serviceProvider_def)
  have lg: "provider_log ?w = []" by (simp add: test_world_def)
  have 1: "parseProviderCode ''  Stripe '' = Inr PROVIDER_TYPE_STRIPE"
    using unknown_provider_tag_unsupported[where raw = "''  Stripe ''"] a by simp
  have 2: "parseProviderCode ''1'' = Inr PROVIDER_TYPE_STRIPE"
    using unknown_provider_tag_unsupported[where raw = "''1''"] b by simp
  have 3: "parseProviderCode ([CHR 0xC2, CHR 0xA0] @ ''Stripe'' @ [CHR 0xE3, CHR 0x80, CHR 0x80])
           = Inr PROVIDER_TYPE_STRIPE"
    using unknown_provider_tag_unsupported[where
        raw = "[CHR 0xC2, CHR 0xA0] @ ''Stripe'' @ [CHR 0xE3, CHR 0x80, CHR 0x80]"] u1
    by simp
  have 4: "parseProviderCode (''STR'' @ [CHR 0xC4, CHR 0xB0] @ ''PE'') = Inr PROVIDER_TYPE_STRIPE"
    using unknown_provider_tag_unsupported[where raw = "''STR'' @ [CHR 0xC4, CHR 0xB0] @ ''PE''"]
      u2 by simp
  have 5: "parseProviderCode ''paypal'' = Inl ErrProviderNotSupported"
    using unknown_provider_tag_unsupported[where raw = "''paypal''"] c by simp
  have 6: "HandleProviderCallback (test_service 10) 5 (test_callback ''paypal'') ?w
           = (Inl ErrProviderUnsupported, ?w)"
    using unknown_provider_tag_unsupported[where req = "test_callback ''paypal''"
        and s = "test_service 10" and now = 5 and w = ?w] c d
    by simp
  have 7: "provider_log (snd (HandleProviderCallback (test_service 10) 5
              (test_callback '' Stripe '') ?w))
           = [CallVerifyAndParseCallback ''{}'' ''valid-signature'']"
    using unknown_provider_tag_unsupported[where req = "test_callback '' Stripe ''"
        and s = "test_service 10" and now = 5 and w = ?w] a' d reg1 sg lg
    by simp
  have 8: "fst (HandleProviderCallback ?s2 5 (test_callback ''1'') ?w) = Inl ErrCallbackRejected"
    using unknown_provider_tag_unsupported[where req = "test_callback ''1''"
        and s = ?s2 and now = 5 and w = ?w] b d reg2 v2
    by simp
  have 9: "HandleProviderCallback ?s3 5 (test_callback ''stripe'') ?w
           = (Inl ErrProviderUnsupported, ?w)"
    using unknown_provider_tag_unsupported[where req = "test_callback ''stripe''"
        and s = ?s3 and now = 5 and w = ?w] s d reg3
    by simp
  show ?thesis using 1 2 3 4 5 6 7 8 9 by simp
qed

subsection \<open>C7: dispatching to an empty callback URL\<close>

text \<open>
  Claim C7. When the dispatcher is invoked on a payment whose \<open>status_callback_url\<close> is
  empty (blank after trimming), it emits no event, whatever the storage does; and when
  storage works and the payment is a row of the table, the row is rewritten with
  delivery status FAILED, no next attempt, the last error
  \<^verbatim>\<open>status_callback_url is empty\<close> and \<open>updated_at = now\<close>, nothing else in the world
  changes and the dispatcher reports no error.
\<close>

theorem dispatch_empty_url:
  assumes "TrimSpace (StatusCallbackURL p) = []"
  shows "payment_events (snd (dispatchCallback s p now w)) = payment_events w
     \<and> (io_script w = [] \<and> primary_key w \<and> p \<in> set (payments w) \<longrightarrow>
         dispatchCallback s p now w =
           (None, w\<lparr>payments := map (\<lambda>r. if r = p then p\<lparr>
                CallbackDeliveryStatus := CallbackDeliveryFailed,
                CallbackDeliveryNextAt := None,
                CallbackDeliveryLastErr := Some ''status_callback_url is empty'',
                UpdatedAt := now\<rparr> else r) (payments w)\<rparr>))"
proof -
  let ?p' = "p\<lparr>CallbackDeliveryStatus := CallbackDeliveryFailed,
                CallbackDeliveryNextAt := None,
                CallbackDeliveryLastErr := Some ''status_callback_url is empty'',
                UpdatedAt := now\<rparr>"
  have d: "dispatchCallback s p now w = repo_Update ?p' w"
    using assms by (simp add: dispatchCallback_def)
  have u: "update_columns p ?p' = ?p'"
    by (rule update_columns_same) simp_all
  show ?thesis
    using d repo_Update_events[of ?p' w] repo_Update_row[of w p ?p', OF _ _ _ u]
    by (simp add: primary_key_def)
qed

theorem dispatch_empty_url_witness:
  "TrimSpace (StatusCallbackURL ((test_payment 10)\<lparr>StatusCallbackURL := ''  ''\<rparr>)) = []
   \<and> dispatchCallback (test_service 10) ((test_payment 10)\<lparr>StatusCallbackURL := ''  ''\<rparr>) 5
        (test_world [(test_payment 10)\<lparr>StatusCallbackURL := ''  ''\<rparr>])
      = (None, test_world [(test_payment 10)\<lparr>StatusCallbackURL := ''  '',
            CallbackDeliveryStatus := CallbackDeliveryFailed,
            CallbackDeliveryNextAt := None,
            CallbackDeliveryLastErr := Some ''status_callback_url is empty'',
            UpdatedAt := 5\<rparr>])"
proof -
  let ?p = "(test_payment 10)\<lparr>StatusCallbackURL := ''  ''\<rparr>"
  have a: "TrimSpace (StatusCallbackURL ?p) = []" by code_simp
  have b: "io_script (test_world [?p]) = [] \<and> primary_key (test_world [?p])
            \<and> ?p \<in> set (payments (test_world [?p]))"
    by (simp add: test_world_def primary_key_def)
  show ?thesis
    using dispatch_empty_url[OF a, of "test_service 10" 5 "test_world [?p]"] a b
    by (simp add: test_world_def)
qed

subsection \<open>C6: bookkeeping of a failed delivery attempt\<close>

lemma eventRepo_Create_nil:
  "io_script w = [] \<Longrightarrow> eventRepo_Create ev w =
     (None, w\<lparr>payment_events := payment_events w @ [ev\<lparr>pe_ID := Suc (length (payment_events w))\<rparr>]\<rparr>)"
  by (simp add: eventRepo_Create_def io_next_nil)

lemma repo_FindByID_nil:
  "io_script w = [] \<Longrightarrow> repo_FindByID i w = (Inr (find (\<lambda>r. ID r = i) (payments w)), w)"
  by (simp add: repo_FindByID_def io_next_nil)

lemma sint_floor_one: "sint (if sint (c::int32) \<le> 0 then 1 else c) = max 1 (sint c)"
  by (simp add: max_def)

lemma truncate_str_take: "truncate_str v n = take n v"
  by (simp add: truncate_str_def)

lemma repo_Update_own_row:
  assumes "io_script w = []" "primary_key w" "r \<in> set (payments w)"
    and "ID p = ID r" "RequestID p = RequestID r" "CallerService p = CallerService r"
      "ProviderCallbackHash p = ProviderCallbackHash r" "CreatedAt p = CreatedAt r"
  shows "repo_Update p w = (None, w\<lparr>payments := map (\<lambda>x. if x = r then p else x) (payments w)\<rparr>)"
proof -
  have "update_columns r p = p"
    using assms(4-8) by (intro update_columns_same) simp_all
  then show ?thesis
    using repo_Update_row[of w r p] assms(1-4) by (simp add: primary_key_def)
qed

lemma recordDispatchFailure_ok:
  assumes io: "io_script w = []" and pk: "primary_key w" and mem: "p \<in> set (payments w)"
  shows "recordDispatchFailure s p now err w =
      (Some err,
       w\<lparr>payments := map (\<lambda>r. if r = p then p\<lparr>
              CallbackDeliveryAttempts := CallbackDeliveryAttempts p + 1,
              CallbackDeliveryLastErr := Some (take 1024 (error_message err)),
              CallbackDeliveryStatus :=
                (if max 1 (sint (cfg_CallbackMaxAttempts (paymentsCfg s)))
                      \<le> sint (CallbackDeliveryAttempts p + 1)
                 then CallbackDeliveryFailed else CallbackDeliveryPending),
              CallbackDeliveryNextAt :=
                (if max 1 (sint (cfg_CallbackMaxAttempts (paymentsCfg s)))
                      \<le> sint (CallbackDeliveryAttempts p + 1)
                 then None
                 else Some (now + (if cfg_CallbackRetryInterval (paymentsCfg s) \<le> 0
                                   then 300000000000
                                   else cfg_CallbackRetryInterval (paymentsCfg s)))),
              UpdatedAt := now\<rparr> else r) (payments w),
         payment_events := payment_events w @ [\<lparr>
              pe_ID = Suc (length (payment_events w)),
              pe_PaymentID = ID p,
              pe_EventType = ''callback_dispatch_failed'',
              pe_OldStatus = None,
              pe_NewStatus = Status p,
              pe_ProviderEventID = None,
              pe_PayloadJSON = None,
              pe_CreatedAt = now\<rparr>]\<rparr>)"
  unfolding recordDispatchFailure_def Let_def sint_floor_one truncate_str_take
  by (simp add: repo_Update_own_row[where r = p, OF io pk mem] eventRepo_Create_nil io)


text \<open>
  Claim C6. A delivery attempt fails when the POST returns a transport error or a
  status outside [200, 300). When storage works and the payment is a row of the table,
  the dispatcher then rewrites the row with \<open>attempts + 1\<close> (in \<^verbatim>\<open>int32\<close> arithmetic)
  and the last error cut to 1024 bytes; if the new count reaches
  \<open>callback_max_attempts\<close> (at least 1) the delivery status is FAILED with no next
  attempt, otherwise PENDING with the next attempt at \<open>now\<close> plus the retry interval
  (5 minutes when the configured one is not positive); \<open>updated_at\<close> is \<open>now\<close>; one
  \<^verbatim>\<open>callback_dispatch_failed\<close> event is appended; and the original error is returned.
\<close>

theorem dispatch_failure_bookkeeping:
  assumes url: "TrimSpace (StatusCallbackURL p) \<noteq> []"
    and body: "json_Marshal s p = Inr body"
    and outcome:
      "callbackHTTP s \<lparr>hr_URL = StatusCallbackURL p,
          hr_Headers = [(''Content-Type'', ''application/json''), (''X-Request-ID'', RequestID p)]
                       @ (if appAPIKey s \<noteq> [] then [(''X-API-Key'', appAPIKey s)] else []),
          hr_Body = body\<rparr> = response"
    and failed: "response = Inl err
                 \<or> (\<exists>code. response = Inr code \<and> (code < 200 \<or> 300 \<le> code)
                        \<and> err = CallbackStatusError code)"
    and io: "io_script w = []" and pk: "primary_key w" and mem: "p \<in> set (payments w)"
  shows "dispatchCallback s p now w =
      (Some err,
       w\<lparr>payments := map (\<lambda>r. if r = p then p\<lparr>
              CallbackDeliveryAttempts := CallbackDeliveryAttempts p + 1,
              CallbackDeliveryLastErr := Some (take 1024 (error_message err)),
              CallbackDeliveryStatus :=
                (if max 1 (sint (cfg_CallbackMaxAttempts (paymentsCfg s)))
                      \<le> sint (CallbackDeliveryAttempts p + 1)
                 then CallbackDeliveryFailed else CallbackDeliveryPending),
              CallbackDeliveryNextAt :=
                (if max 1 (sint (cfg_CallbackMaxAttempts (paymentsCfg s)))
                      \<le> sint (CallbackDeliveryAttempts p + 1)
                 then None
                 else Some (now + (if cfg_CallbackRetryInterval (paymentsCfg s) \<le> 0
                                   then 300000000000
                                   else cfg_CallbackRetryInterval (paymentsCfg s)))),
              UpdatedAt := now\<rparr> else r) (payments w),
         payment_events := payment_events w @ [\<lparr>
              pe_ID = Suc (length (payment_events w)),
              pe_PaymentID = ID p,
              pe_EventType = ''callback_dispatch_failed'',
              pe_OldStatus = None,
              pe_NewStatus = Status p,
              pe_ProviderEventID = None,
              pe_PayloadJSON = None,
              pe_CreatedAt = now\<rparr>]\<rparr>)"
proof -
  have "dispatchCallback s p now w = recordDispatchFailure s p now err w"
    using url body outcome failed by (auto simp: dispatchCallback_def Let_def)
  then show ?thesis
    by (simp only: recordDispatchFailure_ok[OF io pk mem])
qed

theorem dispatch_failure_bookkeeping_witness:
  "dispatchCallback
     (newPaymentServiceForTest 1 (serviceProvider (Inr test_created) (Inr None) (Inr 0)) (Inr 500))
     (markForCallbackDelivery (test_payment 20) 5) 10
     (test_world [markForCallbackDelivery (test_payment 20) 5])
   = (Some (CallbackStatusError 500),
      (test_world [(test_payment 20)\<lparr>
          CallbackDeliveryStatus := CallbackDeliveryFailed,
          CallbackDeliveryAttempts := 1,
          CallbackDeliveryNextAt := None,
          CallbackDeliveryLastErr := Some ''callback endpoint returned status=500'',
          UpdatedAt := 10\<rparr>])\<lparr>payment_events := [\<lparr>
              pe_ID = 1,
              pe_PaymentID = 1,
              pe_EventType = ''callback_dispatch_failed'',
              pe_OldStatus = None,
              pe_NewStatus = 20,
              pe_ProviderEventID = None,
              pe_PayloadJSON = None,
              pe_CreatedAt = 10\<rparr>]\<rparr>)
   \<and> fst (dispatchCallback
     (newPaymentServiceForTest 3 (serviceProvider (Inr test_created) (Inr None) (Inr 0))
        (Inl (OtherError ''connection refused'')))
     (markForCallbackDelivery (test_payment 20) 5) 10
     (test_world [markForCallbackDelivery (test_payment 20) 5]))
     = Some (OtherError ''connection refused'')
   \<and> map (\<lambda>r. (CallbackDeliveryStatus r, CallbackDeliveryAttempts r, CallbackDeliveryNextAt r))
       (payments (snd (dispatchCallback
     (newPaymentServiceForTest 3 (serviceProvider (Inr test_created) (Inr None) (Inr 0))
        (Inl (OtherError ''connection refused'')))
     (markForCallbackDelivery (test_payment 20) 5) 10
     (test_world [markForCallbackDelivery (test_payment 20) 5]))))
     = [(CallbackDeliveryPending, 1, Some 1000000010)]"
proof -
  let ?p = "markForCallbackDelivery (test_payment 20) 5"
  let ?prov = "serviceProvider (Inr test_created) (Inr None) (Inr 0)"
  let ?s1 = "newPaymentServiceForTest 1 ?prov (Inr 500)"
  let ?s3 = "newPaymentServiceForTest 3 ?prov (Inl (OtherError ''connection refused''))"
  let ?w = "test_world [?p]"
  have url: "TrimSpace (StatusCallbackURL ?p) \<noteq> []" by code_simp
  have b1: "json_Marshal ?s1 ?p = Inr ''req-1''"
    by (simp add: newPaymentServiceForTest_def markForCallbackDelivery_def test_payment_def)
  have b3: "json_Marshal ?s3 ?p = Inr ''req-1''"
    by (simp add: newPaymentServiceForTest_def markForCallbackDelivery_def test_payment_def)
  have w: "io_script ?w = []" "primary_key ?w" "?p \<in> set (payments ?w)"
    by (simp_all add: test_world_def primary_key_def)
  have r1: "callbackHTTP ?s1 req = Inr 500" for req
    by (simp add: newPaymentServiceForTest_def)
  have r3: "callbackHTTP ?s3 req = Inl (OtherError ''connection refused'')" for req
    by (simp add: newPaymentServiceForTest_def)
  have f1: "(Inr 500 :: error + int) = Inl (CallbackStatusError 500)
            \<or> (\<exists>code. (Inr 500 :: error + int) = Inr code \<and> (code < 200 \<or> 300 \<le> code)
                  \<and> CallbackStatusError 500 = CallbackStatusError code)"
    by simp
  have f3: "(Inl (OtherError ''connection refused'') :: error + int) = Inl (OtherError ''connection refused'')
            \<or> (\<exists>code. (Inl (OtherError ''connection refused'') :: error + int) = Inr code \<and> (code < 200 \<or> 300 \<le> code)
                  \<and> OtherError ''connection refused'' = CallbackStatusError code)"
    by simp
  have m: "show_int 500 = ''500''" by code_simp
  show ?thesis
    using dispatch_failure_bookkeeping[OF url b1 r1 f1 w, of 10]
      dispatch_failure_bookkeeping[OF url b3 r3 f3 w, of 10]
    by (simp add: m test_world_def newPaymentServiceForTest_def markForCallbackDelivery_def
          test_payment_def CallbackDeliveryFailed_def CallbackDeliveryPending_def)
qed

subsection \<open>C5: the contract of CancelPayment\<close>

lemma find_by_id_row:
  "find (\<lambda>r. ID r = i) rows = Some p \<Longrightarrow> p \<in> set rows \<and> ID p = i"
  by (auto simp: find_Some_iff)

lemma repo_FindByID_log:
  "provider_log (snd (repo_FindByID i w)) = provider_log w"
  by (simp add: repo_FindByID_def io_next_def split: list.splits option.splits)

lemma CancelPayment_log:
  "provider_log (snd (CancelPayment s now req w)) = provider_log w"
proof -
  obtain r w1 where f: "repo_FindByID (cr_Id req) w = (r, w1)" by (cases "repo_FindByID (cr_Id req) w")
  have l1: "provider_log w1 = provider_log w" using repo_FindByID_log[of "cr_Id req" w] f by simp
  show ?thesis
    unfolding CancelPayment_def f Let_def
    using l1 by (auto split: sum.splits option.splits prod.splits
                   simp: eventRepo_Create_log dest: arg_cong[where f = "\<lambda>x. provider_log (snd x)"] simp: repo_Update_log)
qed

text \<open>
  Claim C5. For every \<open>CancelPayment\<close> request, with storage working: if no payment has
  the id the result is \<open>ErrPaymentNotFound\<close>; if the payment is PAID the result is
  \<open>ErrInvalidStatus\<close> wrapped with a message that contains
  \<^verbatim>\<open>paid payments cannot be canceled\<close>, and nothing changes; otherwise the row's status
  becomes CANCELED, its delivery is armed, \<open>updated_at\<close> is \<open>now\<close>, the row is
  rewritten in the table, and exactly one \<^verbatim>\<open>payment_canceled\<close> event carrying the old
  status is appended. If the update reports that the row is missing, the result is
  \<open>ErrPaymentNotFound\<close>. No provider is ever called.
\<close>

theorem cancel_payment_contract:
  "(io_script w = [] \<and> find (\<lambda>r. ID r = cr_Id req) (payments w) = None
      \<longrightarrow> CancelPayment s now req w = (Inl ErrPaymentNotFound, w))
   \<and> (io_script w = [] \<and> find (\<lambda>r. ID r = cr_Id req) (payments w) = Some p
        \<and> Status p = PAYMENT_STATUS_PAID
      \<longrightarrow> CancelPayment s now req w
            = (Inl (Wrapped ErrInvalidStatus ''paid payments cannot be canceled''), w)
          \<and> errors_Is (Wrapped ErrInvalidStatus ''paid payments cannot be canceled'') ErrInvalidStatus
          \<and> sublist ''paid payments cannot be canceled''
               (error_message (Wrapped ErrInvalidStatus ''paid payments cannot be canceled'')))
   \<and> (io_script w = [] \<and> primary_key w
        \<and> find (\<lambda>r. ID r = cr_Id req) (payments w) = Some p
        \<and> Status p \<noteq> PAYMENT_STATUS_PAID
      \<longrightarrow> CancelPayment s now req w =
            (Inr (p\<lparr>Status := PAYMENT_STATUS_CANCELED,
                    CallbackDeliveryStatus := CallbackDeliveryPending,
                    CallbackDeliveryAttempts := 0,
                    CallbackDeliveryNextAt := Some now,
                    CallbackDeliveryLastErr := None,
                    UpdatedAt := now\<rparr>),
             w\<lparr>payments := map (\<lambda>r. if r = p then p\<lparr>
                    Status := PAYMENT_STATUS_CANCELED,
                    CallbackDeliveryStatus := CallbackDeliveryPending,
                    CallbackDeliveryAttempts := 0,
                    CallbackDeliveryNextAt := Some now,
                    CallbackDeliveryLastErr := None,
                    UpdatedAt := now\<rparr> else r) (payments w),
               payment_events := payment_events w @ [\<lparr>
                    pe_ID = Suc (length (payment_events w)),
                    pe_PaymentID = ID p,
                    pe_EventType = ''payment_canceled'',
                    pe_OldStatus = Some (Status p),
                    pe_NewStatus = PAYMENT_STATUS_CANCELED,
                    pe_ProviderEventID = None,
                    pe_PayloadJSON = None,
                    pe_CreatedAt = now\<rparr>]\<rparr>))
   \<and> (io_script w = [None, Some RepoErrPaymentNotFound]
        \<and> find (\<lambda>r. ID r = cr_Id req) (payments w) = Some p
        \<and> Status p \<noteq> PAYMENT_STATUS_PAID
      \<longrightarrow> CancelPayment s now req w = (Inl ErrPaymentNotFound, w\<lparr>io_script := []\<rparr>))
   \<and> provider_log (snd (CancelPayment s now req w)) = provider_log w"
proof (intro conjI impI)
  assume "io_script w = [] \<and> find (\<lambda>r. ID r = cr_Id req) (payments w) = None"
  then show "CancelPayment s now req w = (Inl ErrPaymentNotFound, w)"
    by (simp add: CancelPayment_def repo_FindByID_nil)
next
  assume "io_script w = [] \<and> find (\<lambda>r. ID r = cr_Id req) (payments w) = Some p
        \<and> Status p = PAYMENT_STATUS_PAID"
  then show "CancelPayment s now req w
            = (Inl (Wrapped ErrInvalidStatus ''paid payments cannot be canceled''), w)"
    by (simp add: CancelPayment_def repo_FindByID_nil)
next
  show "errors_Is (Wrapped ErrInvalidStatus ''paid payments cannot be canceled'') ErrInvalidStatus"
    by simp
next
  have "error_message (Wrapped ErrInvalidStatus ''paid payments cannot be canceled'')
        = ''invalid status: '' @ ''paid payments cannot be canceled''"
    by simp
  then show "sublist ''paid payments cannot be canceled''
               (error_message (Wrapped ErrInvalidStatus ''paid payments cannot be canceled''))"
    by (simp only: sublist_append_leftI)
next
  assume a: "io_script w = [] \<and> primary_key w
        \<and> find (\<lambda>r. ID r = cr_Id req) (payments w) = Some p
        \<and> Status p \<noteq> PAYMENT_STATUS_PAID"
  then have io: "io_script w = []" and pk: "primary_key w" and mem: "p \<in> set (payments w)"
    using find_by_id_row[of "cr_Id req" "payments w" p] by simp_all
  show "CancelPayment s now req w =
            (Inr (p\<lparr>Status := PAYMENT_STATUS_CANCELED,
                    CallbackDeliveryStatus := CallbackDeliveryPending,
                    CallbackDeliveryAttempts := 0,
                    CallbackDeliveryNextAt := Some now,
                    CallbackDeliveryLastErr := None,
                    UpdatedAt := now\<rparr>),
             w\<lparr>payments := map (\<lambda>r. if r = p then p\<lparr>
                    Status := PAYMENT_STATUS_CANCELED,
                    CallbackDeliveryStatus := CallbackDeliveryPending,
                    CallbackDeliveryAttempts := 0,
                    CallbackDeliveryNextAt := Some now,
                    CallbackDeliveryLastErr := None,
                    UpdatedAt := now\<rparr> else r) (payments w),
               payment_events := payment_events w @ [\<lparr>
                    pe_ID = Suc (length (payment_events w)),
                    pe_PaymentID = ID p,
                    pe_EventType = ''payment_canceled'',
                    pe_OldStatus = Some (Status p),
                    pe_NewStatus = PAYMENT_STATUS_CANCELED,
                    pe_ProviderEventID = None,
                    pe_PayloadJSON = None,
                    pe_CreatedAt = now\<rparr>]\<rparr>)"
    using a
    by (simp add: CancelPayment_def repo_FindByID_nil Let_def markForCallbackDelivery_def
          repo_Update_own_row[where r = p, OF io pk mem] eventRepo_Create_nil)
next
  assume a: "io_script w = [None, Some RepoErrPaymentNotFound]
        \<and> find (\<lambda>r. ID r = cr_Id req) (payments w) = Some p
        \<and> Status p \<noteq> PAYMENT_STATUS_PAID"
  then show "CancelPayment s now req w = (Inl ErrPaymentNotFound, w\<lparr>io_script := []\<rparr>)"
    by (simp add: CancelPayment_def repo_FindByID_def repo_Update_def io_next_def Let_def)
next
  show "provider_log (snd (CancelPayment s now req w)) = provider_log w"
    by (rule CancelPayment_log)
qed


theorem cancel_payment_contract_witness:
  "CancelPayment (test_service 10) 5 \<lparr>cr_Id = 99, cr_Reason = ''duplicate''\<rparr>
      (test_world [test_payment 2])
    = (Inl ErrPaymentNotFound, test_world [test_payment 2])
   \<and> CancelPayment (test_service 10) 5 \<lparr>cr_Id = 1, cr_Reason = ''duplicate''\<rparr>
      (test_world [test_payment 10])
    = (Inl (Wrapped ErrInvalidStatus ''paid payments cannot be canceled''),
       test_world [test_payment 10])
   \<and> CancelPayment (test_service 10) 5 \<lparr>cr_Id = 1, cr_Reason = ''duplicate''\<rparr>
      (test_world [test_payment 2])
    = (Inr ((test_payment 30)\<lparr>
              CallbackDeliveryStatus := CallbackDeliveryPending,
              CallbackDeliveryNextAt := Some 5,
              UpdatedAt := 5\<rparr>),
       (test_world [(test_payment 30)\<lparr>
              CallbackDeliveryStatus := CallbackDeliveryPending,
              CallbackDeliveryNextAt := Some 5,
              UpdatedAt := 5\<rparr>])\<lparr>payment_events := [\<lparr>
                    pe_ID = 1,
                    pe_PaymentID = 1,
                    pe_EventType = ''payment_canceled'',
                    pe_OldStatus = Some 2,
                    pe_NewStatus = 30,
                    pe_ProviderEventID = None,
                    pe_PayloadJSON = None,
                    pe_CreatedAt = 5\<rparr>]\<rparr>)
   \<and> CancelPayment (test_service 10) 5 \<lparr>cr_Id = 1, cr_Reason = ''duplicate''\<rparr>
      ((test_world [test_payment 2])\<lparr>io_script := [None, Some RepoErrPaymentNotFound]\<rparr>)
    = (Inl ErrPaymentNotFound, test_world [test_payment 2])"
proof -
  let ?s = "test_service 10"
  have h1: "io_script (test_world [test_payment 2]) = []
            \<and> find (\<lambda>r. ID r = cr_Id \<lparr>cr_Id = 99, cr_Reason = ''duplicate''\<rparr>)
                 (payments (test_world [test_payment 2])) = None"
    by (simp add: test_world_def test_payment_def)
  have h2: "io_script (test_world [test_payment 10]) = []
            \<and> find (\<lambda>r. ID r = cr_Id \<lparr>cr_Id = 1, cr_Reason = ''duplicate''\<rparr>)
                 (payments (test_world [test_payment 10])) = Some (test_payment 10)
            \<and> Status (test_payment 10) = PAYMENT_STATUS_PAID"
    by (simp add: test_world_def test_payment_def PAYMENT_STATUS_PAID_def)
  have h3: "io_script (test_world [test_payment 2]) = [] \<and> primary_key (test_world [test_payment 2])
            \<and> find (\<lambda>r. ID r = cr_Id \<lparr>cr_Id = 1, cr_Reason = ''duplicate''\<rparr>)
                 (payments (test_world [test_payment 2])) = Some (test_payment 2)
            \<and> Status (test_payment 2) \<noteq> PAYMENT_STATUS_PAID"
    by (simp add: test_world_def test_payment_def PAYMENT_STATUS_PAID_def primary_key_def)
  have h4: "io_script ((test_world [test_payment 2])\<lparr>io_script := [None, Some RepoErrPaymentNotFound]\<rparr>)
              = [None, Some RepoErrPaymentNotFound]
            \<and> find (\<lambda>r. ID r = cr_Id \<lparr>cr_Id = 1, cr_Reason = ''duplicate''\<rparr>)
                 (payments ((test_world [test_payment 2])\<lparr>io_script := [None, Some RepoErrPaymentNotFound]\<rparr>))
               = Some (test_payment 2)
            \<and> Status (test_payment 2) \<noteq> PAYMENT_STATUS_PAID"
    by (simp add: test_world_def test_payment_def PAYMENT_STATUS_PAID_def)
  note c1 = cancel_payment_contract[where w = "test_world [test_payment 2]"
      and req = "\<lparr>cr_Id = 99, cr_Reason = ''duplicate''\<rparr>" and s = ?s and now = 5
      and p = "test_payment 2", THEN conjunct1, rule_format, OF h1]
  note c2 = cancel_payment_contract[where w = "test_world [test_payment 10]"
      and req = "\<lparr>cr_Id = 1, cr_Reason = ''duplicate''\<rparr>" and p = "test_payment 10"
      and s = ?s and now = 5,
      THEN conjunct2, THEN conjunct1, rule_format, OF h2, THEN conjunct1]
  note c3 = cancel_payment_contract[where w = "test_world [test_payment 2]"
      and req = "\<lparr>cr_Id = 1, cr_Reason = ''duplicate''\<rparr>" and p = "test_payment 2"
      and s = ?s and now = 5,
      THEN conjunct2, THEN conjunct2, THEN conjunct1, rule_format, OF h3]
  note c4 = cancel_payment_contract[where
      w = "(test_world [test_payment 2])\<lparr>io_script := [None, Some RepoErrPaymentNotFound]\<rparr>"
      and req = "\<lparr>cr_Id = 1, cr_Reason = ''duplicate''\<rparr>" and p = "test_payment 2"
      and s = ?s and now = 5,
      THEN conjunct2, THEN conjunct2, THEN conjunct2, THEN conjunct1, rule_format, OF h4]
  show ?thesis
    using c1 c2 c3 c4
    by (simp add: test_world_def test_payment_def PAYMENT_STATUS_CANCELED_def
          CallbackDeliveryPending_def)
qed

subsection \<open>C4: every transition into a terminal status arms the delivery\<close>

lemma arms_transitions_refl: "arms_transitions now rows rows"
  by (auto simp: arms_transitions_def entered_terminal_def list_all_iff list_ex_iff)

lemma armed_update_columns [simp]: "armed now (update_columns r p) = armed now p"
  by (simp add: armed_def update_columns_def)

lemma Status_update_columns [simp]: "Status (update_columns r p) = Status p"
  by (simp add: update_columns_def)

lemma ID_update_columns [simp]: "ID (update_columns r p) = ID r"
  by (simp add: update_columns_def)

lemma arms_transitions_update:
  assumes "arms_transitions now rows0 rows"
    and "list_ex (\<lambda>r. ID r = ID p \<and> Status r = Status p) rows0
         \<or> (terminalStatus (Status p) \<longrightarrow> armed now p)"
  shows "arms_transitions now rows0
           (map (\<lambda>r. if ID r = ID p then update_columns r p else r) rows)"
  using assms
  by (auto simp: arms_transitions_def entered_terminal_def list_all_iff list_ex_iff)

lemma arms_transitions_append:
  assumes "arms_transitions now rows0 rows"
    and "terminalStatus (Status p) \<longrightarrow> armed now p"
  shows "arms_transitions now rows0 (rows @ [p])"
  using assms
  by (auto simp: arms_transitions_def entered_terminal_def list_all_iff list_ex_iff)

lemma io_next_payments [simp]: "payments (snd (io_next w)) = payments w"
  by (simp add: io_next_def split: list.splits)

lemma eventRepo_Create_payments [simp]:
  "payments (snd (eventRepo_Create ev w)) = payments w"
  by (simp add: eventRepo_Create_def io_next_def split: list.splits option.splits)

lemma callbackRepo_Create_payments [simp]:
  "payments (snd (callbackRepo_Create cb w)) = payments w"
  by (simp add: callbackRepo_Create_def io_next_def split: list.splits option.splits)

lemma persistRejectedCallback_payments [simp]:
  "payments (persistRejectedCallback now i req reason w) = payments w"
  by (simp add: persistRejectedCallback_def Let_def)

lemma log_call_payments [simp]: "payments (log_call c w) = payments w"
  by (simp add: log_call_def)

lemma repo_Update_payments:
  "payments (snd (repo_Update p w)) = payments w
   \<or> payments (snd (repo_Update p w))
       = map (\<lambda>r. if ID r = ID p then update_columns r p else r) (payments w)"
  by (simp add: repo_Update_def io_next_def split: list.splits option.splits)

lemma repo_Update_arms:
  assumes "arms_transitions now rows0 (payments w)"
    and "list_ex (\<lambda>r. ID r = ID p \<and> Status r = Status p) rows0
         \<or> (terminalStatus (Status p) \<longrightarrow> armed now p)"
  shows "arms_transitions now rows0 (payments (snd (repo_Update p w)))"
  using repo_Update_payments[of p w] arms_transitions_update[OF assms] assms(1) by auto

lemma find_rows:
  "find P rows = Some p \<Longrightarrow> p \<in> set rows \<and> P p"
  by (auto simp: find_Some_iff)

lemma repo_FindByID_payments [simp]: "payments (snd (repo_FindByID i w)) = payments w"
  by (simp add: repo_FindByID_def io_next_def split: list.splits option.splits)

lemma repo_FindByCallbackHash_payments [simp]:
  "payments (snd (repo_FindByCallbackHash c h w)) = payments w"
  by (simp add: repo_FindByCallbackHash_def io_next_def split: list.splits option.splits)

lemma repo_FindByCallbackHash_found:
  "repo_FindByCallbackHash c h w = (Inr (Some p), w') \<Longrightarrow>
     p \<in> set (payments w) \<and> Provider p = c \<and> ProviderCallbackHash p = h"
  by (auto simp: repo_FindByCallbackHash_def io_next_def split: list.splits option.splits
      dest: find_rows)

lemma repo_FindByCallerRequestID_payments [simp]:
  "payments (snd (repo_FindByCallerRequestID c q w)) = payments w"
  by (simp add: repo_FindByCallerRequestID_def io_next_def split: list.splits option.splits)

lemma CancelPayment_arms:
  "arms_transitions now (payments w) (payments (snd (CancelPayment s now req w)))"
proof -
  obtain r w1 where f: "repo_FindByID (cr_Id req) w = (r, w1)"
    by (cases "repo_FindByID (cr_Id req) w")
  have p1: "payments w1 = payments w"
    using repo_FindByID_payments[of "cr_Id req" w] f by simp
  have a1: "arms_transitions now (payments w) (payments w1)"
    by (simp add: p1 arms_transitions_refl)
  show ?thesis
  proof (cases r)
    case (Inl e)
    then show ?thesis using f a1 by (simp add: CancelPayment_def)
  next
    case (Inr po)
    show ?thesis
    proof (cases po)
      case None
      then show ?thesis using f a1 Inr by (simp add: CancelPayment_def)
    next
      case (Some p0)
      let ?p = "(markForCallbackDelivery (p0\<lparr>Status := PAYMENT_STATUS_CANCELED\<rparr>) now)\<lparr>UpdatedAt := now\<rparr>"
      have arm: "armed now ?p" by (simp add: armed_def markForCallbackDelivery_def)
      have u: "arms_transitions now (payments w) (payments (snd (repo_Update ?p w1)))"
        by (rule repo_Update_arms[OF a1]) (simp add: arm)
      show ?thesis
        using f Inr Some a1 u
        by (auto simp: CancelPayment_def Let_def split: prod.splits option.splits)
    qed
  qed
qed

lemma repo_Update_arms':
  assumes "repo_Update p w = (e, w')"
    and "arms_transitions now old (payments w)"
    and "list_ex (\<lambda>r. ID r = ID p \<and> Status r = Status p) old
         \<or> (terminalStatus (Status p) \<longrightarrow> armed now p)"
  shows "arms_transitions now old (payments w')"
  using repo_Update_arms[OF assms(2,3)] assms(1) by simp

lemma repo_Create_shape:
  "(\<exists>e. repo_Create p w = (Inl e, snd (repo_Create p w))
        \<and> payments (snd (repo_Create p w)) = payments w)
   \<or> (\<exists>i. repo_Create p w = (Inr (p\<lparr>ID := i\<rparr>), snd (repo_Create p w))
        \<and> payments (snd (repo_Create p w)) = payments w @ [p\<lparr>ID := i\<rparr>])"
  by (auto simp: repo_Create_def io_next_def Let_def split: list.splits option.splits)

lemma repo_Create_arms:
  assumes "repo_Create p w = (r, w')"
    and "arms_transitions now old (payments w)"
    and "terminalStatus (Status p) \<longrightarrow> armed now p"
  shows "arms_transitions now old (payments w')"
proof -
  have "terminalStatus (Status (p\<lparr>ID := i\<rparr>)) \<longrightarrow> armed now (p\<lparr>ID := i\<rparr>)" for i
    using assms(3) by (simp add: armed_def)
  then show ?thesis
    using repo_Create_shape[of p w] assms(1,2) arms_transitions_append[OF assms(2)]
    by auto
qed

lemma snd_if_same [simp]: "snd (if c then (a, w) else (b, w)) = w"
  by simp

lemma callbackRepo_Create_case_payments [simp]:
  "payments (snd (case callbackRepo_Create cb w of
                    (Some e, w5) \<Rightarrow> (f e, w5) | (None, w5) \<Rightarrow> (g, w5))) = payments w"
  using callbackRepo_Create_payments[of cb w]
  by (cases "callbackRepo_Create cb w") (auto split: option.splits)

lemma repo_Create_case_arms:
  assumes "arms_transitions now old (payments w)"
    and "terminalStatus (Status p) \<longrightarrow> armed now p"
  shows "arms_transitions now old
           (payments (snd (case repo_Create p w of
               (Inl err, w3) \<Rightarrow> if c err then (a, w3) else (b err, w3)
             | (Inr payment, w3) \<Rightarrow> (Inr payment, snd (eventRepo_Create (ev payment) w3)))))"
proof -
  obtain r w3 where c: "repo_Create p w = (r, w3)" by (cases "repo_Create p w")
  from repo_Create_arms[OF c assms] show ?thesis
    by (cases r) (simp_all add: c)
qed

lemma applyCallbackEvent_ID [simp]: "ID (applyCallbackEvent ev now p) = ID p"
  by (simp add: applyCallbackEvent_def Let_def markForCallbackDelivery_def)

lemma applyCallbackEvent_Status:
  "Status (applyCallbackEvent ev now p)
     = (if 0 < sint (ce_NewStatus ev) then ce_NewStatus ev else Status p)"
  by (simp add: applyCallbackEvent_def Let_def markForCallbackDelivery_def)

lemma applyCallbackEvent_armed:
  "Status (applyCallbackEvent ev now p) \<noteq> Status p \<Longrightarrow>
   terminalStatus (Status (applyCallbackEvent ev now p)) \<Longrightarrow>
   armed now (applyCallbackEvent ev now p)"
  by (simp add: applyCallbackEvent_def Let_def markForCallbackDelivery_def armed_def
      split: if_splits)

lemma CreatePayment_arms:
  "arms_transitions now (payments w) (payments (snd (CreatePayment s now uuid req w)))"
proof -
  let ?rid = "TrimSpace (rq_RequestId req)" and ?cs = "TrimSpace (rq_CallerService req)"
  obtain r w1 where f: "repo_FindByCallerRequestID ?cs ?rid w = (r, w1)"
    by (cases "repo_FindByCallerRequestID ?cs ?rid w")
  have p1: "payments w1 = payments w"
    using repo_FindByCallerRequestID_payments[of ?cs ?rid w] f by simp
  have a1: "arms_transitions now (payments w) (payments w1)"
    by (simp add: p1 arms_transitions_refl)
  show ?thesis
  proof (cases "?rid = [] \<or> ?cs = []")
    case True
    then show ?thesis by (auto simp: CreatePayment_def Let_def arms_transitions_refl)
  next
    case False
    show ?thesis
    proof (cases r)
      case (Inl e)
      then show ?thesis using False f a1 by (simp add: CreatePayment_def Let_def)
    next
      case (Inr po)
      show ?thesis
      proof (cases po)
        case (Some existing)
        then show ?thesis using False f a1 Inr by (simp add: CreatePayment_def Let_def)
      next
        case None
        have a2: "arms_transitions now (payments w) (payments (log_call c w1))" for c
          by (simp add: p1 arms_transitions_refl)
        have m: "terminalStatus (Status (if terminalStatus (Status p)
                    then markForCallbackDelivery p now else p))
                 \<longrightarrow> armed now (if terminalStatus (Status p)
                    then markForCallbackDelivery p now else p)" for p
          by (simp add: armed_def markForCallbackDelivery_def)
        show ?thesis
          using False f Inr None a1
          by (simp add: CreatePayment_def Let_def arms_transitions_refl p1
                repo_Create_case_arms[OF a2 m] split del: if_split split: sum.splits)
      qed
    qed
  qed
qed

lemma HandleProviderCallback_arms:
  "arms_transitions now (payments w) (payments (snd (HandleProviderCallback s now req w)))"
proof (cases "parseProviderCode (hc_Provider req)")
  case (Inl e)
  then show ?thesis by (simp add: HandleProviderCallback_def arms_transitions_refl)
next
  case code: (Inr code)
  show ?thesis
  proof (cases "Registry_Get (providerReg s) code")
    case (Inl e)
    then show ?thesis using code by (simp add: HandleProviderCallback_def arms_transitions_refl)
  next
    case prov: (Inr prov)
    let ?w1 = "log_call (CallVerifyAndParseCallback (hc_Payload req) (TrimSpace (hc_Signature req))) w"
    show ?thesis
    proof (cases "prov_VerifyAndParseCallback prov (hc_Payload req) (TrimSpace (hc_Signature req))")
      case (Inl e)
      then show ?thesis using code prov
        by (simp add: HandleProviderCallback_def Let_def arms_transitions_refl)
    next
      case ev: (Inr evo)
      show ?thesis
      proof (cases evo)
        case None
        then show ?thesis using code prov ev
          by (simp add: HandleProviderCallback_def Let_def arms_transitions_refl)
      next
        case (Some parsedEvent)
        obtain r w2 where f: "repo_FindByCallbackHash code (TrimSpace (hc_CallbackHash req)) ?w1 = (r, w2)"
          by (cases "repo_FindByCallbackHash code (TrimSpace (hc_CallbackHash req)) ?w1")
        have p2: "payments w2 = payments w"
          using repo_FindByCallbackHash_payments[of code "TrimSpace (hc_CallbackHash req)" ?w1] f
          by simp
        have a2: "arms_transitions now (payments w) (payments w2)"
          by (simp add: p2 arms_transitions_refl)
        show ?thesis
        proof (cases r)
          case (Inl e)
          then show ?thesis using code prov ev Some f a2
            by (simp add: HandleProviderCallback_def Let_def)
        next
          case (Inr po)
          show ?thesis
          proof (cases po)
            case None
            then show ?thesis using code prov ev Some f a2 Inr
              by (simp add: HandleProviderCallback_def Let_def)
          next
            case found: (Some payment0)
            let ?p = "applyCallbackEvent parsedEvent now payment0"
            have mem: "payment0 \<in> set (payments w)"
              using repo_FindByCallbackHash_found[of code _ ?w1 payment0 w2] f Inr found by simp
            have q: "list_ex (\<lambda>r. ID r = ID ?p \<and> Status r = Status ?p) (payments w)
                     \<or> (terminalStatus (Status ?p) \<longrightarrow> armed now ?p)"
            proof (cases "Status ?p = Status payment0")
              case True
              then have "list_ex (\<lambda>r. ID r = ID ?p \<and> Status r = Status ?p) (payments w)"
                using mem unfolding list_ex_iff by (intro bexI[of _ payment0]) simp_all
              then show ?thesis by simp
            next
              case False
              then show ?thesis using applyCallbackEvent_armed[of parsedEvent now payment0] by simp
            qed
            obtain e w3 where u: "repo_Update ?p w2 = (e, w3)" by (cases "repo_Update ?p w2")
            have a3: "arms_transitions now (payments w) (payments w3)"
              by (rule repo_Update_arms'[OF u a2 q])
            show ?thesis
            proof (cases e)
              case None
              then show ?thesis
                using code prov ev Some f Inr found u a3
                by (simp add: HandleProviderCallback_def Let_def split del: if_split)
            next
              case (Some err)
              then show ?thesis
                using code prov ev \<open>evo = Some parsedEvent\<close> f Inr found u a3
                by (simp add: HandleProviderCallback_def Let_def split del: if_split)
            qed
          qed
        qed
      qed
    qed
  qed
qed

lemma repo_Update_case_payments [simp]:
  "payments (snd (case repo_Update p w of
                    (Some err, w1) \<Rightarrow> (f err, w1)
                  | (None, w1) \<Rightarrow> (g, snd (eventRepo_Create ev w1))))
     = payments (snd (repo_Update p w))"
  by (cases "repo_Update p w") (auto split: option.splits)

lemma repo_ListExpiredPending_payments [simp]:
  "payments (snd (repo_ListExpiredPending c l w)) = payments w"
  by (simp add: repo_ListExpiredPending_def io_next_def split: list.splits option.splits)

lemma repo_ListForReconcile_payments [simp]:
  "payments (snd (repo_ListForReconcile c l w)) = payments w"
  by (simp add: repo_ListForReconcile_def io_next_def split: list.splits option.splits)

lemma RunExpirePendingBatch_body_arms:
  assumes "arms_transitions now old (payments (snd st))"
  shows "arms_transitions now old (payments (snd (RunExpirePendingBatch_body s now p st)))"
proof (cases st)
  case (Pair firstErr w)
  let ?p = "(markForCallbackDelivery (p\<lparr>Status := PAYMENT_STATUS_EXPIRED\<rparr>) now)\<lparr>UpdatedAt := now\<rparr>"
  have "armed now ?p" by (simp add: armed_def markForCallbackDelivery_def)
  then have "arms_transitions now old (payments (snd (repo_Update ?p w)))"
    using assms Pair by (intro repo_Update_arms) simp_all
  then show ?thesis
    using assms Pair by (simp add: RunExpirePendingBatch_body_def Let_def)
qed

lemma RunReconcileBatch_body_arms:
  assumes "arms_transitions now old (payments (snd st))"
  shows "arms_transitions now old (payments (snd (RunReconcileBatch_body s now p st)))"
proof (cases st)
  case (Pair firstErr w)
  have upd: "arms_transitions now old (payments (snd (repo_Update
        ((if terminalStatus newStatus
          then markForCallbackDelivery (p\<lparr>Status := newStatus\<rparr>) now
          else p\<lparr>Status := newStatus\<rparr>)\<lparr>UpdatedAt := now\<rparr>) (log_call c w))))" for newStatus c
    using assms Pair
    by (intro repo_Update_arms) (simp_all add: armed_def markForCallbackDelivery_def)
  show ?thesis
  proof (cases "ProviderPaymentID p")
    case None
    then show ?thesis using assms Pair by (simp add: RunReconcileBatch_body_def)
  next
    case (Some rawID)
    show ?thesis
    proof (cases "TrimSpace rawID = []")
      case True
      then show ?thesis using assms Pair Some by (simp add: RunReconcileBatch_body_def)
    next
      case False
      show ?thesis
      proof (cases "Registry_Get (providerReg s) (Provider p)")
        case (Inl e)
        then show ?thesis using assms Pair Some False by (simp add: RunReconcileBatch_body_def)
      next
        case prov: (Inr providerClient)
        show ?thesis
        proof (cases "prov_GetPaymentStatus providerClient (TrimSpace rawID)")
          case (Inl e)
          then show ?thesis using assms Pair Some False prov
            by (simp add: RunReconcileBatch_body_def Let_def)
        next
          case st: (Inr newStatus)
          show ?thesis
          proof (cases "newStatus = 0 \<or> newStatus = Status p")
            case True
            then show ?thesis using assms Pair Some False prov st
              by (simp add: RunReconcileBatch_body_def Let_def split del: if_split)
          next
            case same: False
            then show ?thesis using assms Pair Some False prov st upd[of newStatus]
              by (simp add: RunReconcileBatch_body_def Let_def split del: if_split)
          qed
        qed
      qed
    qed
  qed
qed

lemma fold_arms:
  assumes step: "\<And>p st. arms_transitions now old (payments (snd st))
                   \<Longrightarrow> arms_transitions now old (payments (snd (body p st)))"
    and "arms_transitions now old (payments (snd st))"
  shows "arms_transitions now old (payments (snd (fold body items st)))"
  using assms(2) by (induction items arbitrary: st) (simp_all add: step)

lemma RunExpirePendingBatch_arms:
  "arms_transitions now (payments w) (payments (snd (RunExpirePendingBatch s now w)))"
proof -
  let ?q = "repo_ListExpiredPending (now - cfg_PendingTimeout (paymentsCfg s)) (batchSize s) w"
  obtain r w1 where q: "?q = (r, w1)" by (cases ?q)
  have a1: "arms_transitions now (payments w) (payments (snd (None :: error option, w1)))"
    using repo_ListExpiredPending_payments[of _ _ w] q
    by (metis arms_transitions_refl snd_conv)
  show ?thesis
    using q a1 fold_arms[of now "payments w" "RunExpirePendingBatch_body s now" "(None, w1)",
        OF RunExpirePendingBatch_body_arms a1]
    by (cases r) (simp_all add: RunExpirePendingBatch_def Let_def)
qed

lemma RunReconcileBatch_arms:
  "arms_transitions now (payments w) (payments (snd (RunReconcileBatch s now w)))"
proof -
  let ?q = "repo_ListForReconcile (now - cfg_ReconcileStaleAfter (paymentsCfg s)) (batchSize s) w"
  obtain r w1 where q: "?q = (r, w1)" by (cases ?q)
  have a1: "arms_transitions now (payments w) (payments (snd (None :: error option, w1)))"
    using repo_ListForReconcile_payments[of _ _ w] q
    by (metis arms_transitions_refl snd_conv)
  show ?thesis
    using q a1 fold_arms[of now "payments w" "RunReconcileBatch_body s now" "(None, w1)",
        OF RunReconcileBatch_body_arms a1]
    by (cases r) (simp_all add: RunReconcileBatch_def Let_def)
qed

text \<open>
  Claim C4. Every transition of a payment into a terminal status, by \<open>CreatePayment\<close>
  (a terminal initial status), \<open>CancelPayment\<close>, \<open>HandleProviderCallback\<close>,
  \<open>RunReconcileBatch\<close> or \<open>RunExpirePendingBatch\<close>, arms the delivery: in the table
  after the operation, every row whose status is terminal and was not the status of a
  row with that identifier before the operation has \<open>callback_delivery_status\<close> PENDING,
  no attempts, \<open>callback_delivery_next_at = now\<close> and no last error. This holds whatever
  the storage calls and the provider return.
\<close>

theorem terminal_transitions_arm_delivery:
  "arms_transitions now (payments w) (payments (snd (CreatePayment s now uuid rq w)))
   \<and> arms_transitions now (payments w) (payments (snd (CancelPayment s now cr w)))
   \<and> arms_transitions now (payments w) (payments (snd (HandleProviderCallback s now hc w)))
   \<and> arms_transitions now (payments w) (payments (snd (RunReconcileBatch s now w)))
   \<and> arms_transitions now (payments w) (payments (snd (RunExpirePendingBatch s now w)))"
  by (intro conjI CreatePayment_arms CancelPayment_arms HandleProviderCallback_arms
        RunReconcileBatch_arms RunExpirePendingBatch_arms)

theorem terminal_transitions_arm_delivery_witness:
  "entered_terminal []
      (last (payments (snd (CreatePayment
         (newPaymentServiceForTest 3
            (serviceProvider (Inr (test_created\<lparr>co_InitialStatus := PAYMENT_STATUS_PAID\<rparr>))
               (Inr None) (Inr 0)) (Inr 200))
         7200000000000 ''uuid-1'' test_create (test_world [])))))
   \<and> armed 7200000000000
      (last (payments (snd (CreatePayment
         (newPaymentServiceForTest 3
            (serviceProvider (Inr (test_created\<lparr>co_InitialStatus := PAYMENT_STATUS_PAID\<rparr>))
               (Inr None) (Inr 0)) (Inr 200))
         7200000000000 ''uuid-1'' test_create (test_world [])))))
   \<and> entered_terminal [test_payment 2]
      (last (payments (snd (CancelPayment (test_service 10) 7200000000000
         \<lparr>cr_Id = 1, cr_Reason = ''duplicate''\<rparr> (test_world [test_payment 2])))))
   \<and> armed 7200000000000
      (last (payments (snd (CancelPayment (test_service 10) 7200000000000
         \<lparr>cr_Id = 1, cr_Reason = ''duplicate''\<rparr> (test_world [test_payment 2])))))
   \<and> entered_terminal [test_payment 2]
      (last (payments (snd (HandleProviderCallback (test_service 10) 7200000000000
         (test_callback ''stripe'') (test_world [test_payment 2])))))
   \<and> armed 7200000000000
      (last (payments (snd (HandleProviderCallback (test_service 10) 7200000000000
         (test_callback ''stripe'') (test_world [test_payment 2])))))
   \<and> entered_terminal [test_payment 2]
      (last (payments (snd (RunReconcileBatch (test_service 10) 7200000000000
         (test_world [test_payment 2])))))
   \<and> armed 7200000000000
      (last (payments (snd (RunReconcileBatch (test_service 10) 7200000000000
         (test_world [test_payment 2])))))
   \<and> entered_terminal [test_payment 2]
      (last (payments (snd (RunExpirePendingBatch (test_service 10) 7200000000000
         (test_world [test_payment 2])))))
   \<and> armed 7200000000000
      (last (payments (snd (RunExpirePendingBatch (test_service 10) 7200000000000
         (test_world [test_payment 2])))))"
proof -
  let ?now = "7200000000000 :: int"
  let ?s1 = "newPaymentServiceForTest 3
            (serviceProvider (Inr (test_created\<lparr>co_InitialStatus := PAYMENT_STATUS_PAID\<rparr>))
               (Inr None) (Inr 0)) (Inr 200)"
  let ?s = "test_service 10"
  let ?w = "test_world [test_payment 2]"
  let ?cr = "\<lparr>cr_Id = 1, cr_Reason = ''duplicate''\<rparr>"
  let ?hc = "test_callback ''stripe''"
  have step: "entered_terminal rows (last rows') \<Longrightarrow> rows' \<noteq> []
              \<Longrightarrow> arms_transitions now rows rows' \<Longrightarrow> armed now (last rows')"
    for rows rows' now
    by (simp add: arms_transitions_def list_all_iff)
  have pw: "payments ?w = [test_payment 2]" "payments (test_world []) = []"
    by (simp_all add: test_world_def)
  have e1: "entered_terminal [] (last (payments (snd (CreatePayment ?s1 ?now ''uuid-1'' test_create (test_world [])))))"
    by code_simp
  have n1: "payments (snd (CreatePayment ?s1 ?now ''uuid-1'' test_create (test_world []))) \<noteq> []"
    by code_simp
  have e2: "entered_terminal [test_payment 2] (last (payments (snd (CancelPayment ?s ?now ?cr ?w))))"
    by code_simp
  have n2: "payments (snd (CancelPayment ?s ?now ?cr ?w)) \<noteq> []"
    by code_simp
  have e3: "entered_terminal [test_payment 2] (last (payments (snd (HandleProviderCallback ?s ?now ?hc ?w))))"
    by code_simp
  have n3: "payments (snd (HandleProviderCallback ?s ?now ?hc ?w)) \<noteq> []"
    by code_simp
  have e4: "entered_terminal [test_payment 2] (last (payments (snd (RunReconcileBatch ?s ?now ?w))))"
    by code_simp
  have n4: "payments (snd (RunReconcileBatch ?s ?now ?w)) \<noteq> []"
    by code_simp
  have e5: "entered_terminal [test_payment 2] (last (payments (snd (RunExpirePendingBatch ?s ?now ?w))))"
    by code_simp
  have n5: "payments (snd (RunExpirePendingBatch ?s ?now ?w)) \<noteq> []"
    by code_simp
  note t1 = terminal_transitions_arm_delivery[where now = ?now and w = "test_world []"
      and s = ?s1 and uuid = "''uuid-1''" and rq = test_create and cr = ?cr and hc = ?hc]
  note t2 = terminal_transitions_arm_delivery[where now = ?now and w = ?w
      and s = ?s and uuid = "''uuid-1''" and rq = test_create and cr = ?cr and hc = ?hc]
  show ?thesis
    using e1 e2 e3 e4 e5
      step[OF e1 n1] step[OF e2 n2] step[OF e3 n3] step[OF e4 n4] step[OF e5 n5] t1 t2
    unfolding pw by blast
qed

subsection \<open>C8: one payment of a reconcile batch\<close>

lemma repo_ListForReconcile_nil:
  "io_script w = [] \<Longrightarrow> repo_ListForReconcile t lim w =
     (Inr (sql_limit lim (sort_key UpdatedAt
        (filter (\<lambda>r. (Status r = 2 \<or> Status r = 3) \<and> ProviderPaymentID r \<noteq> None
                        \<and> UpdatedAt r \<le> t) (payments w)))), w)"
  by (simp add: repo_ListForReconcile_def io_next_nil)

text \<open>
  Claim C8. \<open>RunReconcileBatch\<close> queries the stale PENDING and PROCESSING payments that
  have a provider payment id and runs its loop body on each, in order. For a payment
  whose provider is registered and answers \<open>GetPaymentStatus\<close> with a status: if the
  answer is 0 or the payment's current status, nothing is stored (no update, no
  event; only the provider call is logged); otherwise, with storage working and the
  payment being a row of the table, the row gets the returned status, is armed for
  delivery when that status is terminal, gets \<open>updated_at = now\<close>, and one
  \<^verbatim>\<open>payment_reconciled\<close> event carrying the old status is appended.
\<close>

theorem reconcile_one_payment:
  assumes pid: "ProviderPaymentID p = Some rawID" "TrimSpace rawID \<noteq> []"
    and reg: "providerReg s (Provider p) = Some providerClient"
    and st: "prov_GetPaymentStatus providerClient (TrimSpace rawID) = Inr newStatus"
  shows
   "(io_script w = [] \<longrightarrow>
       RunReconcileBatch s now w =
         fold (RunReconcileBatch_body s now)
           (sql_limit (batchSize s) (sort_key UpdatedAt
              (filter (\<lambda>r. (Status r = PAYMENT_STATUS_PENDING \<or> Status r = PAYMENT_STATUS_PROCESSING)
                          \<and> ProviderPaymentID r \<noteq> None
                          \<and> UpdatedAt r \<le> now - cfg_ReconcileStaleAfter (paymentsCfg s))
                 (payments w))))
           (None, w))
    \<and> (newStatus = 0 \<or> newStatus = Status p \<longrightarrow>
         RunReconcileBatch_body s now p (firstErr, w)
           = (firstErr, w\<lparr>provider_log :=
                provider_log w @ [CallGetPaymentStatus (TrimSpace rawID)]\<rparr>))
    \<and> (newStatus \<noteq> 0 \<and> newStatus \<noteq> Status p
         \<and> io_script w = [] \<and> primary_key w \<and> p \<in> set (payments w) \<longrightarrow>
         RunReconcileBatch_body s now p (firstErr, w)
           = (firstErr, w\<lparr>
                provider_log := provider_log w @ [CallGetPaymentStatus (TrimSpace rawID)],
                payments := map (\<lambda>r. if r = p then
                    (if terminalStatus newStatus
                     then p\<lparr>Status := newStatus,
                            CallbackDeliveryStatus := CallbackDeliveryPending,
                            CallbackDeliveryAttempts := 0,
                            CallbackDeliveryNextAt := Some now,
                            CallbackDeliveryLastErr := None,
                            UpdatedAt := now\<rparr>
                     else p\<lparr>Status := newStatus, UpdatedAt := now\<rparr>) else r) (payments w),
                payment_events := payment_events w @ [\<lparr>
                    pe_ID = Suc (length (payment_events w)),
                    pe_PaymentID = ID p,
                    pe_EventType = ''payment_reconciled'',
                    pe_OldStatus = Some (Status p),
                    pe_NewStatus = newStatus,
                    pe_ProviderEventID = None,
                    pe_PayloadJSON = None,
                    pe_CreatedAt = now\<rparr>]\<rparr>))"
proof (intro conjI impI)
  assume "io_script w = []"
  then show "RunReconcileBatch s now w =
         fold (RunReconcileBatch_body s now)
           (sql_limit (batchSize s) (sort_key UpdatedAt
              (filter (\<lambda>r. (Status r = PAYMENT_STATUS_PENDING \<or> Status r = PAYMENT_STATUS_PROCESSING)
                          \<and> ProviderPaymentID r \<noteq> None
                          \<and> UpdatedAt r \<le> now - cfg_ReconcileStaleAfter (paymentsCfg s))
                 (payments w))))
           (None, w)"
    by (simp add: RunReconcileBatch_def Let_def repo_ListForReconcile_nil
          PAYMENT_STATUS_PENDING_def PAYMENT_STATUS_PROCESSING_def)
next
  assume "newStatus = 0 \<or> newStatus = Status p"
  then show "RunReconcileBatch_body s now p (firstErr, w)
           = (firstErr, w\<lparr>provider_log :=
                provider_log w @ [CallGetPaymentStatus (TrimSpace rawID)]\<rparr>)"
    using pid reg st
    by (simp add: RunReconcileBatch_body_def Registry_Get_def Let_def log_call_def
          split del: if_split)
next
  let ?w1 = "log_call (CallGetPaymentStatus (TrimSpace rawID)) w"
  assume a: "newStatus \<noteq> 0 \<and> newStatus \<noteq> Status p
         \<and> io_script w = [] \<and> primary_key w \<and> p \<in> set (payments w)"
  then have io: "io_script ?w1 = []" and pk: "primary_key ?w1" and mem: "p \<in> set (payments ?w1)"
    by (simp_all add: log_call_def primary_key_def)
  have ne: "\<not> (newStatus = 0 \<or> newStatus = Status p)" using a by simp
  show "RunReconcileBatch_body s now p (firstErr, w)
           = (firstErr, w\<lparr>
                provider_log := provider_log w @ [CallGetPaymentStatus (TrimSpace rawID)],
                payments := map (\<lambda>r. if r = p then
                    (if terminalStatus newStatus
                     then p\<lparr>Status := newStatus,
                            CallbackDeliveryStatus := CallbackDeliveryPending,
                            CallbackDeliveryAttempts := 0,
                            CallbackDeliveryNextAt := Some now,
                            CallbackDeliveryLastErr := None,
                            UpdatedAt := now\<rparr>
                     else p\<lparr>Status := newStatus, UpdatedAt := now\<rparr>) else r) (payments w),
                payment_events := payment_events w @ [\<lparr>
                    pe_ID = Suc (length (payment_events w)),
                    pe_PaymentID = ID p,
                    pe_EventType = ''payment_reconciled'',
                    pe_OldStatus = Some (Status p),
                    pe_NewStatus = newStatus,
                    pe_ProviderEventID = None,
                    pe_PayloadJSON = None,
                    pe_CreatedAt = now\<rparr>]\<rparr>)"
  proof (cases "terminalStatus newStatus")
    case True
    then show ?thesis
      using pid reg st ne io
      by (simp add: RunReconcileBatch_body_def Registry_Get_def Let_def
            markForCallbackDelivery_def
            repo_Update_own_row[where r = p, OF io pk mem] eventRepo_Create_nil)
         (simp add: log_call_def)
  next
    case False
    then show ?thesis
      using pid reg st ne io
      by (simp add: RunReconcileBatch_body_def Registry_Get_def Let_def
            repo_Update_own_row[where r = p, OF io pk mem] eventRepo_Create_nil)
         (simp add: log_call_def)
  qed
qed


theorem reconcile_one_payment_witness:
  "RunReconcileBatch_body (test_service 2) 7200000000000 (test_payment 2)
      (None, test_world [test_payment 2])
    = (None, (test_world [test_payment 2])\<lparr>provider_log :=
                [CallGetPaymentStatus ''cs_test_123'']\<rparr>)
   \<and> RunReconcileBatch_body (test_service 10) 7200000000000 (test_payment 2)
      (None, test_world [test_payment 2])
    = (None, (test_world [(test_payment 10)\<lparr>
                  CallbackDeliveryStatus := CallbackDeliveryPending,
                  CallbackDeliveryNextAt := Some 7200000000000,
                  UpdatedAt := 7200000000000\<rparr>])\<lparr>
                provider_log := [CallGetPaymentStatus ''cs_test_123''],
                payment_events := [\<lparr>
                    pe_ID = 1,
                    pe_PaymentID = 1,
                    pe_EventType = ''payment_reconciled'',
                    pe_OldStatus = Some 2,
                    pe_NewStatus = 10,
                    pe_ProviderEventID = None,
                    pe_PayloadJSON = None,
                    pe_CreatedAt = 7200000000000\<rparr>]\<rparr>)
   \<and> RunReconcileBatch (test_service 10) 7200000000000 (test_world [test_payment 2])
    = RunReconcileBatch_body (test_service 10) 7200000000000 (test_payment 2)
        (None, test_world [test_payment 2])"
proof -
  let ?w = "test_world [test_payment 2]"
  let ?prov = "\<lambda>st. serviceProvider (Inr test_created) (Inr (Some (test_event st))) (Inr st)"
  have pid: "ProviderPaymentID (test_payment 2) = Some ''cs_test_123''"
    by (simp add: test_payment_def)
  have tr: "TrimSpace ''cs_test_123'' = ''cs_test_123''" by code_simp
  then have ne: "TrimSpace ''cs_test_123'' \<noteq> []" by simp
  have reg: "providerReg (test_service st) (Provider (test_payment 2)) = Some (?prov st)" for st
    by (simp add: test_service_def newPaymentServiceForTest_def NewRegistry_def
          serviceProvider_def test_payment_def)
  have st: "prov_GetPaymentStatus (?prov st) (TrimSpace ''cs_test_123'') = Inr st" for st
    by (simp add: serviceProvider_def)
  have same: "(2 :: int32) = 0 \<or> 2 = Status (test_payment 2)"
    by (simp add: test_payment_def)
  have changed: "(10 :: int32) \<noteq> 0 \<and> 10 \<noteq> Status (test_payment 2)
         \<and> io_script ?w = [] \<and> primary_key ?w \<and> test_payment 2 \<in> set (payments ?w)"
    by (simp add: test_payment_def test_world_def primary_key_def)
  have tm10: "terminalStatus 10" by code_simp
  have items: "sql_limit (batchSize (test_service 10)) (sort_key UpdatedAt
              (filter (\<lambda>r. (Status r = PAYMENT_STATUS_PENDING \<or> Status r = PAYMENT_STATUS_PROCESSING)
                          \<and> ProviderPaymentID r \<noteq> None
                          \<and> UpdatedAt r \<le> 7200000000000
                               - cfg_ReconcileStaleAfter (paymentsCfg (test_service 10)))
                 (payments ?w))) = [test_payment 2]"
    by code_simp
  note t2 = reconcile_one_payment[where w = ?w and now = 7200000000000
      and firstErr = None and newStatus = 2 and s = "test_service 2", OF pid ne reg st]
  note t10 = reconcile_one_payment[where w = ?w and now = 7200000000000
      and firstErr = None and newStatus = 10 and s = "test_service 10", OF pid ne reg st]
  have io: "io_script ?w = []" using changed by simp
  have batch: "RunReconcileBatch (test_service 10) 7200000000000 ?w
      = RunReconcileBatch_body (test_service 10) 7200000000000 (test_payment 2) (None, ?w)"
    using t10[THEN conjunct1, rule_format, OF io] unfolding items by simp
  show ?thesis
    using t2[THEN conjunct2, THEN conjunct1, rule_format, OF same]
      t10[THEN conjunct2, THEN conjunct2, rule_format, OF changed]
    unfolding batch
    by (simp add: tr tm10 test_world_def test_payment_def)
qed

subsection \<open>C2: CreatePayment is idempotent on (caller_service, request_id)\<close>

lemma repo_FindByCallerRequestID_nil:
  "io_script w = [] \<Longrightarrow> repo_FindByCallerRequestID c q w =
     (Inr (find (\<lambda>r. CallerService r = c \<and> RequestID r = q) (payments w)), w)"
  by (simp add: repo_FindByCallerRequestID_def io_next_nil)

lemma repo_FindByCallerRequestID_result:
  "repo_FindByCallerRequestID c q w = (Inr po, w1) \<Longrightarrow>
     po = find (\<lambda>r. CallerService r = c \<and> RequestID r = q) (payments w)
     \<and> payments w1 = payments w"
  by (auto simp: repo_FindByCallerRequestID_def io_next_def split: list.splits option.splits)

lemma repo_Create_case_Inr:
  assumes "(case repo_Create P W of
              (Inl err, w3) \<Rightarrow> if c err then (Inl a, w3) else (Inl (b err), w3)
            | (Inr payment, w3) \<Rightarrow> (Inr payment, snd (eventRepo_Create (ev payment) w3)))
           = (Inr p, w1)"
  shows "\<exists>i. p = P\<lparr>ID := i\<rparr> \<and> payments w1 = payments W @ [p]"
proof -
  obtain r w3 where c: "repo_Create P W = (r, w3)" by (cases "repo_Create P W")
  with assms have r: "r = Inr p" and w1: "w1 = snd (eventRepo_Create (ev p) w3)"
    by (cases r; simp split: if_splits)+
  from repo_Create_shape[of P W] c r have "\<exists>i. p = P\<lparr>ID := i\<rparr> \<and> payments w3 = payments W @ [p]"
    by auto
  then show ?thesis using w1 by simp
qed

lemma find_snoc:
  "find P (xs @ [x]) = (case find P xs of Some y \<Rightarrow> Some y | None \<Rightarrow> if P x then Some x else None)"
  by (induction xs) simp_all

lemma newPayment_keys [simp]:
  "CallerService (newPayment now rid cs code h cref md req out) = cs"
  "RequestID (newPayment now rid cs code h cref md req out) = rid"
  by (simp_all add: newPayment_def)

lemma markForCallbackDelivery_keys [simp]:
  "CallerService (markForCallbackDelivery p now) = CallerService p"
  "RequestID (markForCallbackDelivery p now) = RequestID p"
  by (simp_all add: markForCallbackDelivery_def)

lemma CreatePayment_success_stored:
  assumes "CreatePayment s now uuid req w = (Inr p, w1)"
  shows "find (\<lambda>r. CallerService r = TrimSpace (rq_CallerService req)
                   \<and> RequestID r = TrimSpace (rq_RequestId req)) (payments w1) = Some p
         \<and> TrimSpace (rq_RequestId req) \<noteq> [] \<and> TrimSpace (rq_CallerService req) \<noteq> []"
proof -
  let ?rid = "TrimSpace (rq_RequestId req)" and ?cs = "TrimSpace (rq_CallerService req)"
  let ?key = "\<lambda>r. CallerService r = ?cs \<and> RequestID r = ?rid"
  have keys: "?rid \<noteq> [] \<and> ?cs \<noteq> []"
    using assms by (auto simp: CreatePayment_def Let_def split: if_splits)
  obtain r w0 where f: "repo_FindByCallerRequestID ?cs ?rid w = (r, w0)"
    by (cases "repo_FindByCallerRequestID ?cs ?rid w")
  show ?thesis
  proof (cases r)
    case (Inl e)
    then show ?thesis using assms keys f by (simp add: CreatePayment_def Let_def)
  next
    case (Inr po)
    note res = repo_FindByCallerRequestID_result[OF f[unfolded Inr]]
    show ?thesis
    proof (cases po)
      case (Some existing)
      then show ?thesis using assms keys f Inr res by (simp add: CreatePayment_def Let_def)
    next
      case None
      have "?key p \<and> payments w1 = payments w @ [p]"
        using assms keys f Inr None res
        by (auto simp: CreatePayment_def Let_def split: sum.splits if_splits
              dest!: repo_Create_case_Inr)
      then show ?thesis
        using keys res None by (simp add: find_snoc)
    qed
  qed
qed

text \<open>
  Claim C2. If a \<open>CreatePayment\<close> call returned a payment, then a later call whose
  caller service and request id are the same (after trimming, as the operation
  compares them) returns that same payment, with the same id and identical contents,
  and leaves the world as it was: no provider \<open>CreatePayment\<close> call is logged, no
  payment row is inserted and no event is appended. The later call may differ in the
  service configuration, the time, the fresh callback hash and every other field of
  the request; its storage lookup is assumed not to fail. More generally, whenever a
  row with the request's key is stored, \<open>CreatePayment\<close> returns that row and changes
  nothing.
\<close>

theorem create_payment_idempotent:
  "(CreatePayment s now uuid req w = (Inr p, w1)
      \<and> TrimSpace (rq_RequestId req') = TrimSpace (rq_RequestId req)
      \<and> TrimSpace (rq_CallerService req') = TrimSpace (rq_CallerService req)
      \<and> io_script w1 = []
     \<longrightarrow> CreatePayment s' now' uuid' req' w1 = (Inr p, w1))
   \<and> (io_script w = []
      \<and> TrimSpace (rq_RequestId req) \<noteq> [] \<and> TrimSpace (rq_CallerService req) \<noteq> []
      \<and> find (\<lambda>r. CallerService r = TrimSpace (rq_CallerService req)
                    \<and> RequestID r = TrimSpace (rq_RequestId req)) (payments w) = Some existing
     \<longrightarrow> CreatePayment s now uuid req w = (Inr existing, w))"
proof (intro conjI impI)
  assume a: "CreatePayment s now uuid req w = (Inr p, w1)
      \<and> TrimSpace (rq_RequestId req') = TrimSpace (rq_RequestId req)
      \<and> TrimSpace (rq_CallerService req') = TrimSpace (rq_CallerService req)
      \<and> io_script w1 = []"
  then have first: "CreatePayment s now uuid req w = (Inr p, w1)" and io: "io_script w1 = []"
    by simp_all
  show "CreatePayment s' now' uuid' req' w1 = (Inr p, w1)"
    using CreatePayment_success_stored[OF first] a
    by (simp add: CreatePayment_def Let_def repo_FindByCallerRequestID_nil[OF io])
next
  assume "io_script w = []
      \<and> TrimSpace (rq_RequestId req) \<noteq> [] \<and> TrimSpace (rq_CallerService req) \<noteq> []
      \<and> find (\<lambda>r. CallerService r = TrimSpace (rq_CallerService req)
                    \<and> RequestID r = TrimSpace (rq_RequestId req)) (payments w) = Some existing"
  then show "CreatePayment s now uuid req w = (Inr existing, w)"
    by (simp add: CreatePayment_def Let_def repo_FindByCallerRequestID_nil)
qed

theorem create_payment_idempotent_witness:
  "CreatePayment (test_service 10) 9 ''uuid-2'' (test_create\<lparr>rq_RequestId := '' req-1 ''\<rparr>)
      (snd (CreatePayment (test_service 10) 5 ''uuid-1'' test_create (test_world [])))
    = CreatePayment (test_service 10) 5 ''uuid-1'' test_create (test_world [])
   \<and> map ID (payments (snd (CreatePayment (test_service 10) 5 ''uuid-1'' test_create
        (test_world [])))) = [1]"
proof -
  let ?R = "CreatePayment (test_service 10) 5 ''uuid-1'' test_create (test_world [])"
  have ok: "\<not> isl (fst ?R)" by code_simp
  then have first: "?R = (Inr (projr (fst ?R)), snd ?R)"
    by (metis prod.collapse sum.collapse(2))
  have io: "io_script (snd ?R) = []" by code_simp
  have k1: "TrimSpace (rq_RequestId (test_create\<lparr>rq_RequestId := '' req-1 ''\<rparr>))
            = TrimSpace (rq_RequestId test_create)"
    by code_simp
  have k2: "TrimSpace (rq_CallerService (test_create\<lparr>rq_RequestId := '' req-1 ''\<rparr>))
            = TrimSpace (rq_CallerService test_create)"
    by simp
  have ids: "map ID (payments (snd ?R)) = [1]" by code_simp
  show ?thesis
    using create_payment_idempotent[where s = "test_service 10" and now = 5
        and uuid = "''uuid-1''" and req = test_create and w = "test_world []"
        and p = "projr (fst ?R)" and ?w1.0 = "snd ?R"
        and req' = "test_create\<lparr>rq_RequestId := '' req-1 ''\<rparr>"
        and s' = "test_service 10" and now' = 9 and uuid' = "''uuid-2''", THEN conjunct1]
      first k1 k2 io ids
    by simp
qed

subsection \<open>C3: the audit row of an inbound provider callback\<close>

lemma callbackRepo_Create_nil:
  "io_script w = [] \<Longrightarrow> callbackRepo_Create cb w =
     (None, w\<lparr>payment_callbacks :=
        payment_callbacks w @ [cb\<lparr>pc_ID := Suc (length (payment_callbacks w))\<rparr>]\<rparr>)"
  by (simp add: callbackRepo_Create_def io_next_nil)

lemma repo_FindByCallbackHash_nil:
  "io_script w = [] \<Longrightarrow> repo_FindByCallbackHash c h w =
     (Inr (find (\<lambda>r. Provider r = c \<and> ProviderCallbackHash r = h) (payments w)), w)"
  by (simp add: repo_FindByCallbackHash_def io_next_nil)

lemma repo_Update_found:
  assumes "io_script w = []" "r \<in> set (payments w)" "ID p = ID r"
  shows "repo_Update p w =
     (None, w\<lparr>payments := map (\<lambda>x. if ID x = ID p then update_columns x p else x) (payments w)\<rparr>)"
proof -
  have "list_ex (\<lambda>x. ID x = ID p) (payments w)"
    using assms(2,3) by (auto simp: list_ex_iff)
  then show ?thesis using assms(1) by (simp add: repo_Update_def io_next_nil)
qed

lemma rejected_reason_nonempty:
  "truncate_str (if TrimSpace r = [] then ''callback rejected'' else TrimSpace r) 1024 \<noteq> []"
  by (simp add: truncate_str_def)

lemma persistRejectedCallback_nil:
  "io_script w = [] \<Longrightarrow> persistRejectedCallback now i req reason w =
     w\<lparr>payment_callbacks := payment_callbacks w @ [\<lparr>
        pc_ID = Suc (length (payment_callbacks w)),
        pc_PaymentID = i,
        pc_Provider = ToLower (TrimSpace (hc_Provider req)),
        pc_CallbackHash = TrimSpace (hc_CallbackHash req),
        pc_Signature = TrimSpace (hc_Signature req),
        pc_PayloadJSON = hc_Payload req,
        pc_Status = paymentCallbackStatusRejected,
        pc_Error = Some (truncate_str (if TrimSpace reason = [] then ''callback rejected''
                                       else TrimSpace reason) 1024),
        pc_CreatedAt = now,
        pc_UpdatedAt = now\<rparr>]\<rparr>"
  by (simp add: persistRejectedCallback_def Let_def callbackRepo_Create_nil)

lemma HandleProviderCallback_audit:
  assumes tag: "parseProviderCode (hc_Provider req) = Inr code"
    and reg: "providerReg s code = Some prov"
    and io: "io_script w = []"
  shows "\<exists>row. payment_callbacks (snd (HandleProviderCallback s now req w))
              = payment_callbacks w @ [row]
     \<and> (case prov_VerifyAndParseCallback prov (hc_Payload req) (TrimSpace (hc_Signature req)) of
          Inl e \<Rightarrow>
            fst (HandleProviderCallback s now req w) = Inl ErrCallbackRejected
            \<and> pc_Status row = paymentCallbackStatusRejected \<and> pc_PaymentID row = None
            \<and> pc_Error row \<noteq> None \<and> pc_Error row \<noteq> Some []
        | Inr None \<Rightarrow>
            fst (HandleProviderCallback s now req w) = Inl ErrCallbackRejected
            \<and> pc_Status row = paymentCallbackStatusRejected \<and> pc_PaymentID row = None
            \<and> pc_Error row \<noteq> None \<and> pc_Error row \<noteq> Some []
        | Inr (Some ev) \<Rightarrow>
           (case find (\<lambda>r. Provider r = code
                            \<and> ProviderCallbackHash r = TrimSpace (hc_CallbackHash req))
                   (payments w) of
              None \<Rightarrow>
                fst (HandleProviderCallback s now req w) = Inl ErrPaymentNotFound
                \<and> pc_Status row = paymentCallbackStatusRejected \<and> pc_PaymentID row = None
                \<and> pc_Error row \<noteq> None \<and> pc_Error row \<noteq> Some []
            | Some p \<Rightarrow>
                fst (HandleProviderCallback s now req w) = Inr (applyCallbackEvent ev now p)
                \<and> pc_Status row = paymentCallbackStatusProcessed
                \<and> pc_PaymentID row = Some (ID p) \<and> pc_Error row = None))"
proof -
  let ?w1 = "log_call (CallVerifyAndParseCallback (hc_Payload req) (TrimSpace (hc_Signature req))) w"
  have io1: "io_script ?w1 = []" using io by (simp add: log_call_def)
  have cb1: "payment_callbacks ?w1 = payment_callbacks w" by (simp add: log_call_def)
  have pw1: "payments ?w1 = payments w" by (simp add: log_call_def)
  have rg: "Registry_Get (providerReg s) code = Inr prov" using reg by (simp add: Registry_Get_def)
  show ?thesis
  proof (cases "prov_VerifyAndParseCallback prov (hc_Payload req) (TrimSpace (hc_Signature req))")
    case (Inl e)
    then show ?thesis
      using tag rg io1 cb1
      by (simp add: HandleProviderCallback_def Let_def persistRejectedCallback_nil
            rejected_reason_nonempty)
  next
    case ev: (Inr evo)
    show ?thesis
    proof (cases evo)
      case None
      then show ?thesis
        using tag rg io1 cb1 ev
        by (simp add: HandleProviderCallback_def Let_def persistRejectedCallback_nil
              rejected_reason_nonempty)
    next
      case (Some parsedEvent)
      show ?thesis
      proof (cases "find (\<lambda>r. Provider r = code
                            \<and> ProviderCallbackHash r = TrimSpace (hc_CallbackHash req))
                   (payments w)")
        case None
        then show ?thesis
          using tag rg io1 cb1 pw1 ev Some
          by (simp add: HandleProviderCallback_def Let_def persistRejectedCallback_nil
                rejected_reason_nonempty repo_FindByCallbackHash_nil)
      next
        case found: (Some p)
        have mem: "p \<in> set (payments ?w1)"
          using found pw1 by (auto simp: find_Some_iff)
        have upd: "repo_Update (applyCallbackEvent parsedEvent now p) ?w1 =
            (None, ?w1\<lparr>payments := map (\<lambda>x. if ID x = ID p
                 then update_columns x (applyCallbackEvent parsedEvent now p) else x)
                 (payments ?w1)\<rparr>)"
          using repo_Update_found[OF io1 mem, of "applyCallbackEvent parsedEvent now p"] by simp
        show ?thesis
          using tag rg io1 cb1 pw1 ev Some found upd
          by (simp add: HandleProviderCallback_def Let_def repo_FindByCallbackHash_nil
                eventRepo_Create_nil callbackRepo_Create_nil)
      qed
    qed
  qed
qed

text \<open>
  Claim C3, as the code has it. An inbound callback whose provider tag is unknown, or
  whose tag resolves to a provider code under which no provider is registered, is
  refused with \<open>ErrProviderUnsupported\<close> before anything is recorded: the world is
  left as it was, so no PaymentCallback row is written. For every other callback, with
  storage working, exactly one PaymentCallback row is appended: a REJECTED row with no
  payment id and a non-empty error when the provider's verification fails
  (\<open>ErrCallbackRejected\<close>), when the parsed event is nil (\<open>ErrCallbackRejected\<close>) or
  when no payment matches the callback hash (\<open>ErrPaymentNotFound\<close>); a PROCESSED row
  carrying the payment's id otherwise, the operation returning the updated payment.
\<close>

theorem callback_audit_row:
  "(case parseProviderCode (hc_Provider req) of
      Inl e \<Rightarrow> HandleProviderCallback s now req w = (Inl ErrProviderUnsupported, w)
    | Inr code \<Rightarrow>
       (case providerReg s code of
          None \<Rightarrow> HandleProviderCallback s now req w = (Inl ErrProviderUnsupported, w)
        | Some prov \<Rightarrow>
            io_script w = [] \<longrightarrow>
            (\<exists>row. payment_callbacks (snd (HandleProviderCallback s now req w))
                       = payment_callbacks w @ [row]
              \<and> (case prov_VerifyAndParseCallback prov (hc_Payload req) (TrimSpace (hc_Signature req)) of
                   Inl e \<Rightarrow>
                     fst (HandleProviderCallback s now req w) = Inl ErrCallbackRejected
                     \<and> pc_Status row = paymentCallbackStatusRejected \<and> pc_PaymentID row = None
                     \<and> pc_Error row \<noteq> None \<and> pc_Error row \<noteq> Some []
                 | Inr None \<Rightarrow>
                     fst (HandleProviderCallback s now req w) = Inl ErrCallbackRejected
                     \<and> pc_Status row = paymentCallbackStatusRejected \<and> pc_PaymentID row = None
                     \<and> pc_Error row \<noteq> None \<and> pc_Error row \<noteq> Some []
                 | Inr (Some ev) \<Rightarrow>
                    (case find (\<lambda>r. Provider r = code
                                     \<and> ProviderCallbackHash r = TrimSpace (hc_CallbackHash req))
                            (payments w) of
                       None \<Rightarrow>
                         fst (HandleProviderCallback s now req w) = Inl ErrPaymentNotFound
                         \<and> pc_Status row = paymentCallbackStatusRejected \<and> pc_PaymentID row = None
                         \<and> pc_Error row \<noteq> None \<and> pc_Error row \<noteq> Some []
                     | Some p \<Rightarrow>
                         fst (HandleProviderCallback s now req w) = Inr (applyCallbackEvent ev now p)
                         \<and> pc_Status row = paymentCallbackStatusProcessed
                         \<and> pc_PaymentID row = Some (ID p) \<and> pc_Error row = None)))))"
proof (cases "parseProviderCode (hc_Provider req)")
  case (Inl e)
  then show ?thesis using HandleProviderCallback_unsupported[of req e] by simp
next
  case code: (Inr code)
  show ?thesis
  proof (cases "providerReg s code")
    case None
    then show ?thesis using code HandleProviderCallback_unsupported[of req _ code s] by simp
  next
    case (Some prov)
    show ?thesis
      unfolding code Some sum.case option.case
      by (intro impI) (rule HandleProviderCallback_audit[OF code Some])
  qed
qed

theorem callback_audit_row_witness:
  "map (\<lambda>row. (pc_Status row, pc_PaymentID row))
      (payment_callbacks (snd (HandleProviderCallback (test_service 10) 5
         (test_callback ''stripe'') (test_world [test_payment 2]))))
    = [(paymentCallbackStatusProcessed, Some 1)]
   \<and> map (\<lambda>row. (pc_Status row, pc_PaymentID row))
      (payment_callbacks (snd (HandleProviderCallback
         (newPaymentServiceForTest 3
            (serviceProvider (Inr test_created)
               (Inl (OtherError ''invalid stripe signature'')) (Inr 0)) (Inr 200))
         5 (test_callback ''stripe'') (test_world [test_payment 2]))))
    = [(paymentCallbackStatusRejected, None)]
   \<and> map (\<lambda>row. (pc_Status row, pc_PaymentID row))
      (payment_callbacks (snd (HandleProviderCallback (test_service 10) 5
         ((test_callback ''stripe'')\<lparr>hc_CallbackHash := ''hash-2''\<rparr>)
         (test_world [test_payment 2]))))
    = [(paymentCallbackStatusRejected, None)]
   \<and> map (\<lambda>row. (pc_Status row, pc_PaymentID row))
      (payment_callbacks (snd (HandleProviderCallback (test_service 10) 5
         ((test_callback ''stripe'')\<lparr>hc_CallbackHash := ''hash-1'' @ [CHR 0xC2, CHR 0xA0]\<rparr>)
         (test_world [test_payment 2]))))
    = [(paymentCallbackStatusProcessed, Some 1)]
   \<and> HandleProviderCallback (test_service 10) 5 (test_callback ''paypal'')
        (test_world [test_payment 2])
      = (Inl ErrProviderUnsupported, test_world [test_payment 2])
   \<and> HandleProviderCallback ((test_service 10)\<lparr>providerReg := NewRegistry []\<rparr>) 5
        (test_callback ''stripe'') (test_world [test_payment 2])
      = (Inl ErrProviderUnsupported, test_world [test_payment 2])"
proof -
  let ?w = "test_world [test_payment 2]"
  let ?req = "test_callback ''stripe''"
  let ?req2 = "(test_callback ''stripe'')\<lparr>hc_CallbackHash := ''hash-2''\<rparr>"
  let ?req3 = "(test_callback ''stripe'')\<lparr>hc_CallbackHash := ''hash-1'' @ [CHR 0xC2, CHR 0xA0]\<rparr>"
  let ?bad = "serviceProvider (Inr test_created)
               (Inl (OtherError ''invalid stripe signature'')) (Inr 0)"
  let ?good = "serviceProvider (Inr test_created) (Inr (Some (test_event 10))) (Inr 10)"
  let ?s2 = "newPaymentServiceForTest 3 ?bad (Inr 200)"
  let ?s3 = "(test_service 10)\<lparr>providerReg := NewRegistry []\<rparr>"
  have tag: "parseProviderCode (hc_Provider ?req) = Inr PROVIDER_TYPE_STRIPE" by code_simp
  have tag2: "parseProviderCode (hc_Provider ?req2) = Inr PROVIDER_TYPE_STRIPE" by code_simp
  have tag3: "parseProviderCode (hc_Provider ?req3) = Inr PROVIDER_TYPE_STRIPE" by code_simp
  have tag4: "parseProviderCode (hc_Provider (test_callback ''paypal''))
              = Inl ErrProviderNotSupported" by code_simp
  have reg1: "providerReg (test_service 10) PROVIDER_TYPE_STRIPE = Some ?good"
    by (simp add: test_service_def newPaymentServiceForTest_def NewRegistry_def
          serviceProvider_def)
  have reg2: "providerReg ?s2 PROVIDER_TYPE_STRIPE = Some ?bad"
    by (simp add: newPaymentServiceForTest_def NewRegistry_def serviceProvider_def)
  have reg3: "providerReg ?s3 PROVIDER_TYPE_STRIPE = None"
    by (simp add: NewRegistry_def)
  have io: "io_script ?w = []" by (simp add: test_world_def)
  have v1: "prov_VerifyAndParseCallback ?good x y = Inr (Some (test_event 10))" for x y
    by (simp add: serviceProvider_def)
  have v2: "prov_VerifyAndParseCallback ?bad x y = Inl (OtherError ''invalid stripe signature'')"
    for x y
    by (simp add: serviceProvider_def)
  have f: "find (\<lambda>r. Provider r = PROVIDER_TYPE_STRIPE
                    \<and> ProviderCallbackHash r = TrimSpace (hc_CallbackHash ?req))
             (payments ?w) = Some (test_payment 2)"
    by code_simp
  have f2: "find (\<lambda>r. Provider r = PROVIDER_TYPE_STRIPE
                    \<and> ProviderCallbackHash r = TrimSpace (hc_CallbackHash ?req2))
             (payments ?w) = None"
    by code_simp
  have f3: "find (\<lambda>r. Provider r = PROVIDER_TYPE_STRIPE
                    \<and> ProviderCallbackHash r = TrimSpace (hc_CallbackHash ?req3))
             (payments ?w) = Some (test_payment 2)"
    by code_simp
  have i: "ID (test_payment 2) = 1" by (simp add: test_payment_def)
  have c: "payment_callbacks ?w = []" by (simp add: test_world_def)
  have 1: "map (\<lambda>row. (pc_Status row, pc_PaymentID row))
             (payment_callbacks (snd (HandleProviderCallback (test_service 10) 5 ?req ?w)))
           = [(paymentCallbackStatusProcessed, Some 1)]"
    using callback_audit_row[where req = ?req and s = "test_service 10" and now = 5 and w = ?w]
    unfolding tag reg1 sum.case option.case v1 f c
    using io by (auto simp: i)
  have 2: "map (\<lambda>row. (pc_Status row, pc_PaymentID row))
             (payment_callbacks (snd (HandleProviderCallback ?s2 5 ?req ?w)))
           = [(paymentCallbackStatusRejected, None)]"
    using callback_audit_row[where req = ?req and s = ?s2 and now = 5 and w = ?w]
    unfolding tag reg2 sum.case option.case v2 c
    using io by auto
  have 3: "map (\<lambda>row. (pc_Status row, pc_PaymentID row))
             (payment_callbacks (snd (HandleProviderCallback (test_service 10) 5 ?req2 ?w)))
           = [(paymentCallbackStatusRejected, None)]"
    using callback_audit_row[where req = ?req2 and s = "test_service 10" and now = 5 and w = ?w]
    unfolding tag2 reg1 sum.case option.case v1 f2 c
    using io by auto
  have 4: "map (\<lambda>row. (pc_Status row, pc_PaymentID row))
             (payment_callbacks (snd (HandleProviderCallback (test_service 10) 5 ?req3 ?w)))
           = [(paymentCallbackStatusProcessed, Some 1)]"
    using callback_audit_row[where req = ?req3 and s = "test_service 10" and now = 5 and w = ?w]
    unfolding tag3 reg1 sum.case option.case v1 f3 c
    using io by (auto simp: i)
  have 5: "HandleProviderCallback (test_service 10) 5 (test_callback ''paypal'') ?w
           = (Inl ErrProviderUnsupported, ?w)"
    using callback_audit_row[where req = "test_callback ''paypal''" and s = "test_service 10"
        and now = 5 and w = ?w]
    unfolding tag4 sum.case .
  have 6: "HandleProviderCallback ?s3 5 ?req ?w = (Inl ErrProviderUnsupported, ?w)"
    using callback_audit_row[where req = ?req and s = ?s3 and now = 5 and w = ?w]
    unfolding tag reg3 sum.case option.case .
  show ?thesis using 1 2 3 4 5 6 by simp
qed

text \<open>
  Claim C3 as it is stated does not hold: a callback whose provider tag is unknown
  produces no PaymentCallback row at all.
\<close>

theorem unknown_tag_writes_no_callback_row:
  "fst (HandleProviderCallback (test_service 10) 5 (test_callback ''paypal'')
          (test_world [test_payment 2])) = Inl ErrProviderUnsupported
   \<and> payment_callbacks (snd (HandleProviderCallback (test_service 10) 5
          (test_callback ''paypal'') (test_world [test_payment 2]))) = []"
  by code_simp

subsection \<open>C9: replaying a provider event\<close>

lemma applyCallbackEvent_fixed [simp]:
  "RequestID (applyCallbackEvent ev now p) = RequestID p"
  "CallerService (applyCallbackEvent ev now p) = CallerService p"
  "ProviderCallbackHash (applyCallbackEvent ev now p) = ProviderCallbackHash p"
  "CreatedAt (applyCallbackEvent ev now p) = CreatedAt p"
  "Provider (applyCallbackEvent ev now p) = Provider p"
  by (simp_all add: applyCallbackEvent_def Let_def markForCallbackDelivery_def)

lemma applyCallbackEvent_settled:
  assumes a: "ce_ProviderPaymentID ev \<noteq> None \<Longrightarrow> ProviderPaymentID q = ce_ProviderPaymentID ev"
    and b: "ce_ProviderSubscriptionID ev \<noteq> None
            \<Longrightarrow> ProviderSubscriptionID q = ce_ProviderSubscriptionID ev"
    and c: "0 < sint (ce_NewStatus ev) \<Longrightarrow> Status q = ce_NewStatus ev"
  shows "applyCallbackEvent ev now' q = q\<lparr>UpdatedAt := now'\<rparr>"
proof -
  have e1: "(if ce_ProviderPaymentID ev \<noteq> None
             then q\<lparr>ProviderPaymentID := ce_ProviderPaymentID ev\<rparr> else q) = q"
  proof (cases "ce_ProviderPaymentID ev \<noteq> None")
    case True
    with a have "ce_ProviderPaymentID ev = ProviderPaymentID q" by simp
    then show ?thesis by simp
  qed simp
  have e2: "(if ce_ProviderSubscriptionID ev \<noteq> None
             then q\<lparr>ProviderSubscriptionID := ce_ProviderSubscriptionID ev\<rparr> else q) = q"
  proof (cases "ce_ProviderSubscriptionID ev \<noteq> None")
    case True
    with b have "ce_ProviderSubscriptionID ev = ProviderSubscriptionID q" by simp
    then show ?thesis by simp
  qed simp
  have e3: "(if 0 < sint (ce_NewStatus ev) then q\<lparr>Status := ce_NewStatus ev\<rparr> else q) = q"
  proof (cases "0 < sint (ce_NewStatus ev)")
    case True
    with c have "ce_NewStatus ev = Status q" by simp
    then show ?thesis by simp
  qed simp
  show ?thesis
    by (simp only: applyCallbackEvent_def Let_def e1 e2 e3) simp
qed

lemma applyCallbackEvent_replay:
  "applyCallbackEvent ev now' (applyCallbackEvent ev now p)
     = (applyCallbackEvent ev now p)\<lparr>UpdatedAt := now'\<rparr>"
  by (rule applyCallbackEvent_settled)
     (simp_all add: applyCallbackEvent_def Let_def markForCallbackDelivery_def)

lemma find_replace:
  "find P rows = Some p0 \<Longrightarrow> P p1 \<Longrightarrow>
     find P (map (\<lambda>r. if r = p0 then p1 else r) rows) = Some p1"
proof (induction rows)
  case Nil
  then show ?case by simp
next
  case (Cons x xs)
  then show ?case by (cases "P x") auto
qed

lemma update_own_rows:
  assumes "distinct (map ID rows)" "p0 \<in> set rows" "update_columns p0 p = p" "ID p = ID p0"
  shows "map (\<lambda>r. if ID r = ID p then update_columns r p else r) rows
         = map (\<lambda>r. if r = p0 then p else r) rows"
  using assms primary_key_unique[OF assms(1,2)] by (intro map_cong) auto

lemma replace_keeps_ids:
  "ID p = ID p0 \<Longrightarrow> map ID (map (\<lambda>r. if r = p0 then p else r) rows) = map ID rows"
  by (induction rows) auto

lemma repo_FindByCallbackHash_result:
  "repo_FindByCallbackHash c h w = (Inr po, w1) \<Longrightarrow>
     po = find (\<lambda>r. Provider r = c \<and> ProviderCallbackHash r = h) (payments w)
     \<and> payments w1 = payments w"
  by (auto simp: repo_FindByCallbackHash_def io_next_def split: list.splits option.splits)

lemma repo_Update_None:
  "repo_Update p w = (None, w1) \<Longrightarrow>
     payments w1 = map (\<lambda>r. if ID r = ID p then update_columns r p else r) (payments w)"
  by (auto simp: repo_Update_def io_next_def split: list.splits option.splits if_splits)

lemma callbackRepo_Create_result:
  "callbackRepo_Create cb w = (e, w1) \<Longrightarrow> payments w1 = payments w"
  using callbackRepo_Create_payments[of cb w] by simp

lemma HandleProviderCallback_success:
  assumes ok: "HandleProviderCallback s now req w = (Inr p1, w1)"
  shows "\<exists>code prov ev p0.
      parseProviderCode (hc_Provider req) = Inr code
      \<and> providerReg s code = Some prov
      \<and> prov_VerifyAndParseCallback prov (hc_Payload req) (TrimSpace (hc_Signature req))
          = Inr (Some ev)
      \<and> find (\<lambda>r. Provider r = code \<and> ProviderCallbackHash r = TrimSpace (hc_CallbackHash req))
          (payments w) = Some p0
      \<and> p1 = applyCallbackEvent ev now p0
      \<and> payments w1 = map (\<lambda>r. if ID r = ID p1 then update_columns r p1 else r) (payments w)"
proof (cases "parseProviderCode (hc_Provider req)")
  case (Inl e)
  then show ?thesis using ok by (simp add: HandleProviderCallback_def split: if_splits)
next
  case code: (Inr code)
  show ?thesis
  proof (cases "providerReg s code")
    case None
    then show ?thesis using ok code
      by (simp add: HandleProviderCallback_def Registry_Get_def split: if_splits)
  next
    case reg: (Some prov)
    then have rg: "Registry_Get (providerReg s) code = Inr prov" by (simp add: Registry_Get_def)
    let ?w1 = "log_call (CallVerifyAndParseCallback (hc_Payload req) (TrimSpace (hc_Signature req))) w"
    show ?thesis
    proof (cases "prov_VerifyAndParseCallback prov (hc_Payload req) (TrimSpace (hc_Signature req))")
      case (Inl e)
      then show ?thesis using ok code rg by (simp add: HandleProviderCallback_def Let_def)
    next
      case ev: (Inr evo)
      show ?thesis
      proof (cases evo)
        case None
        then show ?thesis using ok code rg ev by (simp add: HandleProviderCallback_def Let_def)
      next
        case (Some parsedEvent)
        obtain r w2 where f: "repo_FindByCallbackHash code (TrimSpace (hc_CallbackHash req)) ?w1 = (r, w2)"
          by (cases "repo_FindByCallbackHash code (TrimSpace (hc_CallbackHash req)) ?w1")
        show ?thesis
        proof (cases r)
          case (Inl e)
          then show ?thesis using ok code rg ev Some f
            by (simp add: HandleProviderCallback_def Let_def)
        next
          case (Inr po)
          note res = repo_FindByCallbackHash_result[OF f[unfolded Inr]]
          show ?thesis
          proof (cases po)
            case None
            then show ?thesis using ok code rg ev Some f Inr
              by (simp add: HandleProviderCallback_def Let_def)
          next
            case found: (Some p0)
            let ?p = "applyCallbackEvent parsedEvent now p0"
            obtain e w3 where u: "repo_Update ?p w2 = (e, w3)" by (cases "repo_Update ?p w2")
            show ?thesis
            proof (cases e)
              case (Some err)
              then show ?thesis using ok code rg ev \<open>evo = Some parsedEvent\<close> f Inr found u
                by (simp add: HandleProviderCallback_def Let_def split: if_splits)
            next
              case None
              have p3: "payments w3 = map (\<lambda>r. if ID r = ID ?p then update_columns r ?p else r) (payments w)"
                using repo_Update_None[OF u[unfolded None]] res by simp
              have h: "HandleProviderCallback s now req w =
                  (case callbackRepo_Create (cb ?p) (snd (eventRepo_Create (evt ?p) w3)) of
                     (Some callbackErr, w5) \<Rightarrow> (Inl callbackErr, w5)
                   | (None, w5) \<Rightarrow> (Inr ?p, w5))"
                if "cb = (\<lambda>payment. \<lparr>
                       pc_ID = 0,
                       pc_PaymentID = Some (ID payment),
                       pc_Provider = ToLower (TrimSpace (hc_Provider req)),
                       pc_CallbackHash = TrimSpace (hc_CallbackHash req),
                       pc_Signature = TrimSpace (hc_Signature req),
                       pc_PayloadJSON = hc_Payload req,
                       pc_Status = paymentCallbackStatusProcessed,
                       pc_Error = None,
                       pc_CreatedAt = now,
                       pc_UpdatedAt = now\<rparr>)"
                  "evt = (\<lambda>payment. \<lparr>
                       pe_ID = 0,
                       pe_PaymentID = ID payment,
                       pe_EventType = (if TrimSpace (ce_EventType parsedEvent) = []
                                       then ''provider_callback''
                                       else TrimSpace (ce_EventType parsedEvent)),
                       pe_OldStatus = (if Status p0 = Status payment then None
                                       else Some (Status p0)),
                       pe_NewStatus = Status payment,
                       pe_ProviderEventID = ce_ProviderEventID parsedEvent,
                       pe_PayloadJSON = Some (hc_Payload req),
                       pe_CreatedAt = now\<rparr>)" for cb evt
                using that code rg ev \<open>evo = Some parsedEvent\<close> f Inr found u None
                by (simp add: HandleProviderCallback_def Let_def split del: if_split)
              have "p1 = ?p \<and> payments w1 = payments w3"
                using ok callbackRepo_Create_case_payments
                unfolding h[OF refl refl]
                by (auto split: prod.splits option.splits dest!: callbackRepo_Create_result)
              moreover have "find (\<lambda>r. Provider r = code
                    \<and> ProviderCallbackHash r = TrimSpace (hc_CallbackHash req)) (payments w) = Some p0"
                using res found by simp
              ultimately show ?thesis
                using code reg ev \<open>evo = Some parsedEvent\<close> p3
                by (intro exI[of _ code] exI[of _ prov] exI[of _ parsedEvent] exI[of _ p0]) simp
            qed
          qed
        qed
      qed
    qed
  qed
qed


text \<open>
  Claim C9, as the code has it. If \<open>HandleProviderCallback\<close> succeeded on a request,
  handling the same request again (the provider parsing the same event) leaves the
  payment as the first application left it, except \<open>updated_at\<close>, which becomes the time
  of the second application: the status and the delivery sub-state are not touched
  (no re-arming), and a second PaymentCallback row with status PROCESSED is written
  for the payment. The table has a primary key and the second application's storage
  calls do not fail.
\<close>

theorem callback_replay:
  assumes first: "HandleProviderCallback s now req w = (Inr p1, w1)"
    and pk: "primary_key w"
    and io: "io_script w1 = []"
  shows "\<exists>row w2.
      HandleProviderCallback s now' req w1 = (Inr (p1\<lparr>UpdatedAt := now'\<rparr>), w2)
      \<and> payments w2 = map (\<lambda>r. if r = p1 then p1\<lparr>UpdatedAt := now'\<rparr> else r) (payments w1)
      \<and> payment_callbacks w2 = payment_callbacks w1 @ [row]
      \<and> pc_Status row = paymentCallbackStatusProcessed
      \<and> pc_PaymentID row = Some (ID p1)"
proof -
  from HandleProviderCallback_success[OF first] obtain code prov ev p0 where
    tag: "parseProviderCode (hc_Provider req) = Inr code"
    and reg: "providerReg s code = Some prov"
    and ev: "prov_VerifyAndParseCallback prov (hc_Payload req) (TrimSpace (hc_Signature req))
              = Inr (Some ev)"
    and f0: "find (\<lambda>r. Provider r = code \<and> ProviderCallbackHash r = TrimSpace (hc_CallbackHash req))
              (payments w) = Some p0"
    and p1: "p1 = applyCallbackEvent ev now p0"
    and pw: "payments w1 = map (\<lambda>r. if ID r = ID p1 then update_columns r p1 else r) (payments w)"
    by blast
  let ?P = "\<lambda>r. Provider r = code \<and> ProviderCallbackHash r = TrimSpace (hc_CallbackHash req)"
  have mem0: "p0 \<in> set (payments w)" and P0: "?P p0"
    using f0 by (auto simp: find_Some_iff)
  have id1: "ID p1 = ID p0" by (simp add: p1)
  have uc: "update_columns p0 p1 = p1"
    by (rule update_columns_same) (simp_all add: p1)
  have pw1: "payments w1 = map (\<lambda>r. if r = p0 then p1 else r) (payments w)"
    using update_own_rows[OF pk[unfolded primary_key_def] mem0 uc id1] pw by simp
  have P1: "?P p1" using P0 by (simp add: p1)
  have f1: "find ?P (payments w1) = Some p1"
    unfolding pw1 by (rule find_replace[OF f0 P1])
  have pk1: "primary_key w1"
    unfolding primary_key_def pw1 replace_keeps_ids[OF id1]
    using pk by (simp only: primary_key_def)
  have mem1: "p1 \<in> set (payments w1)"
    using f1 by (auto simp: find_Some_iff)
  let ?v = "log_call (CallVerifyAndParseCallback (hc_Payload req) (TrimSpace (hc_Signature req))) w1"
  have iov: "io_script ?v = []" and pkv: "primary_key ?v" and memv: "p1 \<in> set (payments ?v)"
    and fv: "find ?P (payments ?v) = Some p1"
    using io pk1 mem1 f1 by (simp_all add: log_call_def primary_key_def)
  have rg: "Registry_Get (providerReg s) code = Inr prov" using reg by (simp add: Registry_Get_def)
  have again: "applyCallbackEvent ev now' p1 = p1\<lparr>UpdatedAt := now'\<rparr>"
    unfolding p1 by (rule applyCallbackEvent_replay)
  have upd: "repo_Update (p1\<lparr>UpdatedAt := now'\<rparr>) ?v =
      (None, ?v\<lparr>payments := map (\<lambda>x. if x = p1 then p1\<lparr>UpdatedAt := now'\<rparr> else x) (payments ?v)\<rparr>)"
    by (rule repo_Update_own_row[OF iov pkv memv]) simp_all
  show ?thesis
    using tag rg ev fv again upd iov
    by (simp add: HandleProviderCallback_def Let_def repo_FindByCallbackHash_nil
          eventRepo_Create_nil callbackRepo_Create_nil split del: if_split)
       (simp add: log_call_def)
qed


theorem callback_replay_witness:
  "fst (HandleProviderCallback (test_service 10) 9 (test_callback ''stripe'')
          (snd (HandleProviderCallback (test_service 10) 5 (test_callback ''stripe'')
                  (test_world [test_payment 2]))))
    = Inr ((projr (fst (HandleProviderCallback (test_service 10) 5 (test_callback ''stripe'')
                  (test_world [test_payment 2]))))\<lparr>UpdatedAt := 9\<rparr>)
   \<and> map pc_Status (payment_callbacks
         (snd (HandleProviderCallback (test_service 10) 9 (test_callback ''stripe'')
          (snd (HandleProviderCallback (test_service 10) 5 (test_callback ''stripe'')
                  (test_world [test_payment 2]))))))
    = [paymentCallbackStatusProcessed, paymentCallbackStatusProcessed]"
proof -
  let ?R = "HandleProviderCallback (test_service 10) 5 (test_callback ''stripe'')
              (test_world [test_payment 2])"
  have ok: "\<not> isl (fst ?R)" by code_simp
  then have first: "?R = (Inr (projr (fst ?R)), snd ?R)"
    by (metis prod.collapse sum.collapse(2))
  have pk: "primary_key (test_world [test_payment 2])"
    by (simp add: primary_key_def test_world_def)
  have io: "io_script (snd ?R) = []" by code_simp
  have c: "map pc_Status (payment_callbacks (snd ?R)) = [paymentCallbackStatusProcessed]"
    by code_simp
  from callback_replay[OF first pk io, of 9] obtain row w2 where
    r: "HandleProviderCallback (test_service 10) 9 (test_callback ''stripe'') (snd ?R)
          = (Inr ((projr (fst ?R))\<lparr>UpdatedAt := 9\<rparr>), w2)"
    and cb: "payment_callbacks w2 = payment_callbacks (snd ?R) @ [row]"
    and st: "pc_Status row = paymentCallbackStatusProcessed"
    by blast
  show ?thesis
    unfolding r using cb st c by simp
qed

text \<open>
  Claim C9 as it is stated does not hold: the second application rewrites
  \<open>updated_at\<close>, so the stored payment differs from the one the first application left.
\<close>

theorem replayed_callback_bumps_updated_at:
  "map UpdatedAt (payments
      (snd (HandleProviderCallback (test_service 10) 5 (test_callback ''stripe'')
              (test_world [test_payment 2])))) = [5]
   \<and> map UpdatedAt (payments
      (snd (HandleProviderCallback (test_service 10) 9 (test_callback ''stripe'')
        (snd (HandleProviderCallback (test_service 10) 5 (test_callback ''stripe'')
              (test_world [test_payment 2])))))) = [9]"
  by code_simp

subsection \<open>C1: changes of a terminal status\<close>

text \<open>
  Claim C1, as the code has it. \<open>CancelPayment\<close> never changes a PAID payment (it fails
  with \<open>ErrInvalidStatus\<close> and the world is unchanged), and moves every other payment,
  whether its status is terminal or not, to CANCELED. \<open>HandleProviderCallback\<close> sets
  the status of the payment it finds to the parsed event's \<open>new_status\<close> whenever
  \<open>new_status > 0\<close>, whatever the current status, and keeps the status otherwise.
  (Storage works and the table has a primary key.)
\<close>

theorem status_changes_by_design:
  "(io_script w = [] \<and> find (\<lambda>r. ID r = cr_Id creq) (payments w) = Some p
      \<and> Status p = PAYMENT_STATUS_PAID
     \<longrightarrow> CancelPayment s now creq w
          = (Inl (Wrapped ErrInvalidStatus ''paid payments cannot be canceled''), w))
   \<and> (io_script w = [] \<and> primary_key w
      \<and> find (\<lambda>r. ID r = cr_Id creq) (payments w) = Some p
      \<and> Status p \<noteq> PAYMENT_STATUS_PAID
     \<longrightarrow> (\<exists>p' w'. CancelPayment s now creq w = (Inr p', w')
            \<and> Status p' = PAYMENT_STATUS_CANCELED
            \<and> payments w' = map (\<lambda>r. if r = p then p' else r) (payments w)))
   \<and> (io_script w = [] \<and> primary_key w
      \<and> parseProviderCode (hc_Provider req) = Inr code
      \<and> providerReg s code = Some prov
      \<and> prov_VerifyAndParseCallback prov (hc_Payload req) (TrimSpace (hc_Signature req))
          = Inr (Some ev)
      \<and> find (\<lambda>r. Provider r = code \<and> ProviderCallbackHash r = TrimSpace (hc_CallbackHash req))
          (payments w) = Some q
     \<longrightarrow> (\<exists>q' w'. HandleProviderCallback s now req w = (Inr q', w')
            \<and> Status q' = (if 0 < sint (ce_NewStatus ev) then ce_NewStatus ev else Status q)
            \<and> payments w' = map (\<lambda>r. if r = q then q' else r) (payments w)))"
proof (intro conjI impI)
  assume "io_script w = [] \<and> find (\<lambda>r. ID r = cr_Id creq) (payments w) = Some p
      \<and> Status p = PAYMENT_STATUS_PAID"
  then show "CancelPayment s now creq w
          = (Inl (Wrapped ErrInvalidStatus ''paid payments cannot be canceled''), w)"
    by (simp add: CancelPayment_def repo_FindByID_nil)
next
  assume a: "io_script w = [] \<and> primary_key w
      \<and> find (\<lambda>r. ID r = cr_Id creq) (payments w) = Some p
      \<and> Status p \<noteq> PAYMENT_STATUS_PAID"
  then have io: "io_script w = []" and pk: "primary_key w" and mem: "p \<in> set (payments w)"
    by (auto simp: find_Some_iff)
  show "\<exists>p' w'. CancelPayment s now creq w = (Inr p', w')
            \<and> Status p' = PAYMENT_STATUS_CANCELED
            \<and> payments w' = map (\<lambda>r. if r = p then p' else r) (payments w)"
    using a
    by (simp add: CancelPayment_def repo_FindByID_nil Let_def markForCallbackDelivery_def
          repo_Update_own_row[where r = p, OF io pk mem] eventRepo_Create_nil)
next
  let ?v = "log_call (CallVerifyAndParseCallback (hc_Payload req) (TrimSpace (hc_Signature req))) w"
  assume a: "io_script w = [] \<and> primary_key w
      \<and> parseProviderCode (hc_Provider req) = Inr code
      \<and> providerReg s code = Some prov
      \<and> prov_VerifyAndParseCallback prov (hc_Payload req) (TrimSpace (hc_Signature req))
          = Inr (Some ev)
      \<and> find (\<lambda>r. Provider r = code \<and> ProviderCallbackHash r = TrimSpace (hc_CallbackHash req))
          (payments w) = Some q"
  then have iov: "io_script ?v = []" and pkv: "primary_key ?v" and memv: "q \<in> set (payments ?v)"
    and fv: "find (\<lambda>r. Provider r = code \<and> ProviderCallbackHash r = TrimSpace (hc_CallbackHash req))
          (payments ?v) = Some q"
    by (auto simp: find_Some_iff log_call_def primary_key_def)
  have rg: "Registry_Get (providerReg s) code = Inr prov" using a by (simp add: Registry_Get_def)
  have upd: "repo_Update (applyCallbackEvent ev now q) ?v =
      (None, ?v\<lparr>payments := map (\<lambda>x. if x = q then applyCallbackEvent ev now q else x)
                  (payments ?v)\<rparr>)"
    by (rule repo_Update_own_row[OF iov pkv memv]) simp_all
  show "\<exists>q' w'. HandleProviderCallback s now req w = (Inr q', w')
            \<and> Status q' = (if 0 < sint (ce_NewStatus ev) then ce_NewStatus ev else Status q)
            \<and> payments w' = map (\<lambda>r. if r = q then q' else r) (payments w)"
    using a rg fv upd iov
    by (simp add: HandleProviderCallback_def Let_def repo_FindByCallbackHash_nil
          eventRepo_Create_nil callbackRepo_Create_nil applyCallbackEvent_Status
          split del: if_split)
qed

theorem status_changes_by_design_witness:
  "CancelPayment (test_service 10) 5 \<lparr>cr_Id = 1, cr_Reason = ''duplicate''\<rparr>
      (test_world [test_payment 10])
    = (Inl (Wrapped ErrInvalidStatus ''paid payments cannot be canceled''),
       test_world [test_payment 10])
   \<and> map Status (payments (snd (CancelPayment (test_service 10) 5
         \<lparr>cr_Id = 1, cr_Reason = ''duplicate''\<rparr> (test_world [test_payment 20]))))
      = [PAYMENT_STATUS_CANCELED]
   \<and> map Status (payments (snd (HandleProviderCallback (test_service 30) 5
         (test_callback ''stripe'') (test_world [test_payment 10]))))
      = [30]
   \<and> map Status (payments (snd (HandleProviderCallback (test_service 0) 5
         (test_callback ''stripe'') (test_world [test_payment 10]))))
      = [10]"
proof -
  let ?cr = "\<lparr>cr_Id = 1, cr_Reason = ''duplicate''\<rparr>"
  let ?req = "test_callback ''stripe''"
  let ?prov = "\<lambda>st. serviceProvider (Inr test_created) (Inr (Some (test_event st))) (Inr st)"
  let ?find = "\<lambda>w. find (\<lambda>r. Provider r = PROVIDER_TYPE_STRIPE
                    \<and> ProviderCallbackHash r = TrimSpace (hc_CallbackHash ?req)) (payments w)"
  have w: "io_script (test_world [test_payment st]) = []" "primary_key (test_world [test_payment st])"
    "find (\<lambda>r. ID r = cr_Id ?cr) (payments (test_world [test_payment st])) = Some (test_payment st)"
    "payments (test_world [test_payment st]) = [test_payment st]"
    "Status (test_payment st) = st" for st
    by (simp_all add: test_world_def primary_key_def test_payment_def)
  have paid: "(10 :: int32) = PAYMENT_STATUS_PAID" "(20 :: int32) \<noteq> PAYMENT_STATUS_PAID"
    by (simp_all add: PAYMENT_STATUS_PAID_def)
  have tag: "parseProviderCode (hc_Provider ?req) = Inr PROVIDER_TYPE_STRIPE" by code_simp
  have reg: "providerReg (test_service st) PROVIDER_TYPE_STRIPE = Some (?prov st)" for st
    by (simp add: test_service_def newPaymentServiceForTest_def NewRegistry_def
          serviceProvider_def)
  have v: "prov_VerifyAndParseCallback (?prov st) x y = Inr (Some (test_event st))" for st x y
    by (simp add: serviceProvider_def)
  have f: "?find (test_world [test_payment 10]) = Some (test_payment 10)"
    by code_simp
  have ns: "ce_NewStatus (test_event st) = st" for st by (simp add: test_event_def)
  have pos: "0 < sint (30 :: int32)" "\<not> 0 < sint (0 :: int32)" by simp_all
  note t = status_changes_by_design[where now = 5 and creq = ?cr and req = ?req
      and code = PROVIDER_TYPE_STRIPE]
  have c1: "CancelPayment (test_service 10) 5 ?cr (test_world [test_payment 10])
      = (Inl (Wrapped ErrInvalidStatus ''paid payments cannot be canceled''),
         test_world [test_payment 10])"
    using t[where w = "test_world [test_payment 10]" and p = "test_payment 10"
        and s = "test_service 10", THEN conjunct1] w paid by simp
  have c2: "map Status (payments (snd (CancelPayment (test_service 10) 5 ?cr
        (test_world [test_payment 20])))) = [PAYMENT_STATUS_CANCELED]"
    using t[where w = "test_world [test_payment 20]" and p = "test_payment 20"
        and s = "test_service 10", THEN conjunct2, THEN conjunct1] w paid by auto
  have c3: "map Status (payments (snd (HandleProviderCallback (test_service 30) 5 ?req
        (test_world [test_payment 10])))) = [30]"
    using t[where w = "test_world [test_payment 10]" and q = "test_payment 10"
        and s = "test_service 30" and prov = "?prov 30" and ev = "test_event 30",
        THEN conjunct2, THEN conjunct2] w tag reg[of 30] v[of 30] f ns pos by auto
  have c4: "map Status (payments (snd (HandleProviderCallback (test_service 0) 5 ?req
        (test_world [test_payment 10])))) = [10]"
    using t[where w = "test_world [test_payment 10]" and q = "test_payment 10"
        and s = "test_service 0" and prov = "?prov 0" and ev = "test_event 0",
        THEN conjunct2, THEN conjunct2] w tag reg[of 0] v[of 0] f ns pos by auto
  show ?thesis using c1 c2 c3 c4 by simp
qed

text \<open>
  Claim C1 as it is stated does not hold: a FAILED payment is moved to CANCELED by
  \<open>CancelPayment\<close>, and a PAID payment is moved to CANCELED by a provider callback whose
  event maps to CANCELED.
\<close>

theorem terminal_status_overwritten:
  "terminalStatus (Status (test_payment PAYMENT_STATUS_FAILED))
   \<and> map Status (payments (snd (CancelPayment (test_service 10) 5
         \<lparr>cr_Id = 1, cr_Reason = ''duplicate''\<rparr>
         (test_world [test_payment PAYMENT_STATUS_FAILED])))) = [PAYMENT_STATUS_CANCELED]
   \<and> terminalStatus (Status (test_payment PAYMENT_STATUS_PAID))
   \<and> map Status (payments (snd (HandleProviderCallback (test_service PAYMENT_STATUS_CANCELED) 5
         (test_callback ''stripe'') (test_world [test_payment PAYMENT_STATUS_PAID]))))
      = [PAYMENT_STATUS_CANCELED]"
  by code_simp

end
